(* ===== verification/Prelude.thy ===== *)
theory Prelude
  imports Complex_Main
begin

text \<open>
  Shared vocabulary of the WeatherAPI development: the collections of evaluation rules
  that the component theories fill, the first-match search on lists that both
  \<open>Array.prototype.indexOf\<close> and the weather-code table use, decimal printing of
  integers (JavaScript's \<open>String(n)\<close> for integral numbers, used for object keys and
  for the one-decimal temperatures of the dashboard), and the list facts about
  \<open>take\<close> and \<open>filter\<close> that the recency list needs.
\<close>

named_theorems js_simps "evaluation rules of the modelled JavaScript operations"
named_theorems dash_simps "evaluation rules of the dashboard handlers"

section \<open>First match in a list\<close>

fun first_index :: "('a \<Rightarrow> bool) \<Rightarrow> 'a list \<Rightarrow> nat option" where
  "first_index p [] = None"
| "first_index p (x # xs) = (if p x then Some 0 else map_option Suc (first_index p xs))"

lemma first_index_None_iff: "first_index p xs = None \<longleftrightarrow> (\<forall>x \<in> set xs. \<not> p x)"
  by (induction xs) auto

lemma first_index_Some:
  "first_index p xs = Some i \<Longrightarrow> i < length xs \<and> p (xs ! i) \<and> (\<forall>j < i. \<not> p (xs ! j))"
proof (induction xs arbitrary: i)
  case Nil
  then show ?case by simp
next
  case (Cons x xs)
  show ?case
  proof (cases "p x")
    case True
    with Cons.prems show ?thesis by simp
  next
    case False
    with Cons.prems obtain i' where i': "first_index p xs = Some i'" and "i = Suc i'"
      by auto
    with Cons.IH [OF i'] False show ?thesis
      by (auto simp: less_Suc_eq_0_disj)
  qed
qed

lemma first_index_nth:
  assumes "i < length xs" "p (xs ! i)" "\<forall>j < i. \<not> p (xs ! j)"
  shows "first_index p xs = Some i"
  using assms
proof (induction xs arbitrary: i)
  case Nil
  then show ?case by simp
next
  case (Cons x xs)
  show ?case
  proof (cases i)
    case 0
    with Cons.prems show ?thesis by simp
  next
    case (Suc i')
    from Cons.prems(3) Suc have "\<not> p x" by auto
    moreover have "\<forall>j < i'. \<not> p (xs ! j)"
    proof (intro allI impI)
      fix j
      assume "j < i'"
      with Suc have "Suc j < i" by simp
      with Cons.prems(3) show "\<not> p (xs ! j)" by fastforce
    qed
    ultimately show ?thesis
      using Cons.IH [of i'] Cons.prems(1,2) Suc by simp
  qed
qed

section \<open>Decimal printing of integers\<close>

definition digit_char :: "nat \<Rightarrow> char" where
  "digit_char d = char_of (48 + d)"

fun nat_str :: "nat \<Rightarrow> string" where
  "nat_str n = (if n < 10 then [digit_char n] else nat_str (n div 10) @ [digit_char (n mod 10)])"

declare nat_str.simps [simp del]

definition int_str :: "int \<Rightarrow> string" where
  "int_str i = (if i < 0 then CHR ''-'' # nat_str (nat (- i)) else nat_str (nat i))"

lemma nat_str_ne [simp]: "nat_str n \<noteq> []"
  by (subst nat_str.simps) simp

lemma nat_str_small [simp]: "n < 10 \<Longrightarrow> nat_str n = [digit_char n]"
  by (subst nat_str.simps) simp

lemma nat_str_big: "\<not> n < 10 \<Longrightarrow> nat_str n = nat_str (n div 10) @ [digit_char (n mod 10)]"
  by (subst nat_str.simps) simp

text \<open>Reading decimal digits back.\<close>

definition digit_val :: "char \<Rightarrow> nat" where
  "digit_val c = of_char c - 48"

definition parse_nat :: "string \<Rightarrow> nat" where
  "parse_nat s = foldl (\<lambda>acc c. acc * 10 + digit_val c) 0 s"

lemma digit_char_simps [simp]:
  "digit_char 0 = CHR ''0''" "digit_char 1 = CHR ''1''" "digit_char 2 = CHR ''2''"
  "digit_char 3 = CHR ''3''" "digit_char 4 = CHR ''4''" "digit_char 5 = CHR ''5''"
  "digit_char 6 = CHR ''6''" "digit_char 7 = CHR ''7''" "digit_char 8 = CHR ''8''"
  "digit_char 9 = CHR ''9''" "digit_char (Suc 0) = CHR ''1''"
  by (unfold digit_char_def; code_simp)+

lemma parse_nat_Nil [simp]: "parse_nat [] = 0"
  by (simp add: parse_nat_def)

lemma parse_nat_single [simp]: "parse_nat [c] = digit_val c"
  by (simp add: parse_nat_def)

lemma of_char_digit [simp]: "d < 10 \<Longrightarrow> of_char (digit_char d) = 48 + d"
  by (simp add: digit_char_def)

lemma digit_val_digit [simp]: "d < 10 \<Longrightarrow> digit_val (digit_char d) = d"
  by (simp add: digit_val_def)

lemma digit_char_not_sign [simp]:
  assumes "d < 10"
  shows "digit_char d \<noteq> CHR ''.''" "digit_char d \<noteq> CHR ''-''" "digit_char d \<noteq> CHR 0xC2"
proof -
  have "(of_char (digit_char d) :: nat) \<in> {48..<58}" using assms by simp
  then show "digit_char d \<noteq> CHR ''.''" "digit_char d \<noteq> CHR ''-''" "digit_char d \<noteq> CHR 0xC2"
    by auto
qed

lemma nat_str_digits: "c \<in> set (nat_str n) \<Longrightarrow> \<exists>d < 10. c = digit_char d"
proof (induction n rule: nat_str.induct)
  case (1 n)
  show ?case
  proof (cases "n < 10")
    case True
    with "1.prems" show ?thesis by auto
  next
    case False
    with "1.prems" have "c \<in> set (nat_str (n div 10)) \<or> c = digit_char (n mod 10)"
      by (auto simp: nat_str_big)
    then show ?thesis
    proof
      assume "c = digit_char (n mod 10)"
      then show ?thesis by (intro exI [of _ "n mod 10"]) simp
    qed (use "1.IH" False in blast)
  qed
qed

lemma nat_str_no_sign [simp]:
  "CHR ''.'' \<notin> set (nat_str n)" "CHR ''-'' \<notin> set (nat_str n)" "CHR 0xC2 \<notin> set (nat_str n)"
  using nat_str_digits [of _ n] digit_char_not_sign by fastforce+

lemma parse_nat_snoc: "parse_nat (xs @ [c]) = parse_nat xs * 10 + digit_val c"
  by (simp add: parse_nat_def)

lemma parse_nat_nat_str [simp]: "parse_nat (nat_str n) = n"
proof (induction n rule: nat_str.induct)
  case (1 n)
  show ?case
  proof (cases "n < 10")
    case True
    then show ?thesis by (simp add: parse_nat_def)
  next
    case False
    with "1.IH" show ?thesis by (simp add: nat_str_big parse_nat_snoc)
  qed
qed

section \<open>Prefixes of filtered lists\<close>

text \<open>
  \<open>filter p (take k xs)\<close> is a prefix of \<open>filter p xs\<close>, so once it is long enough
  both agree on their first \<open>m\<close> elements.
\<close>

lemma take_filter_take:
  assumes "m \<le> length (filter p (take k xs))"
  shows "take m (filter p (take k xs)) = take m (filter p xs)"
proof -
  have "filter p xs = filter p (take k xs) @ filter p (drop k xs)"
    by (metis append_take_drop_id filter_append)
  with assms show ?thesis by simp
qed

text \<open>Removing one value from a list without duplicates drops at most one element.\<close>

lemma length_filter_neq_distinct:
  "distinct xs \<Longrightarrow> length xs \<le> Suc (length (filter (\<lambda>y. y \<noteq> x) xs))"
proof (induction xs)
  case Nil
  then show ?case by simp
next
  case (Cons y ys)
  show ?case
  proof (cases "y = x")
    case True
    with Cons.prems have "filter (\<lambda>y. y \<noteq> x) ys = ys"
      by (auto simp: filter_id_conv)
    with True show ?thesis by simp
  next
    case False
    with Cons show ?thesis by simp
  qed
qed

lemma distinct_take_filter [intro]: "distinct xs \<Longrightarrow> distinct (take n (filter p xs))"
  by simp

end
