(* ===== verification/JsValue.thy ===== *)
theory JsValue
  imports Prelude
begin

text \<open>
  The fragment of JavaScript's runtime that the repository's code relies on, written from
  the language's semantics (it is not code of the repository, so none of it is in the
  source map): JSON-shaped values, property and index reads with the \<open>TypeError\<close> that
  reading from \<open>undefined\<close> or \<open>null\<close> raises, optional chaining \<open>?.\<close>, nullish
  coalescing \<open>??\<close>, logical or \<open>||\<close> on truthiness, strict equality \<open>===\<close>, and
  \<open>Array.prototype.indexOf\<close>.

  Modelling choices: numbers are exact reals (IEEE rounding and \<open>NaN\<close> are not
  modelled; JSON has neither); strings are byte strings; arrays and objects parsed from
  separate JSON texts are distinct references, so \<open>===\<close> on them is false; an object is
  the key/value list of its JSON text and a repeated key reads its last value, as
  \<open>JSON.parse\<close> keeps it. \<open>indexOf\<close> on a string receiver (\<open>String.prototype.indexOf\<close>)
  is outside the model: it is treated like the other non-array receivers.
\<close>

datatype jsval =
    JUndef
  | JNull
  | JBool bool
  | JNum real
  | JStr string
  | JArr "jsval list"
  | JObj "(string \<times> jsval) list"

datatype js_error = TypeError

type_synonym 'a js = "js_error + 'a"

definition js_bind :: "'a js \<Rightarrow> ('a \<Rightarrow> 'b js) \<Rightarrow> 'b js" where
  "js_bind m f = (case m of Inl e \<Rightarrow> Inl e | Inr x \<Rightarrow> f x)"

lemma js_bind_simps [simp, js_simps]:
  "js_bind (Inl e) f = Inl e"
  "js_bind (Inr x) f = f x"
  by (simp_all add: js_bind_def)

lemma js_bind_Inr_iff: "js_bind m f = Inr y \<longleftrightarrow> (\<exists>x. m = Inr x \<and> f x = Inr y)"
  by (cases m) auto

section \<open>Nullish values and truthiness\<close>

fun nullish :: "jsval \<Rightarrow> bool" where
  "nullish JUndef = True"
| "nullish JNull = True"
| "nullish _ = False"

fun truthy :: "jsval \<Rightarrow> bool" where
  "truthy JUndef = False"
| "truthy JNull = False"
| "truthy (JBool b) = b"
| "truthy (JNum n) = (n \<noteq> 0)"
| "truthy (JStr s) = (s \<noteq> [])"
| "truthy (JArr xs) = True"
| "truthy (JObj kvs) = True"

text \<open>\<open>a || b\<close>: the right operand only when the left one is falsy.\<close>

definition js_or :: "jsval \<Rightarrow> jsval \<Rightarrow> jsval" where
  "js_or a b = (if truthy a then a else b)"

text \<open>
  \<open>a ?? b\<close>: the right operand (which may itself raise) only when the left one is
  \<open>null\<close> or \<open>undefined\<close>.
\<close>

definition js_coalesce :: "jsval \<Rightarrow> jsval js \<Rightarrow> jsval js" where
  "js_coalesce a b = (if nullish a then b else Inr a)"

fun strict_eq :: "jsval \<Rightarrow> jsval \<Rightarrow> bool" where
  "strict_eq JUndef JUndef = True"
| "strict_eq JNull JNull = True"
| "strict_eq (JBool a) (JBool b) = (a = b)"
| "strict_eq (JNum a) (JNum b) = (a = b)"
| "strict_eq (JStr a) (JStr b) = (a = b)"
| "strict_eq _ _ = False"

lemma strict_eq_sym: "strict_eq a b = strict_eq b a"
  by (cases a; cases b) auto

lemma strict_eq_JStr [simp]: "strict_eq (JStr s) v \<longleftrightarrow> v = JStr s"
  by (cases v) auto

lemma strict_eq_JStr2 [simp]: "strict_eq v (JStr s) \<longleftrightarrow> v = JStr s"
  by (cases v) auto

lemma strict_eq_imp_eq: "strict_eq a b \<Longrightarrow> a = b"
  by (cases a; cases b) auto

text \<open>The JSON type of a value (\<open>typeof\<close> and \<open>Array.isArray\<close>).\<close>

fun is_obj :: "jsval \<Rightarrow> bool" where
  "is_obj (JObj kvs) = True"
| "is_obj _ = False"

fun is_arr :: "jsval \<Rightarrow> bool" where
  "is_arr (JArr xs) = True"
| "is_arr _ = False"

fun is_str :: "jsval \<Rightarrow> bool" where
  "is_str (JStr s) = True"
| "is_str _ = False"

lemma is_obj_not_nullish [simp]: "is_obj v \<Longrightarrow> nullish v = False"
  by (cases v) auto

lemma is_arr_not_nullish [simp]: "is_arr v \<Longrightarrow> nullish v = False"
  by (cases v) auto

lemma is_str_not_nullish [simp]: "is_str v \<Longrightarrow> nullish v = False"
  by (cases v) auto

section \<open>Property and index reads\<close>

definition obj_get :: "(string \<times> jsval) list \<Rightarrow> string \<Rightarrow> jsval" where
  "obj_get kvs k = (case map_of (rev kvs) k of None \<Rightarrow> JUndef | Some v \<Rightarrow> v)"

text \<open>\<open>v.k\<close> for the identifier keys the code reads (none of them is a method name).\<close>

fun get_prop :: "jsval \<Rightarrow> string \<Rightarrow> jsval js" where
  "get_prop JUndef k = Inl TypeError"
| "get_prop JNull k = Inl TypeError"
| "get_prop (JObj kvs) k = Inr (obj_get kvs k)"
| "get_prop (JArr xs) k = Inr (if k = ''length'' then JNum (of_nat (length xs)) else JUndef)"
| "get_prop (JStr s) k = Inr (if k = ''length'' then JNum (of_nat (length s)) else JUndef)"
| "get_prop (JNum n) k = Inr JUndef"
| "get_prop (JBool b) k = Inr JUndef"

text \<open>\<open>v[i]\<close> for an integer index; an object is read at the key \<open>String(i)\<close>.\<close>

fun get_index :: "jsval \<Rightarrow> int \<Rightarrow> jsval js" where
  "get_index JUndef i = Inl TypeError"
| "get_index JNull i = Inl TypeError"
| "get_index (JArr xs) i = Inr (if 0 \<le> i \<and> i < int (length xs) then xs ! nat i else JUndef)"
| "get_index (JStr s) i = Inr (if 0 \<le> i \<and> i < int (length s) then JStr [s ! nat i] else JUndef)"
| "get_index (JObj kvs) i = Inr (obj_get kvs (int_str i))"
| "get_index (JNum n) i = Inr JUndef"
| "get_index (JBool b) i = Inr JUndef"

text \<open>\<open>v?.k\<close> and \<open>v?.[i]\<close>: \<open>undefined\<close> on a nullish receiver, the read otherwise.\<close>

definition get_opt :: "jsval \<Rightarrow> string \<Rightarrow> jsval" where
  "get_opt v k = (if nullish v then JUndef else (case get_prop v k of Inr r \<Rightarrow> r | Inl e \<Rightarrow> JUndef))"

definition get_index_opt :: "jsval \<Rightarrow> int \<Rightarrow> jsval" where
  "get_index_opt v i = (if nullish v then JUndef else (case get_index v i of Inr r \<Rightarrow> r | Inl e \<Rightarrow> JUndef))"

lemma get_prop_fails_iff: "(\<exists>e. get_prop v k = Inl e) \<longleftrightarrow> nullish v"
  by (cases v) auto

lemma get_index_fails_iff: "(\<exists>e. get_index v i = Inl e) \<longleftrightarrow> nullish v"
  by (cases v) auto

lemma get_prop_Inr [simp]: "\<not> nullish v \<Longrightarrow> get_prop v k = Inr (get_opt v k)"
  by (cases v) (auto simp: get_opt_def)

lemma get_index_Inr [simp]: "\<not> nullish v \<Longrightarrow> get_index v i = Inr (get_index_opt v i)"
  by (cases v) (auto simp: get_index_opt_def)

lemma get_opt_nullish [simp]: "nullish v \<Longrightarrow> get_opt v k = JUndef"
  by (simp add: get_opt_def)

lemma get_index_opt_nullish [simp]: "nullish v \<Longrightarrow> get_index_opt v i = JUndef"
  by (simp add: get_index_opt_def)

lemma get_opt_simps [simp, js_simps]:
  "get_opt (JObj kvs) k = obj_get kvs k"
  "get_opt (JArr xs) k = (if k = ''length'' then JNum (of_nat (length xs)) else JUndef)"
  "get_opt (JStr s) k = (if k = ''length'' then JNum (of_nat (length s)) else JUndef)"
  "get_opt (JNum n) k = JUndef"
  "get_opt (JBool b) k = JUndef"
  by (simp_all add: get_opt_def)

lemma get_index_opt_simps [simp, js_simps]:
  "get_index_opt (JArr xs) i = (if 0 \<le> i \<and> i < int (length xs) then xs ! nat i else JUndef)"
  "get_index_opt (JStr s) i = (if 0 \<le> i \<and> i < int (length s) then JStr [s ! nat i] else JUndef)"
  "get_index_opt (JObj kvs) i = obj_get kvs (int_str i)"
  "get_index_opt (JNum n) i = JUndef"
  "get_index_opt (JBool b) i = JUndef"
  by (simp_all add: get_index_opt_def)

section \<open>Array.prototype.indexOf\<close>

definition index_of :: "jsval \<Rightarrow> jsval \<Rightarrow> int js" where
  "index_of recv x = (case recv of
      JArr xs \<Rightarrow> Inr (case first_index (\<lambda>y. strict_eq y x) xs of None \<Rightarrow> -1 | Some i \<Rightarrow> int i)
    | _ \<Rightarrow> Inl TypeError)"

lemma index_of_absent:
  assumes "\<forall>y \<in> set xs. \<not> strict_eq y x"
  shows "index_of (JArr xs) x = Inr (-1)"
proof -
  from assms have "first_index (\<lambda>y. strict_eq y x) xs = None" by (simp add: first_index_None_iff)
  then show ?thesis by (simp add: index_of_def)
qed

lemma index_of_found:
  assumes "i < length xs" "strict_eq (xs ! i) x" "\<forall>j < i. \<not> strict_eq (xs ! j) x"
  shows "index_of (JArr xs) x = Inr (int i)"
  using first_index_nth [of i xs "\<lambda>y. strict_eq y x", OF assms] by (simp add: index_of_def)

lemma index_of_range:
  "index_of (JArr xs) x = Inr i \<Longrightarrow> i = -1 \<or> (0 \<le> i \<and> i < int (length xs))"
  by (auto simp: index_of_def dest!: first_index_Some split: option.splits)

section \<open>JSON round trip of array elements\<close>

text \<open>
  \<open>JSON.stringify\<close> writes an \<open>undefined\<close> array element as \<open>null\<close>; every other
  value read from a JSON response is written back as the same JSON text. The model keeps
  what \<open>JSON.parse\<close> gives back.
\<close>

definition json_elem :: "jsval \<Rightarrow> jsval" where
  "json_elem v = (if v = JUndef then JNull else v)"

lemma json_elem_idem [simp]: "json_elem (json_elem v) = json_elem v"
  by (simp add: json_elem_def)

end
