(* ===== verification/Geocoder.thy ===== *)
theory Geocoder
  imports JsValue
begin

text \<open>
  The geocoder adapter of \<open>src/frontend/Dashboard.js\<close>: how the dashboard reads the
  two Open-Meteo geocoding responses. \<open>geocode_search\<close> is the forward lookup of
  \<open>getWeather\<close> (lines 102--108: the "not found" test on
  \<open>geoRes.data?.results?.length\<close> and the destructuring of the first candidate);
  \<open>reverse_name\<close> is the reverse lookup of the mount effect (line 61). Both take the
  response body \<open>geoRes.data\<close> as a JSON value; the transport is the dashboard's.
\<close>

record location =
  latitude :: jsval
  longitude :: jsval
  name :: jsval
  country :: jsval

datatype search_outcome = NotFound | Found location

text \<open>\<open>geoRes.data?.results?.length\<close> (line 102).\<close>

definition results_length :: "jsval \<Rightarrow> jsval" where
  "results_length data = get_opt (get_opt data ''results'') ''length''"

text \<open>\<open>const { latitude, longitude, name, country } = v\<close> (line 108).\<close>

definition destructure_location :: "jsval \<Rightarrow> location js" where
  "destructure_location v =
     js_bind (get_prop v ''latitude'') (\<lambda>la.
     js_bind (get_prop v ''longitude'') (\<lambda>lo.
     js_bind (get_prop v ''name'') (\<lambda>n.
     js_bind (get_prop v ''country'') (\<lambda>c.
     Inr \<lparr>latitude = la, longitude = lo, name = n, country = c\<rparr>))))"

text \<open>
  Lines 102--108: no (or a falsy) \<open>results.length\<close> is "not found"; otherwise
  \<open>geoRes.data.results[0]\<close> is destructured, which raises on a \<open>null\<close> or missing
  first candidate.
\<close>

definition geocode_search :: "jsval \<Rightarrow> search_outcome js" where
  "geocode_search data =
     (if \<not> truthy (results_length data) then Inr NotFound
      else js_bind (get_prop data ''results'') (\<lambda>res.
           js_bind (get_index res 0) (\<lambda>r0.
           js_bind (destructure_location r0) (\<lambda>l. Inr (Found l)))))"

text \<open>\<open>geoRes.data?.results?.[0]?.name || "Your Location"\<close> (line 61).\<close>

definition your_location :: jsval where
  "your_location = JStr ''Your Location''"

definition reverse_name :: "jsval \<Rightarrow> jsval" where
  "reverse_name data =
     js_or (get_opt (get_index_opt (get_opt data ''results'') 0) ''name'') your_location"

section \<open>Reading a candidate\<close>

definition loc_of_obj :: "(string \<times> jsval) list \<Rightarrow> location" where
  "loc_of_obj r = \<lparr>latitude = obj_get r ''latitude'', longitude = obj_get r ''longitude'',
                   name = obj_get r ''name'', country = obj_get r ''country''\<rparr>"

lemma destructure_location_JObj [simp]: "destructure_location (JObj r) = Inr (loc_of_obj r)"
  by (simp add: destructure_location_def loc_of_obj_def)

lemma destructure_location_nullish: "nullish v \<Longrightarrow> destructure_location v = Inl TypeError"
  by (cases v) (simp_all add: destructure_location_def)

lemma results_length_JArr [simp]:
  "obj_get kvs ''results'' = JArr xs \<Longrightarrow> results_length (JObj kvs) = JNum (of_nat (length xs))"
  by (simp add: results_length_def)

section \<open>Properties of the geocoder adapter\<close>

text \<open>
  C8: a forward lookup whose \<open>results\<close> is a non-empty array starting with an object
  resolves to that first candidate, whatever the other candidates are: only the first
  candidate is used.
\<close>

theorem geocode_search_first:
  assumes "obj_get kvs ''results'' = JArr (JObj r # rest)"
  shows "geocode_search (JObj kvs) = Inr (Found (loc_of_obj r))"
  using assms by (simp add: geocode_search_def)

theorem geocode_search_first_witness:
  "geocode_search (JObj [(''results'', JArr [JObj [(''name'', JStr ''Paris'')], JObj []])])
     = Inr (Found (loc_of_obj [(''name'', JStr ''Paris'')]))"
  using geocode_search_first [of "[(''results'', JArr [JObj [(''name'', JStr ''Paris'')], JObj []])]"
      "[(''name'', JStr ''Paris'')]" "[JObj []]"]
  by (simp add: obj_get_def)

text \<open>
  C9: a forward lookup reports "not found" (and raises nothing) when the body is
  empty, has no \<open>results\<close>, or has an empty \<open>results\<close> array.
\<close>

theorem geocode_search_not_found:
  assumes "nullish data \<or> nullish (get_opt data ''results'') \<or> get_opt data ''results'' = JArr []"
  shows "geocode_search data = Inr NotFound"
proof -
  from assms have "\<not> truthy (results_length data)"
    by (auto simp: results_length_def)
  then show ?thesis by (simp add: geocode_search_def)
qed

theorem geocode_search_not_found_witness:
  "geocode_search (JObj [(''generationtime_ms'', JNum 1)]) = Inr NotFound"
  using geocode_search_not_found [of "JObj [(''generationtime_ms'', JNum 1)]"]
  by (simp add: obj_get_def)

text \<open>
  C10: a first candidate that is \<open>null\<close> makes the destructuring raise a
  \<open>TypeError\<close> (which \<open>getWeather\<close> reports as a network issue), not "not found".
\<close>

theorem geocode_search_null_candidate:
  assumes "obj_get kvs ''results'' = JArr (JNull # rest)"
  shows "geocode_search (JObj kvs) = Inl TypeError"
  using assms by (simp add: geocode_search_def destructure_location_def)

theorem geocode_search_null_candidate_witness:
  "geocode_search (JObj [(''results'', JArr [JNull])]) = Inl TypeError"
  using geocode_search_null_candidate [of "[(''results'', JArr [JNull])]" "[]"]
  by (simp add: obj_get_def)

text \<open>
  C11: the reverse lookup never raises and always yields a truthy name; without a
  truthy first candidate name it is the literal \<open>"Your Location"\<close>.
\<close>

theorem reverse_name_fallback:
  "truthy (reverse_name data) \<and>
   (\<not> truthy (get_opt (get_index_opt (get_opt data ''results'') 0) ''name'')
      \<longrightarrow> reverse_name data = your_location)"
  by (simp add: reverse_name_def js_or_def your_location_def)

theorem reverse_name_fallback_witness:
  "\<not> truthy (get_opt (get_index_opt (get_opt (JObj [(''results'', JArr [])]) ''results'') 0) ''name'')
   \<and> reverse_name (JObj [(''results'', JArr [])]) = your_location"
  using reverse_name_fallback [of "JObj [(''results'', JArr [])]"]
  by (simp add: obj_get_def)

end
