(* ===== verification/Forecast.thy ===== *)
theory Forecast
  imports Geocoder
begin

text \<open>
  The forecast normalizer of \<open>getWeather\<close> in \<open>src/frontend/Dashboard.js\<close>
  (lines 126--157): from the Open-Meteo forecast body it reads \<open>current_weather\<close>,
  \<open>hourly\<close> and \<open>daily\<close>, aligns the hourly series on \<open>current.time\<close>
  (\<open>weather_idx\<close>, line 130), looks the weather code up in \<open>codeMap\<close> (lines
  132--141, \<open>describe\<close>), cuts the time of day out of the first sunrise and sunset
  (\<open>sun_time\<close>) and builds the object passed to \<open>setWeather\<close> (\<open>normalize_weather\<close>).
  Every read that raises in JavaScript is an \<open>Inl TypeError\<close> here; \<open>getWeather\<close>'s
  \<open>catch\<close> turns it into the network message (theory \<open>Dashboard\<close>).
\<close>

record snapshot =
  city :: jsval
  country :: jsval
  temperature :: jsval
  feelsLike :: jsval
  windspeed :: jsval
  description :: jsval
  icon :: jsval
  humidity :: jsval
  precipitation :: jsval
  pressure :: jsval
  sunrise :: jsval
  sunset :: jsval
  time :: jsval

section \<open>The weather-code table\<close>

definition code_entry_obj :: "string \<Rightarrow> string \<Rightarrow> jsval" where
  "code_entry_obj d i = JObj [(''desc'', JStr d), (''icon'', JStr i)]"

text \<open>\<open>codeMap\<close> (lines 132--141); the icons are their UTF-8 bytes.\<close>

definition codeMap :: "(int \<times> jsval) list" where
  "codeMap =
    [(0, code_entry_obj ''Clear Sky'' [CHR 0xE2, CHR 0x98, CHR 0x80, CHR 0xEF, CHR 0xB8, CHR 0x8F]),
     (1, code_entry_obj ''Mainly Clear'' [CHR 0xF0, CHR 0x9F, CHR 0x8C, CHR 0xA4, CHR 0xEF, CHR 0xB8, CHR 0x8F]),
     (2, code_entry_obj ''Partly Cloudy'' [CHR 0xE2, CHR 0x9B, CHR 0x85]),
     (3, code_entry_obj ''Overcast'' [CHR 0xE2, CHR 0x98, CHR 0x81, CHR 0xEF, CHR 0xB8, CHR 0x8F]),
     (45, code_entry_obj ''Fog'' [CHR 0xF0, CHR 0x9F, CHR 0x8C, CHR 0xAB, CHR 0xEF, CHR 0xB8, CHR 0x8F]),
     (61, code_entry_obj ''Rain'' [CHR 0xF0, CHR 0x9F, CHR 0x8C, CHR 0xA7, CHR 0xEF, CHR 0xB8, CHR 0x8F]),
     (71, code_entry_obj ''Snow'' [CHR 0xE2, CHR 0x9D, CHR 0x84, CHR 0xEF, CHR 0xB8, CHR 0x8F]),
     (95, code_entry_obj ''Thunderstorm'' [CHR 0xE2, CHR 0x9B, CHR 0x88, CHR 0xEF, CHR 0xB8, CHR 0x8F])]"

text \<open>
  \<open>codeMap[c]\<close> reads the property named \<open>String(c)\<close>: a number hits the integer key
  it equals, a string the key it spells, a one-element array what its element hits;
  \<open>null\<close>, \<open>undefined\<close>, booleans, objects and longer arrays name no key of the table.
\<close>

fun key_matches :: "jsval \<Rightarrow> int \<Rightarrow> bool" where
  "key_matches (JNum n) k = (n = of_int k)"
| "key_matches (JStr s) k = (s = int_str k)"
| "key_matches (JArr [v]) k = key_matches v k"
| "key_matches _ k = False"

definition code_lookup :: "jsval \<Rightarrow> jsval" where
  "code_lookup c = (case find (\<lambda>(k, e). key_matches c k) codeMap of None \<Rightarrow> JUndef | Some (k, e) \<Rightarrow> e)"

definition unknown_icon :: string where
  "unknown_icon = [CHR 0xE2, CHR 0x9D, CHR 0x94]"

text \<open>\<open>codeMap[c]?.desc || "Unknown"\<close> and \<open>codeMap[c]?.icon || "\<dots>"\<close> (lines 149--150).\<close>

definition describe :: "jsval \<Rightarrow> jsval \<times> jsval" where
  "describe c = (js_or (get_opt (code_lookup c) ''desc'') (JStr ''Unknown''),
                 js_or (get_opt (code_lookup c) ''icon'') (JStr unknown_icon))"

section \<open>Alignment, hourly reads, sunrise and sunset\<close>

text \<open>\<open>hourly.time.indexOf(current.time) ?? 0\<close> (line 130), the \<open>?? 0\<close> written out.\<close>

definition weather_idx :: "jsval \<Rightarrow> jsval \<Rightarrow> int js" where
  "weather_idx hourly current =
     js_bind (get_prop hourly ''time'') (\<lambda>ts.
     js_bind (get_prop current ''time'') (\<lambda>t.
     js_bind (index_of ts t) (\<lambda>i.
     Inr (if nullish (JNum (of_int i)) then 0 else i))))"

text \<open>\<open>hourly.k[idx]\<close> (lines 146--153).\<close>

definition hourly_at :: "jsval \<Rightarrow> string \<Rightarrow> int \<Rightarrow> jsval js" where
  "hourly_at hourly k idx = js_bind (get_prop hourly k) (\<lambda>a. get_index a idx)"

text \<open>\<open>s.split(c)\<close> for a one-character separator.\<close>

fun split_on :: "char \<Rightarrow> string \<Rightarrow> string list" where
  "split_on c [] = [[]]"
| "split_on c (x # xs) =
     (if x = c then [] # split_on c xs else (let r = split_on c xs in (x # hd r) # tl r))"

definition js_split :: "jsval \<Rightarrow> char \<Rightarrow> jsval js" where
  "js_split v c = (case v of JStr s \<Rightarrow> Inr (JArr (map JStr (split_on c s))) | _ \<Rightarrow> Inl TypeError)"

text \<open>\<open>daily.k[0]?.split("T")[1]\<close> (lines 154--155).\<close>

definition sun_time :: "jsval \<Rightarrow> string \<Rightarrow> jsval js" where
  "sun_time daily k =
     js_bind (get_prop daily k) (\<lambda>arr.
     js_bind (get_index arr 0) (\<lambda>first.
     if nullish first then Inr JUndef
     else js_bind (js_split first (CHR ''T'')) (\<lambda>parts. get_index parts 1)))"

section \<open>The normalizer\<close>

text \<open>Lines 126--157: the reads in the source's order, then the object of \<open>setWeather\<close>.\<close>

definition normalize_weather :: "location \<Rightarrow> jsval \<Rightarrow> snapshot js" where
  "normalize_weather loc data =
     js_bind (get_prop data ''current_weather'') (\<lambda>current.
     js_bind (get_prop data ''hourly'') (\<lambda>hourly.
     js_bind (get_prop data ''daily'') (\<lambda>daily.
     js_bind (weather_idx hourly current) (\<lambda>idx.
     js_bind (get_prop current ''temperature'') (\<lambda>ct.
     js_bind (js_coalesce ct (hourly_at hourly ''temperature_2m'' idx)) (\<lambda>temp.
     js_bind (hourly_at hourly ''apparent_temperature'' idx) (\<lambda>app.
     js_bind (js_coalesce app (get_prop current ''temperature'')) (\<lambda>feels.
     js_bind (get_prop current ''windspeed'') (\<lambda>cw.
     js_bind (js_coalesce cw (hourly_at hourly ''windspeed_10m'' idx)) (\<lambda>wind.
     js_bind (get_prop current ''weathercode'') (\<lambda>code.
     js_bind (hourly_at hourly ''relative_humidity_2m'' idx) (\<lambda>hum.
     js_bind (hourly_at hourly ''precipitation'' idx) (\<lambda>prec.
     js_bind (hourly_at hourly ''pressure_msl'' idx) (\<lambda>pres.
     js_bind (sun_time daily ''sunrise'') (\<lambda>sr.
     js_bind (sun_time daily ''sunset'') (\<lambda>ss.
     js_bind (get_prop current ''time'') (\<lambda>t.
     Inr \<lparr>city = name loc, country = location.country loc,
          temperature = temp, feelsLike = feels, windspeed = wind,
          description = fst (describe code), icon = snd (describe code),
          humidity = hum, precipitation = prec, pressure = pres,
          sunrise = sr, sunset = ss, time = t\<rparr>)))))))))))))))))"

section \<open>Evaluation lemmas\<close>

lemma weather_idx_index_of:
  "weather_idx hourly current =
     js_bind (get_prop hourly ''time'') (\<lambda>ts. js_bind (get_prop current ''time'') (\<lambda>t. index_of ts t))"
proof -
  have "\<And>i. (if nullish (JNum (of_int i)) then 0 else i) = i" by simp
  then show ?thesis
    by (simp add: weather_idx_def js_bind_def split: sum.splits)
qed

lemma hourly_at_arr [simp]:
  "\<not> nullish h \<Longrightarrow> is_arr (get_opt h k) \<Longrightarrow> hourly_at h k i = Inr (get_index_opt (get_opt h k) i)"
  by (simp add: hourly_at_def)

text \<open>The value \<open>sun_time\<close> gives for a first entry that is nullish or a string.\<close>

definition sun_value :: "jsval \<Rightarrow> jsval" where
  "sun_value first = (case first of JStr s \<Rightarrow> get_index_opt (JArr (map JStr (split_on (CHR ''T'') s))) 1
                                 | _ \<Rightarrow> JUndef)"

lemma sun_time_ok:
  assumes "\<not> nullish d" "is_arr (get_opt d k)"
    and "nullish (get_index_opt (get_opt d k) 0) \<or> is_str (get_index_opt (get_opt d k) 0)"
  shows "sun_time d k = Inr (sun_value (get_index_opt (get_opt d k) 0))"
  using assms
  by (cases "get_index_opt (get_opt d k) 0")
     (simp_all add: sun_time_def sun_value_def js_split_def)

section \<open>Well-formed forecast bodies\<close>

text \<open>
  The shape of a body for the fields the request on lines 114--122 selects: objects
  \<open>current_weather\<close>, \<open>hourly\<close> and \<open>daily\<close>, the six hourly series and
  \<open>hourly.time\<close> as arrays, and \<open>daily.sunrise\<close>, \<open>daily.sunset\<close> as arrays whose
  first entry is a string or absent.
\<close>

definition hourly_ok :: "jsval \<Rightarrow> bool" where
  "hourly_ok h \<longleftrightarrow>
     is_arr (get_opt h ''time'') \<and> is_arr (get_opt h ''temperature_2m'') \<and>
     is_arr (get_opt h ''apparent_temperature'') \<and> is_arr (get_opt h ''relative_humidity_2m'') \<and>
     is_arr (get_opt h ''pressure_msl'') \<and> is_arr (get_opt h ''precipitation'') \<and>
     is_arr (get_opt h ''windspeed_10m'')"

definition sun_ok :: "jsval \<Rightarrow> bool" where
  "sun_ok a \<longleftrightarrow> is_arr a \<and> (nullish (get_index_opt a 0) \<or> is_str (get_index_opt a 0))"

definition wf_forecast :: "jsval \<Rightarrow> bool" where
  "wf_forecast data \<longleftrightarrow>
     is_obj data \<and> is_obj (get_opt data ''current_weather'') \<and>
     is_obj (get_opt data ''hourly'') \<and> hourly_ok (get_opt data ''hourly'') \<and>
     is_obj (get_opt data ''daily'') \<and>
     sun_ok (get_opt (get_opt data ''daily'') ''sunrise'') \<and>
     sun_ok (get_opt (get_opt data ''daily'') ''sunset'')"

text \<open>The object \<open>setWeather\<close> receives when no read raises, for an index \<open>idx\<close>.\<close>

definition snap_at :: "location \<Rightarrow> jsval \<Rightarrow> jsval \<Rightarrow> jsval \<Rightarrow> int \<Rightarrow> snapshot" where
  "snap_at loc cur h d idx =
     \<lparr>city = name loc, country = location.country loc,
      temperature = (if nullish (get_opt cur ''temperature'')
                     then get_index_opt (get_opt h ''temperature_2m'') idx else get_opt cur ''temperature''),
      feelsLike = (if nullish (get_index_opt (get_opt h ''apparent_temperature'') idx)
                   then get_opt cur ''temperature'' else get_index_opt (get_opt h ''apparent_temperature'') idx),
      windspeed = (if nullish (get_opt cur ''windspeed'')
                   then get_index_opt (get_opt h ''windspeed_10m'') idx else get_opt cur ''windspeed''),
      description = fst (describe (get_opt cur ''weathercode'')),
      icon = snd (describe (get_opt cur ''weathercode'')),
      humidity = get_index_opt (get_opt h ''relative_humidity_2m'') idx,
      precipitation = get_index_opt (get_opt h ''precipitation'') idx,
      pressure = get_index_opt (get_opt h ''pressure_msl'') idx,
      sunrise = sun_value (get_index_opt (get_opt d ''sunrise'') 0),
      sunset = sun_value (get_index_opt (get_opt d ''sunset'') 0),
      time = get_opt cur ''time''\<rparr>"

lemma index_of_arr: "is_arr ts \<Longrightarrow> \<exists>i. index_of ts t = Inr i"
  by (cases ts) (simp_all add: index_of_def)

lemma normalize_wf:
  assumes wf: "wf_forecast data"
    and idx: "index_of (get_opt (get_opt data ''hourly'') ''time'')
                       (get_opt (get_opt data ''current_weather'') ''time'') = Inr i"
  shows "normalize_weather loc data =
           Inr (snap_at loc (get_opt data ''current_weather'') (get_opt data ''hourly'')
                            (get_opt data ''daily'') i)"
proof -
  from wf have h: "hourly_ok (get_opt data ''hourly'')"
    and sr: "sun_ok (get_opt (get_opt data ''daily'') ''sunrise'')"
    and ss: "sun_ok (get_opt (get_opt data ''daily'') ''sunset'')"
    and objs: "is_obj data" "is_obj (get_opt data ''current_weather'')"
              "is_obj (get_opt data ''hourly'')" "is_obj (get_opt data ''daily'')"
    by (simp_all add: wf_forecast_def)
  from sr objs(4) have "sun_time (get_opt data ''daily'') ''sunrise'' =
      Inr (sun_value (get_index_opt (get_opt (get_opt data ''daily'') ''sunrise'') 0))"
    by (intro sun_time_ok) (simp_all add: sun_ok_def)
  moreover from ss objs(4) have "sun_time (get_opt data ''daily'') ''sunset'' =
      Inr (sun_value (get_index_opt (get_opt (get_opt data ''daily'') ''sunset'') 0))"
    by (intro sun_time_ok) (simp_all add: sun_ok_def)
  ultimately show ?thesis
    using h objs idx
    by (simp add: normalize_weather_def weather_idx_index_of hourly_ok_def js_coalesce_def snap_at_def)
qed

section \<open>Lemmas on the table, the split and the hourly reads\<close>

lemma codeMap_entries_truthy:
  "(k, e) \<in> set codeMap \<Longrightarrow> truthy (get_opt e ''desc'') \<and> truthy (get_opt e ''icon'')"
  by (auto simp: codeMap_def code_entry_obj_def obj_get_def)

lemma describe_found:
  assumes "find (\<lambda>(k, e). key_matches c k) codeMap = Some (k, e)"
  shows "describe c = (get_opt e ''desc'', get_opt e ''icon'')"
proof -
  from assms have "(k, e) \<in> set codeMap"
    by (auto simp: find_Some_iff) (metis nth_mem)
  with assms show ?thesis
    by (simp add: describe_def code_lookup_def js_or_def codeMap_entries_truthy)
qed

lemma describe_miss:
  "find (\<lambda>(k, e). key_matches c k) codeMap = None \<Longrightarrow> describe c = (JStr ''Unknown'', JStr unknown_icon)"
  by (simp add: describe_def code_lookup_def js_or_def)

lemma split_on_no_sep: "c \<notin> set s \<Longrightarrow> split_on c s = [s]"
  by (induction s) auto

lemma split_on_one_sep:
  "c \<notin> set d \<Longrightarrow> c \<notin> set t \<Longrightarrow> split_on c (d @ c # t) = [d, t]"
  by (induction d) (auto simp: split_on_no_sep)

lemma get_index_opt_int:
  "is_arr a \<Longrightarrow> get_index_opt a (int i) = (case a of JArr xs \<Rightarrow> if i < length xs then xs ! i else JUndef)"
  by (cases a) auto

lemma sun_time_split:
  assumes "CHR ''T'' \<notin> set d" "CHR ''T'' \<notin> set t"
  shows "sun_value (JStr (d @ CHR ''T'' # t)) = JStr t"
  using assms by (simp add: sun_value_def split_on_one_sep)

lemma sun_value_no_T: "CHR ''T'' \<notin> set s \<Longrightarrow> sun_value (JStr s) = JUndef"
  by (simp add: sun_value_def split_on_no_sep)

section \<open>The normalizer's contract\<close>

text \<open>
  What the specification (section 4.2) asks of \<open>normalize_weather\<close>, written from its words:
  \<open>idx\<close> is the position of \<open>current.time\<close> in \<open>hourly.time\<close>, or 0 when it is absent;
  each field is its first source, else its fallback; humidity, precipitation and pressure
  are direct reads that may be absent; sunrise and sunset are the time-of-day part of the
  first daily entry; description and icon come from the table with a fixed fallback.
\<close>

definition spec_index :: "jsval list \<Rightarrow> jsval \<Rightarrow> nat" where
  "spec_index ts t = (case first_index (\<lambda>y. y = t) ts of Some i \<Rightarrow> i | None \<Rightarrow> 0)"

definition spec_at :: "jsval \<Rightarrow> nat \<Rightarrow> jsval" where
  "spec_at a i = (case a of JArr xs \<Rightarrow> if i < length xs then xs ! i else JUndef | _ \<Rightarrow> JUndef)"

definition spec_else :: "jsval \<Rightarrow> jsval \<Rightarrow> jsval" where
  "spec_else a b = (if nullish a then b else a)"

definition time_of_day :: "jsval \<Rightarrow> jsval" where
  "time_of_day a = (case spec_at a 0 of
      JStr s \<Rightarrow> if CHR ''T'' \<in> set s then JStr (tl (dropWhile (\<lambda>c. c \<noteq> CHR ''T'') s)) else JUndef
    | _ \<Rightarrow> JUndef)"

definition spec_code :: "jsval \<Rightarrow> jsval \<times> jsval" where
  "spec_code c = (case c of
      JNum n \<Rightarrow> (case find (\<lambda>(k, e). of_int k = n) codeMap of
                   Some (k, e) \<Rightarrow> (get_opt e ''desc'', get_opt e ''icon'')
                 | None \<Rightarrow> (JStr ''Unknown'', JStr unknown_icon))
    | _ \<Rightarrow> (JStr ''Unknown'', JStr unknown_icon))"

definition spec_snapshot :: "location \<Rightarrow> jsval \<Rightarrow> snapshot" where
  "spec_snapshot loc data =
    (let cur = get_opt data ''current_weather''; h = get_opt data ''hourly'';
         d = get_opt data ''daily'';
         ts = (case get_opt h ''time'' of JArr xs \<Rightarrow> xs | _ \<Rightarrow> []);
         i = spec_index ts (get_opt cur ''time'')
     in \<lparr>city = name loc, country = location.country loc,
         temperature = spec_else (get_opt cur ''temperature'') (spec_at (get_opt h ''temperature_2m'') i),
         feelsLike = spec_else (spec_at (get_opt h ''apparent_temperature'') i) (get_opt cur ''temperature''),
         windspeed = spec_else (get_opt cur ''windspeed'') (spec_at (get_opt h ''windspeed_10m'') i),
         description = fst (spec_code (get_opt cur ''weathercode'')),
         icon = snd (spec_code (get_opt cur ''weathercode'')),
         humidity = spec_at (get_opt h ''relative_humidity_2m'') i,
         precipitation = spec_at (get_opt h ''precipitation'') i,
         pressure = spec_at (get_opt h ''pressure_msl'') i,
         sunrise = time_of_day (get_opt d ''sunrise''),
         sunset = time_of_day (get_opt d ''sunset''),
         time = get_opt cur ''time''\<rparr>)"

text \<open>An ISO timestamp: the first entry has at most one \<open>T\<close> separator.\<close>

definition one_T :: "jsval \<Rightarrow> bool" where
  "one_T a = (case get_index_opt a 0 of JStr s \<Rightarrow> length (filter (\<lambda>c. c = CHR ''T'') s) \<le> 1 | _ \<Rightarrow> True)"

lemma get_index_opt_negative: "is_arr a \<Longrightarrow> i < 0 \<Longrightarrow> get_index_opt a i = JUndef"
  by (cases a) simp_all

lemma get_index_opt_spec_at [simp]: "is_arr a \<Longrightarrow> get_index_opt a (int i) = spec_at a i"
  by (cases a) (auto simp: spec_at_def)

lemma describe_spec_code:
  assumes "nullish c \<or> (\<exists>n. c = JNum n)"
  shows "describe c = spec_code c"
proof (cases "\<exists>n. c = JNum n")
  case True
  then obtain n where c: "c = JNum n" by blast
  have eq: "(\<lambda>(k, e). key_matches (JNum n) k) = (\<lambda>(k :: int, e :: jsval). of_int k = n)"
    by (auto simp: fun_eq_iff)
  show ?thesis
  proof (cases "find (\<lambda>(k, e). of_int k = n) codeMap")
    case None
    with c eq show ?thesis by (simp add: describe_miss spec_code_def)
  next
    case (Some ke)
    then obtain k e where "find (\<lambda>(k, e). of_int k = n) codeMap = Some (k, e)"
      by (cases ke) auto
    with c eq show ?thesis by (simp add: describe_found spec_code_def)
  qed
next
  case False
  with assms have "nullish c" by blast
  then have "find (\<lambda>(k, e). key_matches c k) codeMap = None"
    by (cases c) (simp_all add: find_None_iff)
  with \<open>nullish c\<close> show ?thesis
    by (cases c) (simp_all add: describe_miss spec_code_def)
qed

lemma sun_value_time_of_day:
  assumes "sun_ok a" "one_T a"
  shows "sun_value (get_index_opt a 0) = time_of_day a"
proof -
  from assms(1) have arr: "is_arr a" by (simp add: sun_ok_def)
  then have first: "get_index_opt a 0 = spec_at a 0"
    using get_index_opt_spec_at [of a 0] by simp
  show ?thesis
  proof (cases "spec_at a 0")
    case (JStr s)
    show ?thesis
    proof (cases "CHR ''T'' \<in> set s")
      case True
      then obtain d t where s: "s = d @ CHR ''T'' # t" and d: "CHR ''T'' \<notin> set d"
        by (blast dest: split_list_first)
      from assms(2) first JStr s have "CHR ''T'' \<notin> set t"
        by (auto simp: one_T_def filter_empty_conv)
      with d have "sun_value (JStr s) = JStr t"
        by (simp add: s sun_time_split)
      moreover from d have "dropWhile (\<lambda>c. c \<noteq> CHR ''T'') s = CHR ''T'' # t"
        unfolding s by (induction d) auto
      ultimately show ?thesis using first JStr True by (simp add: time_of_day_def)
    next
      case False
      with first JStr show ?thesis by (simp add: time_of_day_def sun_value_no_T)
    qed
  qed (simp_all add: first sun_value_def time_of_day_def)
qed

lemma index_of_member:
  assumes "JStr t \<in> set ts"
  obtains i where "i < length ts" "index_of (JArr ts) (JStr t) = Inr (int i)" "spec_index ts (JStr t) = i"
proof -
  have eq: "(\<lambda>y. strict_eq y (JStr t)) = (\<lambda>y. y = JStr t)"
    by (auto simp: fun_eq_iff dest: strict_eq_imp_eq)
  from assms obtain i where i: "first_index (\<lambda>y. y = JStr t) ts = Some i"
    by (cases "first_index (\<lambda>y. y = JStr t) ts") (auto simp: first_index_None_iff)
  then have "i < length ts" by (blast dest: first_index_Some)
  with i eq show ?thesis
    using that by (simp add: index_of_def spec_index_def)
qed

lemma describe_range:
  "describe c \<in> insert (JStr ''Unknown'', JStr unknown_icon)
                  ((\<lambda>(k, e). (get_opt e ''desc'', get_opt e ''icon'')) ` set codeMap)"
proof (cases "find (\<lambda>(k, e). key_matches c k) codeMap")
  case None
  then show ?thesis by (simp add: describe_miss)
next
  case (Some ke)
  then obtain k e where ke: "find (\<lambda>(k, e). key_matches c k) codeMap = Some (k, e)"
    by (cases ke) auto
  then have "(k, e) \<in> set codeMap"
    by (auto simp: find_Some_iff) (metis nth_mem)
  with ke show ?thesis by (force simp: describe_found)
qed

lemma normalize_absent_index:
  assumes wf: "wf_forecast data"
    and ts: "get_opt (get_opt data ''hourly'') ''time'' = JArr ts"
    and absent: "\<forall>y \<in> set ts. \<not> strict_eq y (get_opt (get_opt data ''current_weather'') ''time'')"
  shows "normalize_weather loc data =
           Inr (snap_at loc (get_opt data ''current_weather'') (get_opt data ''hourly'')
                            (get_opt data ''daily'') (-1))"
proof -
  have "index_of (JArr ts) (get_opt (get_opt data ''current_weather'') ''time'') = Inr (-1)"
    using absent by (rule index_of_absent)
  with ts show ?thesis using normalize_wf [OF wf] by simp
qed

lemma snap_at_negative:
  assumes "wf_forecast data"
  shows "humidity (snap_at loc (get_opt data ''current_weather'') (get_opt data ''hourly'') (get_opt data ''daily'') (-1)) = JUndef \<and>
         precipitation (snap_at loc (get_opt data ''current_weather'') (get_opt data ''hourly'') (get_opt data ''daily'') (-1)) = JUndef \<and>
         pressure (snap_at loc (get_opt data ''current_weather'') (get_opt data ''hourly'') (get_opt data ''daily'') (-1)) = JUndef"
  using assms by (simp add: snap_at_def wf_forecast_def hourly_ok_def get_index_opt_negative)

section \<open>Properties of the normalizer\<close>

text \<open>
  C1: on a well-formed body whose \<open>current.time\<close> is a timestamp string present in
  \<open>hourly.time\<close>, whose weather code is a number (or absent) and whose first sunrise
  and sunset are ISO timestamps, the code's snapshot is exactly the one the
  specification's field derivation prescribes.
\<close>

theorem normalize_refines_spec:
  assumes wf: "wf_forecast data"
    and ts: "get_opt (get_opt data ''hourly'') ''time'' = JArr ts"
    and t: "get_opt (get_opt data ''current_weather'') ''time'' = JStr t" "JStr t \<in> set ts"
    and code: "nullish (get_opt (get_opt data ''current_weather'') ''weathercode'') \<or>
               (\<exists>n. get_opt (get_opt data ''current_weather'') ''weathercode'' = JNum n)"
    and iso: "one_T (get_opt (get_opt data ''daily'') ''sunrise'')"
             "one_T (get_opt (get_opt data ''daily'') ''sunset'')"
  shows "normalize_weather loc data = Inr (spec_snapshot loc data)"
proof -
  obtain i where i: "index_of (JArr ts) (JStr t) = Inr (int i)" "spec_index ts (JStr t) = i"
    using index_of_member [OF t(2)] by blast
  from wf have arrs: "hourly_ok (get_opt data ''hourly'')"
    and sr: "sun_ok (get_opt (get_opt data ''daily'') ''sunrise'')"
    and ss: "sun_ok (get_opt (get_opt data ''daily'') ''sunset'')"
    by (simp_all add: wf_forecast_def)
  have "normalize_weather loc data =
          Inr (snap_at loc (get_opt data ''current_weather'') (get_opt data ''hourly'')
                           (get_opt data ''daily'') (int i))"
    using normalize_wf [OF wf] i ts t by simp
  also have "\<dots> = Inr (spec_snapshot loc data)"
    using arrs i ts t describe_spec_code [OF code]
      sun_value_time_of_day [OF sr iso(1)] sun_value_time_of_day [OF ss iso(2)]
    by (simp add: snap_at_def spec_snapshot_def hourly_ok_def spec_else_def Let_def)
  finally show ?thesis .
qed

definition example_body :: "string \<Rightarrow> jsval" where
  "example_body now = JObj
    [(''current_weather'', JObj [(''time'', JStr now), (''temperature'', JNum 3),
                                (''windspeed'', JNum 10), (''weathercode'', JNum 3)]),
     (''hourly'', JObj [(''time'', JArr [JStr ''2024-01-01T00:00'', JStr ''2024-01-01T01:00'']),
                       (''temperature_2m'', JArr [JNum 1, JNum 2]),
                       (''apparent_temperature'', JArr [JNum 0, JNum 1]),
                       (''relative_humidity_2m'', JArr [JNum 80, JNum 82]),
                       (''pressure_msl'', JArr [JNum 1012, JNum 1013]),
                       (''precipitation'', JArr [JNum 0, JNum 1]),
                       (''windspeed_10m'', JArr [JNum 9, JNum 11])]),
     (''daily'', JObj [(''sunrise'', JArr [JStr ''2024-01-01T07:45'']),
                      (''sunset'', JArr [JStr ''2024-01-01T16:30''])])]"

definition example_loc :: location where
  "example_loc = \<lparr>latitude = JNum 48, longitude = JNum 2, name = JStr ''Paris'', country = JStr ''France''\<rparr>"

theorem normalize_refines_spec_witness:
  "normalize_weather example_loc (example_body ''2024-01-01T01:00'')
     = Inr (spec_snapshot example_loc (example_body ''2024-01-01T01:00''))"
  by (rule normalize_refines_spec [where ts = "[JStr ''2024-01-01T00:00'', JStr ''2024-01-01T01:00'']"
        and t = "''2024-01-01T01:00''"])
     (simp_all add: example_body_def obj_get_def wf_forecast_def hourly_ok_def sun_ok_def one_T_def)

text \<open>
  C2: when \<open>current.time\<close> is missing from \<open>hourly.time\<close>, \<open>indexOf\<close> gives \<open>-1\<close>
  and the \<open>?? 0\<close> never applies: humidity, precipitation and pressure are
  \<open>undefined\<close>, the temperature is the current one, and the felt temperature falls back
  to it. The specification asks for the values at index 0 instead.
\<close>

theorem normalize_absent_time:
  assumes wf: "wf_forecast data"
    and ts: "get_opt (get_opt data ''hourly'') ''time'' = JArr ts"
    and absent: "\<forall>y \<in> set ts. \<not> strict_eq y (get_opt (get_opt data ''current_weather'') ''time'')"
    and temp: "\<not> nullish (get_opt (get_opt data ''current_weather'') ''temperature'')"
  shows "\<exists>s. normalize_weather loc data = Inr s \<and>
             humidity s = JUndef \<and> precipitation s = JUndef \<and> pressure s = JUndef \<and>
             temperature s = get_opt (get_opt data ''current_weather'') ''temperature'' \<and>
             feelsLike s = get_opt (get_opt data ''current_weather'') ''temperature''"
  using normalize_absent_index [OF wf ts absent, of loc] snap_at_negative [OF wf, of loc] wf temp
  by (simp add: snap_at_def wf_forecast_def hourly_ok_def get_index_opt_negative)

theorem normalize_absent_time_witness:
  "\<exists>s. normalize_weather example_loc (example_body ''2024-01-01T05:00'') = Inr s \<and>
       humidity s = JUndef \<and> precipitation s = JUndef \<and> pressure s = JUndef \<and>
       temperature s = JNum 3 \<and> feelsLike s = JNum 3 \<and>
       humidity (spec_snapshot example_loc (example_body ''2024-01-01T05:00'')) = JNum 80"
proof -
  have "\<exists>s. normalize_weather example_loc (example_body ''2024-01-01T05:00'') = Inr s \<and>
       humidity s = JUndef \<and> precipitation s = JUndef \<and> pressure s = JUndef \<and>
       temperature s = JNum 3 \<and> feelsLike s = JNum 3"
    using normalize_absent_time [of "example_body ''2024-01-01T05:00''"
        "[JStr ''2024-01-01T00:00'', JStr ''2024-01-01T01:00'']" example_loc]
    by (simp add: example_body_def obj_get_def wf_forecast_def hourly_ok_def sun_ok_def)
  moreover have "humidity (spec_snapshot example_loc (example_body ''2024-01-01T05:00'')) = JNum 80"
    by (simp add: spec_snapshot_def example_body_def obj_get_def spec_index_def spec_at_def)
  ultimately show ?thesis by blast
qed

text \<open>
  C3: on every well-formed body the normalizer raises nothing, and the description and
  icon it reports are an entry of the fixed table or the fallback pair.
\<close>

theorem normalize_total:
  assumes "wf_forecast data"
  shows "\<exists>s. normalize_weather loc data = Inr s \<and>
             (description s, icon s) \<in> insert (JStr ''Unknown'', JStr unknown_icon)
                  ((\<lambda>(k, e). (get_opt e ''desc'', get_opt e ''icon'')) ` set codeMap)"
proof -
  from assms have "is_arr (get_opt (get_opt data ''hourly'') ''time'')"
    by (simp add: wf_forecast_def hourly_ok_def)
  then obtain i where "index_of (get_opt (get_opt data ''hourly'') ''time'')
                              (get_opt (get_opt data ''current_weather'') ''time'') = Inr i"
    using index_of_arr by blast
  then have eq: "normalize_weather loc data =
        Inr (snap_at loc (get_opt data ''current_weather'') (get_opt data ''hourly'')
                         (get_opt data ''daily'') i)"
    by (rule normalize_wf [OF assms])
  have "(description (snap_at loc (get_opt data ''current_weather'') (get_opt data ''hourly'')
                         (get_opt data ''daily'') i),
         icon (snap_at loc (get_opt data ''current_weather'') (get_opt data ''hourly'')
                         (get_opt data ''daily'') i))
        = describe (get_opt (get_opt data ''current_weather'') ''weathercode'')"
    by (simp add: snap_at_def)
  with eq show ?thesis
    using describe_range [of "get_opt (get_opt data ''current_weather'') ''weathercode''"]
    by auto
qed

theorem normalize_total_witness:
  "\<exists>s. normalize_weather example_loc (example_body ''2024-01-01T05:00'') = Inr s \<and>
       (description s, icon s) \<in> insert (JStr ''Unknown'', JStr unknown_icon)
            ((\<lambda>(k, e). (get_opt e ''desc'', get_opt e ''icon'')) ` set codeMap)"
  using normalize_total [of "example_body ''2024-01-01T05:00''" example_loc]
  by (simp add: example_body_def obj_get_def wf_forecast_def hourly_ok_def sun_ok_def)

text \<open>
  C38: the description and icon fall back to \<open>"Unknown"\<close> and the question-mark
  icon exactly when the weather code names no key of \<open>codeMap\<close>.
\<close>

theorem describe_fallback:
  "describe c = (JStr ''Unknown'', JStr unknown_icon) \<longleftrightarrow> (\<forall>(k, e) \<in> set codeMap. \<not> key_matches c k)"
proof
  assume fb: "describe c = (JStr ''Unknown'', JStr unknown_icon)"
  show "\<forall>(k, e) \<in> set codeMap. \<not> key_matches c k"
  proof (rule ccontr)
    assume "\<not> (\<forall>(k, e) \<in> set codeMap. \<not> key_matches c k)"
    then obtain k e where ke: "find (\<lambda>(k, e). key_matches c k) codeMap = Some (k, e)"
      by (cases "find (\<lambda>(k, e). key_matches c k) codeMap") (auto simp: find_None_iff)
    then have "(k, e) \<in> set codeMap"
      by (auto simp: find_Some_iff) (metis nth_mem)
    then have "get_opt e ''desc'' \<noteq> JStr ''Unknown''"
      by (auto simp: codeMap_def code_entry_obj_def obj_get_def)
    with fb ke show False by (simp add: describe_found)
  qed
next
  assume "\<forall>(k, e) \<in> set codeMap. \<not> key_matches c k"
  then have "find (\<lambda>(k, e). key_matches c k) codeMap = None"
    by (auto simp: find_None_iff)
  then show "describe c = (JStr ''Unknown'', JStr unknown_icon)"
    by (rule describe_miss)
qed

theorem describe_fallback_witness:
  "describe (JNum 999) = (JStr ''Unknown'', JStr unknown_icon)"
  using describe_fallback [of "JNum 999"] by (simp add: codeMap_def)

text \<open>
  For a first daily entry \<open>date T time\<close> with a single \<open>T\<close>, the sunrise or
  sunset read (\<open>[0]?.split("T")[1]\<close>) is the time of day.
\<close>

theorem sun_time_time_of_day:
  assumes "CHR ''T'' \<notin> set d" "CHR ''T'' \<notin> set t" "\<not> nullish daily"
    and "get_opt daily k = JArr (JStr (d @ CHR ''T'' # t) # rest)"
  shows "sun_time daily k = Inr (JStr t)"
proof -
  have "sun_time daily k = Inr (sun_value (get_index_opt (get_opt daily k) 0))"
    using assms(3,4) by (intro sun_time_ok) simp_all
  with assms(1,2,4) show ?thesis by (simp add: sun_time_split)
qed

theorem sun_time_time_of_day_witness:
  "sun_time (JObj [(''sunrise'', JArr [JStr ''2024-01-01T07:45''])]) ''sunrise'' = Inr (JStr ''07:45'')"
  using sun_time_time_of_day [of "''2024-01-01''" "''07:45''" "JObj [(''sunrise'', JArr [JStr ''2024-01-01T07:45''])]" "''sunrise''" "[]"]
  by (simp add: obj_get_def)

text \<open>
  The alignment index is \<open>-1\<close>, not 0, when \<open>current.time\<close> is not in
  \<open>hourly.time\<close>: \<open>indexOf\<close> returns a number, so \<open>?? 0\<close> never applies.
\<close>

theorem weather_idx_absent:
  assumes "\<not> nullish hourly" "\<not> nullish current" "get_opt hourly ''time'' = JArr ts"
    and "\<forall>y \<in> set ts. \<not> strict_eq y (get_opt current ''time'')"
  shows "weather_idx hourly current = Inr (-1)"
  using assms by (simp add: weather_idx_index_of index_of_absent)

theorem weather_idx_absent_witness:
  "weather_idx (JObj [(''time'', JArr [JStr ''2024-01-01T00:00'', JStr ''2024-01-01T01:00''])])
               (JObj [(''time'', JStr ''2024-01-01T05:00'')]) = Inr (-1)"
  using weather_idx_absent [of "JObj [(''time'', JArr [JStr ''2024-01-01T00:00'', JStr ''2024-01-01T01:00''])]"
      "JObj [(''time'', JStr ''2024-01-01T05:00'')]" "[JStr ''2024-01-01T00:00'', JStr ''2024-01-01T01:00'']"]
  by (simp add: obj_get_def)

end
