(* ===== verification/Recents.thy ===== *)
theory Recents
  imports JsValue
begin

text \<open>
  The recency list of \<open>src/frontend/Dashboard.js\<close>: its initial value read from
  \<open>localStorage\<close> (lines 11--18), the effect that writes it back on every change
  (lines 28--33), and the update after a successful query (lines 159--163): the new
  name in front, every entry strictly equal to it removed, cut to three. It is compared
  with the specification's recency list: the three most recent distinct names, most
  recent first.
\<close>

text \<open>\<open>[name, ...prev.filter((c) => c !== name)].slice(0, 3)\<close> (lines 160--163).\<close>

definition update_recent :: "jsval \<Rightarrow> jsval list \<Rightarrow> jsval list" where
  "update_recent name prev = take 3 (name # filter (\<lambda>c. \<not> strict_eq c name) prev)"

text \<open>
  The store holds the JSON text of the list; the model keeps what \<open>JSON.parse\<close> gives
  back (\<open>None\<close> while the key is absent). The component only ever writes arrays there.
\<close>

definition persist_recent :: "jsval list \<Rightarrow> jsval list option" where
  "persist_recent xs = Some (map json_elem xs)"

definition load_recent :: "jsval list option \<Rightarrow> jsval list" where
  "load_recent saved = (case saved of None \<Rightarrow> [] | Some xs \<Rightarrow> xs)"

text \<open>No two entries are strictly equal.\<close>

fun js_distinct :: "jsval list \<Rightarrow> bool" where
  "js_distinct [] = True"
| "js_distinct (x # xs) = (list_all (\<lambda>y. \<not> strict_eq y x) xs \<and> js_distinct xs)"

section \<open>The specification's recency list\<close>

text \<open>Keep the first occurrence of every value.\<close>

fun dedup :: "'a list \<Rightarrow> 'a list" where
  "dedup [] = []"
| "dedup (x # xs) = x # dedup (filter (\<lambda>y. y \<noteq> x) xs)"

definition recent_spec :: "'a list \<Rightarrow> 'a list" where
  "recent_spec hist = take 3 (dedup (rev hist))"

lemma set_dedup [simp]: "set (dedup xs) = set xs"
  by (induction xs rule: dedup.induct) auto

lemma distinct_dedup [simp]: "distinct (dedup xs)"
  by (induction xs rule: dedup.induct) auto

lemma filter_dedup: "filter P (dedup xs) = dedup (filter P xs)"
proof (induction xs arbitrary: P rule: dedup.induct)
  case 1
  then show ?case by simp
next
  case (2 x xs)
  show ?case
  proof (cases "P x")
    case True
    then show ?thesis
      using "2.IH" [of P] by (simp add: conj_commute)
  next
    case False
    then have "filter P (filter (\<lambda>y. y \<noteq> x) xs) = filter P xs"
      by (induction xs) auto
    with False show ?thesis
      using "2.IH" [of P] by simp
  qed
qed

lemma take_cons_filter_take:
  assumes "distinct d"
  shows "take 3 (x # filter (\<lambda>y. y \<noteq> x) (take 3 d)) = take 3 (x # filter (\<lambda>y. y \<noteq> x) d)"
proof (cases "3 \<le> length d")
  case True
  have "distinct (take 3 d)" using assms by (simp add: distinct_take)
  then have "length (take 3 d) \<le> Suc (length (filter (\<lambda>y. y \<noteq> x) (take 3 d)))"
    by (rule length_filter_neq_distinct)
  with True have "2 \<le> length (filter (\<lambda>y. y \<noteq> x) (take 3 d))" by simp
  then have "take 2 (filter (\<lambda>y. y \<noteq> x) (take 3 d)) = take 2 (filter (\<lambda>y. y \<noteq> x) d)"
    by (rule take_filter_take)
  then show ?thesis by (simp add: numeral_3_eq_3 numeral_2_eq_2)
next
  case False
  then show ?thesis by simp
qed

lemma update_recent_str:
  "update_recent (JStr s) prev = take 3 (JStr s # filter (\<lambda>c. c \<noteq> JStr s) prev)"
  by (simp add: update_recent_def)

lemma js_distinct_filter: "js_distinct xs \<Longrightarrow> js_distinct (filter P xs)"
  by (induction xs) (auto simp: list_all_iff)

lemma js_distinct_take: "js_distinct xs \<Longrightarrow> js_distinct (take n xs)"
proof (induction xs arbitrary: n)
  case Nil
  then show ?case by simp
next
  case (Cons x xs)
  then show ?case
    by (cases n) (auto simp: list_all_iff dest: in_set_takeD)
qed

section \<open>Properties of the recency list\<close>

text \<open>
  C21: for a history of string names, the list built by the successive updates is the
  specification's recency list: the three most recent distinct names, most recent first.
\<close>

theorem update_recent_refines:
  assumes "\<forall>x \<in> set hist. is_str x"
  shows "fold update_recent hist [] = recent_spec hist"
  using assms
proof (induction hist rule: rev_induct)
  case Nil
  then show ?case by (simp add: recent_spec_def)
next
  case (snoc x hist)
  then obtain s where x: "x = JStr s" by (cases x) auto
  from snoc have IH: "fold update_recent hist [] = recent_spec hist" by simp
  have "fold update_recent (hist @ [x]) [] = update_recent x (take 3 (dedup (rev hist)))"
    using IH by (simp add: recent_spec_def)
  also have "\<dots> = take 3 (x # filter (\<lambda>y. y \<noteq> x) (dedup (rev hist)))"
    unfolding x update_recent_str by (rule take_cons_filter_take [OF distinct_dedup])
  also have "\<dots> = recent_spec (hist @ [x])"
    by (simp add: recent_spec_def filter_dedup)
  finally show ?case .
qed

theorem update_recent_refines_witness:
  "fold update_recent [JStr ''Rome'', JStr ''Lima'', JStr ''Rome''] []
     = recent_spec [JStr ''Rome'', JStr ''Lima'', JStr ''Rome'']"
  by (rule update_recent_refines) simp

text \<open>
  The specification's example: querying Paris, Tokyo, Paris, Berlin, Oslo in turn
  leaves the list Oslo, Berlin, Paris.
\<close>

theorem update_recent_example:
  "fold update_recent [JStr ''Paris'', JStr ''Tokyo'', JStr ''Paris'', JStr ''Berlin'', JStr ''Oslo''] []
     = [JStr ''Oslo'', JStr ''Berlin'', JStr ''Paris'']"
  by (simp add: update_recent_def)

text \<open>
  C22: one update puts the name in front, keeps at most three entries, adds nothing but
  the name, and keeps the entries pairwise distinct under \<open>===\<close>.
\<close>

theorem update_recent_inv:
  "hd (update_recent n prev) = n \<and> length (update_recent n prev) \<le> 3 \<and>
   set (update_recent n prev) \<subseteq> insert n (set prev) \<and>
   (js_distinct prev \<longrightarrow> js_distinct (update_recent n prev))"
proof (intro conjI impI)
  show "hd (update_recent n prev) = n" by (simp add: update_recent_def)
  show "length (update_recent n prev) \<le> 3" by (simp add: update_recent_def)
  show "set (update_recent n prev) \<subseteq> insert n (set prev)"
    by (auto simp: update_recent_def dest: in_set_takeD)
  assume "js_distinct prev"
  then have "js_distinct (n # filter (\<lambda>c. \<not> strict_eq c n) prev)"
    by (simp add: js_distinct_filter list_all_iff)
  then show "js_distinct (update_recent n prev)"
    unfolding update_recent_def by (rule js_distinct_take)
qed

theorem update_recent_inv_witness:
  "js_distinct [JStr ''Lima'', JNull] \<and>
   js_distinct (update_recent (JStr ''Rome'') [JStr ''Lima'', JNull]) \<and>
   length (update_recent (JStr ''Rome'') [JStr ''Lima'', JNull]) \<le> 3"
  using update_recent_inv [of "JStr ''Rome''" "[JStr ''Lima'', JNull]"] by simp



end
