(* ===== verification/Units.thy ===== *)
theory Units
  imports JsValue
begin

text \<open>
  Temperature display of \<open>src/frontend/Dashboard.js\<close>: the unit state and its toggle
  (lines 19 and 232), \<open>toF\<close> (line 75) and \<open>formatTemp\<close> (lines 76--81).
  \<open>Math.round\<close> is \<open>floor (x + 1/2)\<close>; a number \<open>k / 10\<close> with \<open>k\<close> an integer
  prints as JavaScript's \<open>String\<close> prints it (\<open>tenths_str\<close>: no trailing \<open>.0\<close>,
  \<open>-0\<close> as \<open>0\<close>; the exponent notation from \<open>1e21\<close> on is not modelled). The degree
  sign and the dash are their UTF-8 bytes.
\<close>

text \<open>\<open>useState("C")\<close>; the toggle only ever sets \<open>"C"\<close> or \<open>"F"\<close>.\<close>

datatype temp_unit = UnitC | UnitF

definition toggle_unit :: "temp_unit \<Rightarrow> temp_unit" where
  "toggle_unit u = (if u = UnitC then UnitF else UnitC)"

definition js_round :: "real \<Rightarrow> int" where
  "js_round x = \<lfloor>x + 1 / 2\<rfloor>"

definition toF :: "real \<Rightarrow> real" where
  "toF c = of_int (js_round ((c * 9 / 5 + 32) * 10)) / 10"

text \<open>
  \<open>ToNumber\<close> for the operand of \<open>c * 10\<close>; \<open>None\<close> is \<open>NaN\<close>. Numeric strings and
  one-element arrays (which JavaScript would parse) are outside the model: the API's
  temperatures are numbers.
\<close>

fun to_number :: "jsval \<Rightarrow> real option" where
  "to_number (JNum n) = Some n"
| "to_number (JBool b) = Some (if b then 1 else 0)"
| "to_number JNull = Some 0"
| "to_number _ = None"

definition tenths_str :: "int \<Rightarrow> string" where
  "tenths_str k =
     (let a = nat \<bar>k\<bar>
      in (if k < 0 then ''-'' else []) @ nat_str (a div 10) @
         (if a mod 10 = 0 then [] else CHR ''.'' # nat_str (a mod 10)))"

definition em_dash :: string where
  "em_dash = [CHR 0xE2, CHR 0x80, CHR 0x94]"

definition degree :: string where
  "degree = [CHR 0xC2, CHR 0xB0]"

definition unit_letter :: "temp_unit \<Rightarrow> string" where
  "unit_letter u = (if u = UnitC then ''C'' else ''F'')"

definition formatTemp :: "temp_unit \<Rightarrow> jsval \<Rightarrow> string" where
  "formatTemp unit c =
     (if nullish c then em_dash
      else if unit = UnitC
      then (case to_number c of Some x \<Rightarrow> tenths_str (js_round (x * 10)) | None \<Rightarrow> ''NaN'') @ degree @ ''C''
      else (case to_number c of Some x \<Rightarrow> tenths_str (js_round ((x * 9 / 5 + 32) * 10)) | None \<Rightarrow> ''NaN'')
           @ degree @ ''F'')"

text \<open>
  Reading a displayed temperature: the number in front of the degree sign, in tenths (the
  inverse of \<open>tenths_str\<close>, used to state what the display means).
\<close>

definition parse_tenths :: "string \<Rightarrow> int" where
  "parse_tenths s =
     (let neg = (take 1 s = ''-''); body = (if neg then drop 1 s else s);
          ip = takeWhile (\<lambda>c. c \<noteq> CHR ''.'') body;
          fp = drop 1 (dropWhile (\<lambda>c. c \<noteq> CHR ''.'') body);
          v = int (parse_nat ip * 10 + parse_nat fp)
      in if neg then - v else v)"

definition read_display :: "string \<Rightarrow> int" where
  "read_display s = parse_tenths (takeWhile (\<lambda>c. c \<noteq> CHR 0xC2) s)"

section \<open>Rounding\<close>

lemma js_round_err: "\<bar>of_int (js_round x) - x\<bar> \<le> 1 / 2"
proof -
  have "of_int \<lfloor>x + 1 / 2\<rfloor> \<le> x + 1 / 2" by (rule of_int_floor_le)
  moreover have "x + 1 / 2 < of_int \<lfloor>x + 1 / 2\<rfloor> + 1" by (rule real_of_int_floor_add_one_gt)
  ultimately show ?thesis
    unfolding js_round_def abs_le_iff by linarith
qed

section \<open>Reading a printed temperature back\<close>

lemma take1_nat_str: "take 1 (nat_str q @ xs) \<noteq> ''-''"
proof -
  obtain c cs where q: "nat_str q = c # cs" by (cases "nat_str q") auto
  then have "c \<in> set (nat_str q)" by simp
  then have "c \<noteq> CHR ''-''" using nat_str_no_sign(2) [of q] by blast
  with q show ?thesis by simp
qed

lemma parse_body:
  assumes "f = [] \<or> f = CHR ''.'' # nat_str r"
  shows "takeWhile (\<lambda>c. c \<noteq> CHR ''.'') (nat_str q @ f) = nat_str q"
    and "drop 1 (dropWhile (\<lambda>c. c \<noteq> CHR ''.'') (nat_str q @ f)) = (if f = [] then [] else nat_str r)"
proof -
  have no_dot: "\<And>c. c \<in> set (nat_str q) \<Longrightarrow> c \<noteq> CHR ''.''"
    using nat_str_no_sign(1) [of q] by blast
  show "takeWhile (\<lambda>c. c \<noteq> CHR ''.'') (nat_str q @ f) = nat_str q"
    using assms by (auto simp: no_dot)
  show "drop 1 (dropWhile (\<lambda>c. c \<noteq> CHR ''.'') (nat_str q @ f)) = (if f = [] then [] else nat_str r)"
    using assms by (auto simp: no_dot)
qed

lemma parse_tenths_tenths_str: "parse_tenths (tenths_str k) = k"
proof -
  define a where "a = nat \<bar>k\<bar>"
  define f where "f = (if a mod 10 = 0 then [] else CHR ''.'' # nat_str (a mod 10))"
  have f: "f = [] \<or> f = CHR ''.'' # nat_str (a mod 10)" by (simp add: f_def)
  have str: "tenths_str k = (if k < 0 then ''-'' else []) @ nat_str (a div 10) @ f"
    by (simp add: tenths_str_def a_def f_def Let_def)
  have val: "parse_nat (nat_str (a div 10)) * 10 + parse_nat (if f = [] then [] else nat_str (a mod 10)) = a"
    using div_mult_mod_eq [of a 10] by (auto simp: f_def)
  show ?thesis
  proof (cases "k < 0")
    case True
    then show ?thesis
      using parse_body [OF f, of "a div 10"] val
      by (simp add: str parse_tenths_def a_def Let_def)
  next
    case False
    then show ?thesis
      using parse_body [OF f, of "a div 10"] val take1_nat_str [of "a div 10" f]
      by (simp add: str parse_tenths_def a_def Let_def)
  qed
qed

lemma tenths_str_no_degree: "CHR 0xC2 \<notin> set (tenths_str k)"
proof -
  have "CHR 0xC2 \<noteq> digit_char (nat \<bar>k\<bar> mod 10)" by (rule not_sym, rule digit_char_not_sign(3)) simp
  then show ?thesis by (auto simp: tenths_str_def Let_def)
qed

lemma read_display_tenths: "read_display (tenths_str k @ degree @ u) = k"
proof -
  have "\<forall>x \<in> set (tenths_str k). x \<noteq> CHR 0xC2" using tenths_str_no_degree by blast
  then show ?thesis by (simp add: read_display_def degree_def parse_tenths_tenths_str)
qed

section \<open>Properties of the temperature display\<close>

text \<open>
  The specification's conversion examples: 0 degrees Celsius is 32.0 Fahrenheit
  and 100 is 212.0, and they display as \<open>32\<degree>F\<close> and \<open>212\<degree>F\<close>.
\<close>

theorem toF_examples:
  "toF 0 = 32 \<and> toF 100 = 212 \<and>
   formatTemp UnitF (JNum 0) = ''32'' @ degree @ ''F'' \<and>
   formatTemp UnitF (JNum 100) = ''212'' @ degree @ ''F'' \<and>
   formatTemp UnitC (JNum (215 / 10)) = ''21.5'' @ degree @ ''C''"
  by (simp add: toF_def js_round_def formatTemp_def tenths_str_def nat_str_big)

text \<open>
  C40: \<open>toF\<close> is the exact conversion up to half a tenth of a degree, and its result
  has one decimal place.
\<close>

theorem toF_bounds: "\<bar>toF c - (c * 9 / 5 + 32)\<bar> \<le> 1 / 20 \<and> (\<exists>k. toF c = of_int k / 10)"
proof
  define y where "y = (c * 9 / 5 + 32) * 10"
  have err: "\<bar>of_int (js_round y) - y\<bar> \<le> 1 / 2"
    by (rule js_round_err)
  have eq: "toF c - (c * 9 / 5 + 32) = (of_int (js_round y) - y) / 10"
    by (simp add: toF_def y_def field_simps)
  have "\<bar>toF c - (c * 9 / 5 + 32)\<bar> = \<bar>of_int (js_round y) - y\<bar> / 10"
    by (simp only: eq abs_divide abs_numeral)
  with err show "\<bar>toF c - (c * 9 / 5 + 32)\<bar> \<le> 1 / 20"
    by simp
  show "\<exists>k. toF c = of_int k / 10" by (auto simp: toF_def)
qed

text \<open>
  \<open>formatTemp\<close> shows the dash exactly for \<open>null\<close> and \<open>undefined\<close>, and
  every other value with the degree sign and the letter of the current unit.
\<close>

theorem formatTemp_shape:
  "(formatTemp u c = em_dash \<longleftrightarrow> nullish c) \<and>
   (\<not> nullish c \<longrightarrow> (\<exists>p. formatTemp u c = p @ degree @ unit_letter u))"
proof -
  have "\<not> nullish c \<Longrightarrow> \<exists>p. formatTemp u c = p @ degree @ unit_letter u"
    by (auto simp: formatTemp_def unit_letter_def)
  moreover have "\<And>p. p @ degree @ unit_letter u \<noteq> em_dash"
  proof
    fix p
    assume "p @ degree @ unit_letter u = em_dash"
    then have "last (p @ degree @ unit_letter u) = last em_dash" by simp
    then show False by (cases u) (simp_all add: unit_letter_def em_dash_def degree_def)
  qed
  ultimately show ?thesis by (auto simp: formatTemp_def em_dash_def)
qed

theorem formatTemp_shape_witness:
  "\<not> nullish (JNum 5) \<and> formatTemp UnitC JNull = em_dash \<and>
   (\<exists>p. formatTemp UnitF (JNum 5) = p @ degree @ unit_letter UnitF)"
  using formatTemp_shape [of UnitF "JNum 5"] formatTemp_shape [of UnitC JNull] by simp


end
