(* ===== verification/Dashboard.thy ===== *)
theory Dashboard
  imports Forecast Recents Units
begin

text \<open>
  The \<open>Dashboard\<close> component of \<open>src/frontend/Dashboard.js\<close> as a state machine. The
  state is the component's \<open>useState\<close> hooks together with what outlives a render: the
  route, the two \<open>localStorage\<close> keys, the pending geolocation callback and the axios
  requests in flight, each with the continuation that will run when it settles. An event
  is what React or the browser delivers: the mount and its effects, a UI handler of the
  JSX (lines 222--246), the geolocation callback, or the settling of one request (\<open>Some\<close>
  body when axios resolves, \<open>None\<close> when it rejects). A handler runs atomically up to its
  next \<open>await\<close>, as JavaScript's single thread does; requests settle in any order the
  environment chooses, which is how the interleavings of concurrent queries arise.

  Each request is tagged with the mount it belongs to: a continuation of an unmounted
  instance only calls no-op setters, so its response changes nothing (the further
  requests such a continuation would send are not tracked; they change no state).
\<close>

datatype route = RDashboard | RLogin

datatype request =
    SearchReq jsval
  | ForecastReq location
  | MountForecastReq jsval jsval
  | MountReverseReq jsval jsval

record dash =
  cityInput :: string
  weather :: "snapshot option"
  errorMsg :: string
  loading :: bool
  recentCities :: "jsval list"
  unit :: temp_unit
  route :: route
  geo_waiting :: bool
  pending :: "(nat \<times> nat \<times> request) list"
  next_req :: nat
  mount_id :: nat
  token_store :: "string option"
  recent_store :: "jsval list option"

datatype event =
    Mount bool
  | SetCity string
  | KeyDown string
  | ClickGet
  | ClickRefresh
  | ClickToggle
  | ClickLogout
  | ClickRecent nat
  | PositionFix jsval jsval
  | Respond nat "jsval option"

definition msg_empty :: string where "msg_empty = ''Please enter a city name''"
definition msg_not_found :: string where "msg_not_found = ''City not found. Try a different name.''"
definition msg_network :: string where "msg_network = ''Network issue. Please try again.''"

definition mounted :: "dash \<Rightarrow> bool" where
  "mounted s \<longleftrightarrow> route s = RDashboard"

text \<open>An axios call: the request joins the ones in flight, tagged with this mount.\<close>

definition issue :: "request \<Rightarrow> dash \<Rightarrow> dash" where
  "issue r s = s\<lparr>pending := pending s @ [(next_req s, mount_id s, r)], next_req := Suc (next_req s)\<rparr>"

text \<open>The \<open>catch\<close> of \<open>getWeather\<close> (lines 166--170).\<close>

definition fail_network :: "dash \<Rightarrow> dash" where
  "fail_network s = s\<lparr>errorMsg := msg_network, loading := False\<rparr>"

section \<open>getWeather and the continuations of its requests\<close>

text \<open>
  Lines 84--100: \<open>selectedCity || city\<close>, the empty-name guard, the resets before the
  first \<open>await\<close>, and the geocoding request. \<open>cityText\<close> is \<open>city\<close> in the closure
  that calls it.
\<close>

definition getWeather :: "string \<Rightarrow> jsval \<Rightarrow> dash \<Rightarrow> dash" where
  "getWeather cityText selectedCity s =
     (let cityName = js_or selectedCity (JStr cityText)
      in if \<not> truthy cityName then s\<lparr>errorMsg := msg_empty\<rparr>
         else issue (SearchReq cityName) (s\<lparr>errorMsg := [], weather := None, loading := True\<rparr>))"

text \<open>
  The geolocation callback of the mount effect after each \<open>await\<close> (lines 40--63): the
  forecast's body is never read, a rejection of either request is swallowed by the empty
  \<open>catch {}\<close>, and the reverse lookup's name is passed to \<open>getWeather\<close> of the first
  render, whose \<open>city\<close> is the empty string.
\<close>

fun mount_forecast_settled :: "jsval \<Rightarrow> jsval \<Rightarrow> jsval option \<Rightarrow> dash \<Rightarrow> dash" where
  "mount_forecast_settled la lo None s = s"
| "mount_forecast_settled la lo (Some res) s = issue (MountReverseReq la lo) s"

fun mount_reverse_settled :: "jsval option \<Rightarrow> dash \<Rightarrow> dash" where
  "mount_reverse_settled None s = s"
| "mount_reverse_settled (Some geoRes) s = getWeather [] (reverse_name geoRes) s"

text \<open>
  What runs when a request settles: lines 101--110 after the geocoding response, lines
  125--165 after the forecast (with the persistence effect of lines 28--33 on the new
  recency list), and the mount effect's chain (lines 40--63), whose \<open>catch {}\<close>
  swallows every failure and whose forecast body is never read.
\<close>

fun handle_response :: "request \<Rightarrow> jsval option \<Rightarrow> dash \<Rightarrow> dash" where
  "handle_response (SearchReq q) None s = fail_network s"
| "handle_response (SearchReq q) (Some data) s =
     (case geocode_search data of
        Inr NotFound \<Rightarrow> s\<lparr>errorMsg := msg_not_found, loading := False\<rparr>
      | Inr (Found loc) \<Rightarrow> issue (ForecastReq loc) s
      | Inl e \<Rightarrow> fail_network s)"
| "handle_response (ForecastReq loc) None s = fail_network s"
| "handle_response (ForecastReq loc) (Some data) s =
     (case normalize_weather loc data of
        Inr snap \<Rightarrow>
          (let rc = update_recent (name loc) (recentCities s)
           in s\<lparr>weather := Some snap, recentCities := rc, loading := False,
                recent_store := persist_recent rc\<rparr>)
      | Inl e \<Rightarrow> fail_network s)"
| "handle_response (MountForecastReq la lo) r s = mount_forecast_settled la lo r s"
| "handle_response (MountReverseReq la lo) r s = mount_reverse_settled r s"

text \<open>
  Request \<open>k\<close> settles: it leaves the set in flight, and its continuation runs if its
  component instance is still the mounted one.
\<close>

definition respond :: "dash \<Rightarrow> nat \<Rightarrow> jsval option \<Rightarrow> dash" where
  "respond s k r =
     (case map_of (pending s) k of
        None \<Rightarrow> s
      | Some (m, req) \<Rightarrow>
          (let s' = s\<lparr>pending := filter (\<lambda>(j, _). j \<noteq> k) (pending s)\<rparr>
           in if mounted s \<and> m = mount_id s then handle_response req r s' else s'))"

section \<open>Mounting and the event step\<close>

text \<open>
  Lines 6--20 (initial state, recency list read from storage), then the effects in order:
  the token guard (lines 23--26), the persistence of the recency list (lines 28--33) and
  the geolocation request (lines 36--38).
\<close>

definition token_truthy :: "string option \<Rightarrow> bool" where
  "token_truthy t = (case t of None \<Rightarrow> False | Some x \<Rightarrow> x \<noteq> [])"

definition mount :: "bool \<Rightarrow> dash \<Rightarrow> dash" where
  "mount has_geo s =
     (let s1 = s\<lparr>cityInput := [], weather := None, errorMsg := [], loading := False,
                 recentCities := load_recent (recent_store s), unit := UnitC,
                 route := RDashboard, geo_waiting := False, mount_id := Suc (mount_id s)\<rparr>;
          s2 = (if token_truthy (token_store s1) then s1 else s1\<lparr>route := RLogin\<rparr>);
          s3 = s2\<lparr>recent_store := persist_recent (recentCities s2)\<rparr>
      in s3\<lparr>geo_waiting := has_geo\<rparr>)"

text \<open>\<open>handleLogout\<close> (lines 69--72): the token is removed and the router leaves for the
  login page.\<close>

definition handleLogout :: "dash \<Rightarrow> dash" where
  "handleLogout s = s\<lparr>token_store := None, route := RLogin\<rparr>"

text \<open>The handlers of the JSX (lines 222--246), the geolocation callback and the network.\<close>

fun dash_step :: "dash \<Rightarrow> event \<Rightarrow> dash" where
  "dash_step s (Mount g) = (if mounted s then s else mount g s)"
| "dash_step s (SetCity v) = (if mounted s then s\<lparr>cityInput := v\<rparr> else s)"
| "dash_step s (KeyDown k) =
     (if mounted s \<and> k = ''Enter'' then getWeather (cityInput s) JUndef s else s)"
| "dash_step s ClickGet = (if mounted s then getWeather (cityInput s) JUndef s else s)"
| "dash_step s ClickRefresh =
     (if mounted s then getWeather (cityInput s) (JStr (cityInput s)) s else s)"
| "dash_step s ClickToggle = (if mounted s then s\<lparr>unit := toggle_unit (unit s)\<rparr> else s)"
| "dash_step s ClickLogout = (if mounted s then handleLogout s else s)"
| "dash_step s (ClickRecent i) =
     (if mounted s \<and> i < length (recentCities s)
      then getWeather (cityInput s) (recentCities s ! i) s else s)"
| "dash_step s (PositionFix la lo) =
     (if mounted s \<and> geo_waiting s
      then issue (MountForecastReq la lo) (s\<lparr>geo_waiting := False\<rparr>) else s)"
| "dash_step s (Respond k r) = respond s k r"

definition dash_run :: "dash \<Rightarrow> event list \<Rightarrow> dash" where
  "dash_run s es = foldl dash_step s es"

text \<open>A browser on another page, with the two storage keys as given.\<close>

definition init_dash :: "string option \<Rightarrow> jsval list option \<Rightarrow> dash" where
  "init_dash tok rc =
     \<lparr>cityInput = [], weather = None, errorMsg = [], loading = False, recentCities = [],
      unit = UnitC, route = RLogin, geo_waiting = False, pending = [], next_req = 0,
      mount_id = 0, token_store = tok, recent_store = rc\<rparr>"

section \<open>The invariant and the reachable states\<close>

text \<open>
  The two queries of \<open>getWeather\<close> (geocoding and forecast); the mount effect's requests
  never touch the spinner.
\<close>

definition query_req :: "request \<Rightarrow> bool" where
  "query_req r = (case r of SearchReq q \<Rightarrow> True | ForecastReq l \<Rightarrow> True | _ \<Rightarrow> False)"

definition inv_base :: "dash \<Rightarrow> bool" where
  "inv_base s \<longleftrightarrow>
     distinct (map fst (pending s)) \<and>
     list_all (\<lambda>(j, m, r). j < next_req s \<and> m \<le> mount_id s) (pending s) \<and>
     (mounted s \<longrightarrow> token_truthy (token_store s)) \<and>
     length (recentCities s) \<le> 3 \<and> pred_option (\<lambda>xs. length xs \<le> 3) (recent_store s)"

definition loading_witnessed :: "dash \<Rightarrow> bool" where
  "loading_witnessed s \<longleftrightarrow>
     (mounted s \<and> loading s \<longrightarrow> list_ex (\<lambda>(j, m, r). m = mount_id s \<and> query_req r) (pending s))"

definition dash_inv :: "dash \<Rightarrow> bool" where
  "dash_inv s \<longleftrightarrow> inv_base s \<and> loading_witnessed s"

text \<open>The persistence effect keeps storage equal to the list shown.\<close>

definition synced :: "dash \<Rightarrow> bool" where
  "synced s \<longleftrightarrow> (mounted s \<longrightarrow> recent_store s = persist_recent (recentCities s))"

inductive dash_reachable :: "dash \<Rightarrow> bool" where
  start: "pred_option (\<lambda>xs. length xs \<le> 3) rc \<Longrightarrow> dash_reachable (init_dash tok rc)"
| step: "dash_reachable s \<Longrightarrow> dash_reachable (dash_step s e)"

text \<open>The bookkeeping part of \<open>respond\<close>: request \<open>k\<close> leaves the set in flight.\<close>

abbreviation settle :: "nat \<Rightarrow> dash \<Rightarrow> dash" where
  "settle k s \<equiv> s\<lparr>pending := filter (\<lambda>(j, _). j \<noteq> k) (pending s)\<rparr>"

section \<open>Concrete inputs\<close>

text \<open>
  A logged-in browser with an empty recency key; a geocoding body with one candidate;
  the states after typing Paris and pressing Get, and after its geocoding response.
\<close>

definition demo_start :: dash where
  "demo_start = init_dash (Some ''jwt'') None"

definition geo_body :: "string \<Rightarrow> jsval" where
  "geo_body n = JObj [(''results'', JArr [JObj [(''name'', JStr n), (''country'', JStr ''X''),
                                                (''latitude'', JNum 1), (''longitude'', JNum 2)]])]"

definition paris_loc :: location where
  "paris_loc = \<lparr>latitude = JNum 1, longitude = JNum 2, name = JStr ''Paris'', country = JStr ''X''\<rparr>"

definition demo_searching :: dash where
  "demo_searching = dash_run demo_start [Mount False, SetCity ''Paris'', ClickGet]"

definition demo_forecasting :: dash where
  "demo_forecasting = dash_step demo_searching (Respond 0 (Some (geo_body ''Paris'')))"

section \<open>Lemmas on the step function\<close>

lemma dash_run_simps [simp]:
  "dash_run s [] = s"
  "dash_run s (e # es) = dash_run (dash_step s e) es"
  by (simp_all add: dash_run_def)

lemma dash_run_append: "dash_run s (es @ fs) = dash_run (dash_run s es) fs"
  by (simp add: dash_run_def)

lemmas dash_eval [dash_simps] = mount_def handleLogout_def getWeather_def respond_def Let_def mounted_def token_truthy_def
  load_recent_def persist_recent_def js_or_def init_dash_def fail_network_def

lemma issue_sel [simp]:
  "pending (issue r s) = pending s @ [(next_req s, mount_id s, r)]"
  "next_req (issue r s) = Suc (next_req s)"
  "mount_id (issue r s) = mount_id s" "route (issue r s) = route s" "loading (issue r s) = loading s"
  "weather (issue r s) = weather s" "errorMsg (issue r s) = errorMsg s"
  "recentCities (issue r s) = recentCities s" "recent_store (issue r s) = recent_store s"
  "token_store (issue r s) = token_store s" "cityInput (issue r s) = cityInput s"
  "unit (issue r s) = unit s" "geo_waiting (issue r s) = geo_waiting s"
  by (simp_all add: issue_def)

lemma inv_base_issue: "inv_base s \<Longrightarrow> inv_base (issue r s)"
  by (auto simp: inv_base_def list_all_iff mounted_def)

lemma inv_issue: "dash_inv s \<Longrightarrow> dash_inv (issue r s)"
  by (auto simp: dash_inv_def inv_base_issue loading_witnessed_def mounted_def)

lemma inv_issue_query: "inv_base s \<Longrightarrow> query_req r \<Longrightarrow> dash_inv (issue r s)"
  by (auto simp: dash_inv_def inv_base_issue loading_witnessed_def mounted_def)

lemma inv_fail_network: "inv_base s \<Longrightarrow> dash_inv (fail_network s)"
  by (simp add: dash_inv_def inv_base_def loading_witnessed_def fail_network_def mounted_def)

lemma inv_base_filter:
  "inv_base s \<Longrightarrow> inv_base (s\<lparr>pending := filter (\<lambda>(j, _). j \<noteq> k) (pending s)\<rparr>)"
  by (auto simp: inv_base_def list_all_iff distinct_map_filter mounted_def)

lemma inv_getWeather: "dash_inv s \<Longrightarrow> dash_inv (getWeather c v s)"
proof -
  assume inv: "dash_inv s"
  let ?t = "s\<lparr>errorMsg := [], weather := None, loading := True\<rparr>"
  from inv have "inv_base ?t" by (simp add: dash_inv_def inv_base_def mounted_def)
  then have "dash_inv (issue (SearchReq (js_or v (JStr c))) ?t)"
    by (rule inv_issue_query) (simp add: query_req_def)
  moreover from inv have "dash_inv (s\<lparr>errorMsg := msg_empty\<rparr>)"
    by (simp add: dash_inv_def inv_base_def loading_witnessed_def mounted_def)
  ultimately show ?thesis by (simp add: getWeather_def Let_def)
qed

text \<open>Removing a request that is not a query of this mount keeps the loading witness.\<close>

lemma loading_witnessed_filter:
  assumes "dash_inv s" "map_of (pending s) k = Some (m, req)" "\<not> (m = mount_id s \<and> query_req req)"
  shows "dash_inv (s\<lparr>pending := filter (\<lambda>(j, _). j \<noteq> k) (pending s)\<rparr>)"
proof -
  have "list_ex (\<lambda>(j, m', r). m' = mount_id s \<and> query_req r) (filter (\<lambda>(j, _). j \<noteq> k) (pending s))"
    if ml: "mounted s \<and> loading s"
  proof -
    from assms(1) ml obtain j m' r where w: "(j, m', r) \<in> set (pending s)" "m' = mount_id s" "query_req r"
      by (auto simp: dash_inv_def loading_witnessed_def list_ex_iff)
    have "j \<noteq> k"
    proof
      assume "j = k"
      with w(1) assms(1) have "map_of (pending s) k = Some (m', r)"
        by (auto simp: dash_inv_def inv_base_def intro: map_of_is_SomeI)
      with assms(2,3) w(2,3) show False by simp
    qed
    with w show ?thesis by (force simp: list_ex_iff)
  qed
  with assms(1) show ?thesis
    by (simp add: dash_inv_def inv_base_filter loading_witnessed_def mounted_def)
qed

lemma inv_handle:
  assumes base: "inv_base s" and nq: "\<not> query_req req \<Longrightarrow> dash_inv s"
  shows "dash_inv (handle_response req r s)"
proof (cases req)
  case (SearchReq q)
  show ?thesis
  proof (cases r)
    case None
    with SearchReq base show ?thesis by (simp add: inv_fail_network)
  next
    case (Some data)
    have nf: "dash_inv (s\<lparr>errorMsg := msg_not_found, loading := False\<rparr>)"
      using base by (simp add: dash_inv_def inv_base_def loading_witnessed_def mounted_def)
    show ?thesis
      using SearchReq Some base nf
      by (auto simp: inv_fail_network query_req_def intro: inv_issue_query
               split: sum.splits search_outcome.splits)
  qed
next
  case (ForecastReq loc)
  have ok: "dash_inv (s\<lparr>weather := Some snap, recentCities := update_recent (name loc) (recentCities s),
                        loading := False,
                        recent_store := persist_recent (update_recent (name loc) (recentCities s))\<rparr>)" for snap
    using base by (simp add: dash_inv_def inv_base_def loading_witnessed_def mounted_def
                             update_recent_def persist_recent_def)
  show ?thesis
    using ForecastReq base ok
    by (cases r) (auto simp: inv_fail_network Let_def split: sum.splits)
next
  case (MountForecastReq la lo)
  with nq have "dash_inv s" by (simp add: query_req_def)
  with MountForecastReq show ?thesis by (cases r) (simp_all add: inv_issue)
next
  case (MountReverseReq la lo)
  with nq have "dash_inv s" by (simp add: query_req_def)
  with MountReverseReq show ?thesis by (cases r) (simp_all add: inv_getWeather)
qed

lemma inv_respond:
  assumes inv: "dash_inv s"
  shows "dash_inv (respond s k r)"
proof (cases "map_of (pending s) k")
  case None
  with inv show ?thesis by (simp add: respond_def)
next
  case (Some mr)
  then obtain m req where mr: "map_of (pending s) k = Some (m, req)" by (cases mr) auto
  define s' where "s' = s\<lparr>pending := filter (\<lambda>(j, _). j \<noteq> k) (pending s)\<rparr>"
  have base: "inv_base s'" using inv by (simp add: s'_def dash_inv_def inv_base_filter)
  have keep: "dash_inv s'" if "\<not> (mounted s \<and> m = mount_id s \<and> query_req req)"
  proof (cases "mounted s")
    case True
    with that have "\<not> (m = mount_id s \<and> query_req req)" by simp
    then show ?thesis unfolding s'_def by (rule loading_witnessed_filter [OF inv mr])
  next
    case False
    with base show ?thesis by (simp add: dash_inv_def loading_witnessed_def s'_def mounted_def)
  qed
  show ?thesis
  proof (cases "mounted s \<and> m = mount_id s")
    case True
    then have "respond s k r = handle_response req r s'"
      by (simp add: respond_def mr s'_def)
    moreover have "dash_inv (handle_response req r s')"
      using base keep True by (intro inv_handle) auto
    ultimately show ?thesis by simp
  next
    case False
    then have "respond s k r = s'" by (auto simp: respond_def mr s'_def)
    with False keep show ?thesis by auto
  qed
qed

lemma inv_mount: "dash_inv s \<Longrightarrow> dash_inv (mount g s)"
  by (auto simp: mount_def Let_def dash_inv_def inv_base_def loading_witnessed_def mounted_def
                 list_all_iff load_recent_def persist_recent_def split: option.splits)

lemma inv_step:
  assumes "dash_inv s"
  shows "dash_inv (dash_step s e)"
proof (cases e)
  case (Mount g)
  with assms show ?thesis by (simp add: inv_mount)
next
  case (SetCity v)
  with assms show ?thesis by (simp add: dash_inv_def inv_base_def loading_witnessed_def mounted_def)
next
  case ClickToggle
  with assms show ?thesis by (simp add: dash_inv_def inv_base_def loading_witnessed_def mounted_def)
next
  case ClickLogout
  with assms show ?thesis
    by (simp add: handleLogout_def dash_inv_def inv_base_def loading_witnessed_def mounted_def)
next
  case (PositionFix la lo)
  have "dash_inv (s\<lparr>geo_waiting := False\<rparr>)"
    using assms by (simp add: dash_inv_def inv_base_def loading_witnessed_def mounted_def)
  with PositionFix assms show ?thesis by (simp add: inv_issue)
qed (use assms in \<open>simp_all add: inv_getWeather inv_respond\<close>)

lemma dash_reachable_run: "dash_reachable s \<Longrightarrow> dash_reachable (dash_run s es)"
  by (induction es arbitrary: s) (auto intro: dash_reachable.step)

lemma reachable_inv: "dash_reachable s \<Longrightarrow> dash_inv s"
proof (induction rule: dash_reachable.induct)
  case (start rc tok)
  then show ?case
    by (simp add: init_dash_def dash_inv_def inv_base_def loading_witnessed_def mounted_def)
next
  case (step s e)
  then show ?case by (simp add: inv_step)
qed

lemma synced_handle: "synced s \<Longrightarrow> mounted s \<Longrightarrow> synced (handle_response req r s)"
  by (cases req; cases r)
     (auto simp: synced_def mounted_def getWeather_def fail_network_def Let_def
           split: sum.splits search_outcome.splits)

lemma synced_step: "synced s \<Longrightarrow> synced (dash_step s e)"
proof (cases e)
  case (Respond k r)
  assume sy: "synced s"
  show ?thesis
  proof (cases "map_of (pending s) k")
    case (Some mr)
    have "synced (s\<lparr>pending := filter (\<lambda>(j, _). j \<noteq> k) (pending s)\<rparr>)"
      using sy by (simp add: synced_def mounted_def)
    with Some Respond sy show ?thesis
      by (cases mr) (auto simp: respond_def Let_def mounted_def intro: synced_handle)
  qed (simp add: Respond sy respond_def)
qed (auto simp: synced_def mount_def handleLogout_def getWeather_def Let_def mounted_def)

lemma respond_current:
  "mounted s \<Longrightarrow> map_of (pending s) k = Some (mount_id s, req) \<Longrightarrow>
   respond s k r = handle_response req r (settle k s)"
  by (simp add: respond_def)

lemma geocode_geo_body [simp]:
  "geocode_search (geo_body n) = Inr (Found \<lparr>latitude = JNum 1, longitude = JNum 2, name = JStr n, country = JStr ''X''\<rparr>)"
  by (simp add: geo_body_def geocode_search_def loc_of_obj_def obj_get_def)

lemma normalize_example [simp]:
  "\<exists>snap. normalize_weather loc (example_body ''2024-01-01T01:00'') = Inr snap \<and> city snap = name loc"
proof -
  have "wf_forecast (example_body ''2024-01-01T01:00'')"
    by (simp add: example_body_def obj_get_def wf_forecast_def hourly_ok_def sun_ok_def)
  moreover have "index_of (get_opt (get_opt (example_body ''2024-01-01T01:00'') ''hourly'') ''time'')
     (get_opt (get_opt (example_body ''2024-01-01T01:00'') ''current_weather'') ''time'') = Inr 1"
    by (simp add: example_body_def obj_get_def index_of_def)
  ultimately show ?thesis by (auto dest: normalize_wf simp: snap_at_def)
qed

lemma example_loc_forecast:
  obtains snap where
    "normalize_weather \<lparr>latitude = JNum 1, longitude = JNum 2, name = JStr n, country = JStr ''X''\<rparr>
       (example_body ''2024-01-01T01:00'') = Inr snap" "city snap = JStr n"
  using normalize_example by fastforce

lemma demo_reachable: "dash_reachable (dash_run (init_dash tok None) es)"
  by (rule dash_reachable_run, rule dash_reachable.start) simp

section \<open>Properties of the dashboard\<close>

text \<open>
  C6: while the dashboard is mounted and its spinner is on, a geocoding or forecast
  request of the current mount is in flight: every way of clearing the last such request
  (success, "not found", failure) also clears \<open>loading\<close>, in every reachable state.
\<close>

theorem loading_has_query_in_flight:
  assumes "dash_reachable s" "mounted s" "loading s"
  shows "\<exists>(j, m, r) \<in> set (pending s). m = mount_id s \<and> query_req r"
  using reachable_inv [OF assms(1)] assms(2,3)
  by (auto simp: dash_inv_def loading_witnessed_def list_ex_iff)

theorem loading_has_query_in_flight_witness:
  "mounted (dash_run demo_start [Mount False, SetCity ''Oslo'', ClickGet]) \<and>
   loading (dash_run demo_start [Mount False, SetCity ''Oslo'', ClickGet]) \<and>
   (\<exists>(j, m, r) \<in> set (pending (dash_run demo_start [Mount False, SetCity ''Oslo'', ClickGet])).
      m = mount_id (dash_run demo_start [Mount False, SetCity ''Oslo'', ClickGet]) \<and> query_req r)"
proof -
  have r: "dash_reachable (dash_run demo_start [Mount False, SetCity ''Oslo'', ClickGet])"
    unfolding demo_start_def by (rule dash_reachable_run, rule dash_reachable.start) simp
  have ml: "mounted (dash_run demo_start [Mount False, SetCity ''Oslo'', ClickGet]) \<and>
            loading (dash_run demo_start [Mount False, SetCity ''Oslo'', ClickGet])"
    by (simp add: demo_start_def init_dash_def mount_def mounted_def token_truthy_def getWeather_def
                  js_or_def load_recent_def Let_def)
  with loading_has_query_in_flight [OF r] show ?thesis by blast
qed

text \<open>
  C7: a forecast response of the current query that normalizes installs the snapshot,
  moves the city's name to the front of the recency list, clears the spinner and writes the
  new list to \<open>localStorage\<close> (lines 149--165 and the effect of lines 28--33); the error
  text is left as it was.
\<close>

theorem respond_forecast_installs:
  assumes "mounted s" "map_of (pending s) k = Some (mount_id s, ForecastReq loc)"
    and "normalize_weather loc data = Inr snap"
  shows "respond s k (Some data) =
           (settle k s)\<lparr>weather := Some snap, recentCities := update_recent (name loc) (recentCities s),
                        loading := False,
                        recent_store := persist_recent (update_recent (name loc) (recentCities s))\<rparr>"
  using assms by (simp add: respond_current Let_def)

theorem respond_forecast_installs_witness:
  "\<exists>snap. mounted demo_forecasting \<and>
     map_of (pending demo_forecasting) 1 = Some (mount_id demo_forecasting, ForecastReq paris_loc) \<and>
     normalize_weather paris_loc (example_body ''2024-01-01T01:00'') = Inr snap \<and>
     weather (respond demo_forecasting 1 (Some (example_body ''2024-01-01T01:00''))) = Some snap \<and>
     recentCities (respond demo_forecasting 1 (Some (example_body ''2024-01-01T01:00''))) = [JStr ''Paris'']"
proof -
  obtain snap where n: "normalize_weather paris_loc (example_body ''2024-01-01T01:00'') = Inr snap"
    unfolding paris_loc_def by (rule example_loc_forecast)
  have h: "mounted demo_forecasting"
    "map_of (pending demo_forecasting) 1 = Some (mount_id demo_forecasting, ForecastReq paris_loc)"
    by (simp_all add: demo_forecasting_def demo_searching_def demo_start_def paris_loc_def dash_simps)
  show ?thesis
    using respond_forecast_installs [OF h n] h n
    by (simp add: update_recent_def demo_forecasting_def demo_searching_def demo_start_def paris_loc_def
                  dash_simps)
qed

text \<open>
  C27: when a geocoding or forecast request of the current query fails, the dashboard shows
  the network message and stops the spinner, and changes nothing else (lines 166--170).
\<close>

theorem respond_query_failure:
  assumes "mounted s" "map_of (pending s) k = Some (mount_id s, req)" "query_req req"
  shows "respond s k None = (settle k s)\<lparr>errorMsg := msg_network, loading := False\<rparr>"
  using assms by (cases req) (simp_all add: respond_current query_req_def fail_network_def)

theorem respond_query_failure_witness:
  "mounted demo_searching \<and>
   map_of (pending demo_searching) 0 = Some (mount_id demo_searching, SearchReq (JStr ''Paris'')) \<and>
   query_req (SearchReq (JStr ''Paris'')) \<and>
   respond demo_searching 0 None = (settle 0 demo_searching)\<lparr>errorMsg := msg_network, loading := False\<rparr>"
  using respond_query_failure [of demo_searching 0 "SearchReq (JStr ''Paris'')"]
  by (simp add: demo_searching_def demo_start_def dash_simps query_req_def)

text \<open>
  C28: a geocoding response with no candidates shows "City not found" and stops the
  spinner; no forecast request is sent and the previous snapshot stays cleared (lines
  102--106).
\<close>

theorem respond_search_not_found:
  assumes "mounted s" "map_of (pending s) k = Some (mount_id s, SearchReq q)"
    and "geocode_search data = Inr NotFound"
  shows "respond s k (Some data) = (settle k s)\<lparr>errorMsg := msg_not_found, loading := False\<rparr>"
  using assms by (simp add: respond_current)

theorem respond_search_not_found_witness:
  "mounted demo_searching \<and>
   map_of (pending demo_searching) 0 = Some (mount_id demo_searching, SearchReq (JStr ''Paris'')) \<and>
   geocode_search (JObj [(''results'', JArr [])]) = Inr NotFound \<and>
   respond demo_searching 0 (Some (JObj [(''results'', JArr [])])) =
     (settle 0 demo_searching)\<lparr>errorMsg := msg_not_found, loading := False\<rparr>"
  using respond_search_not_found [of demo_searching 0 "JStr ''Paris''" "JObj [(''results'', JArr [])]"]
  by (simp add: demo_searching_def demo_start_def dash_simps geocode_search_def results_length_def obj_get_def)

text \<open>
  C29: a failure of the mount effect's requests (forecast or reverse geocoding) is
  swallowed: no error is shown, the spinner is untouched, and after a failed forecast no
  reverse lookup is made (the \<open>catch {}\<close> of line 63).
\<close>

theorem mount_chain_failure_silent:
  assumes "map_of (pending s) k = Some (m, req)" "\<not> query_req req"
  shows "respond s k None = settle k s"
  using assms by (cases req) (simp_all add: respond_def Let_def query_req_def)

theorem mount_chain_failure_silent_witness:
  "map_of (pending (dash_run demo_start [Mount True, PositionFix (JNum 48) (JNum 2)])) 0
     = Some (1, MountForecastReq (JNum 48) (JNum 2)) \<and>
   \<not> query_req (MountForecastReq (JNum 48) (JNum 2)) \<and>
   respond (dash_run demo_start [Mount True, PositionFix (JNum 48) (JNum 2)]) 0 None
     = settle 0 (dash_run demo_start [Mount True, PositionFix (JNum 48) (JNum 2)])"
  using mount_chain_failure_silent [of "dash_run demo_start [Mount True, PositionFix (JNum 48) (JNum 2)]"
      0 1 "MountForecastReq (JNum 48) (JNum 2)"]
  by (simp add: demo_start_def dash_simps query_req_def)

text \<open>
  A response to a request of an earlier mount of the component changes nothing but
  the set of requests in flight.
\<close>

theorem respond_other_mount:
  assumes "map_of (pending s) k = Some (m, req)" "m \<noteq> mount_id s"
  shows "respond s k r = settle k s"
  using assms by (simp add: respond_def)

theorem respond_other_mount_witness:
  "map_of (pending (dash_run demo_searching [ClickLogout, Mount False])) 0
     = Some (1, SearchReq (JStr ''Paris'')) \<and>
   mount_id (dash_run demo_searching [ClickLogout, Mount False]) = 2 \<and>
   respond (dash_run demo_searching [ClickLogout, Mount False]) 0 (Some (geo_body ''Paris''))
     = settle 0 (dash_run demo_searching [ClickLogout, Mount False])"
  using respond_other_mount [of "dash_run demo_searching [ClickLogout, Mount False]" 0 1
      "SearchReq (JStr ''Paris'')" "Some (geo_body ''Paris'')"]
  by (simp add: demo_searching_def demo_start_def dash_simps)

text \<open>
  C26: in every reachable state the mounted dashboard has a truthy token in storage: the
  guard of lines 23--26 redirects a mount without a token, and logout leaves the page.
\<close>

theorem mounted_has_token:
  assumes "dash_reachable s" "mounted s"
  shows "token_truthy (token_store s)"
  using reachable_inv [OF assms(1)] assms(2) by (simp add: dash_inv_def inv_base_def)

theorem mounted_has_token_witness:
  "mounted (dash_run demo_start [Mount True]) \<and> token_truthy (token_store (dash_run demo_start [Mount True]))"
proof -
  have r: "dash_reachable (dash_run demo_start [Mount True])"
    unfolding demo_start_def by (rule dash_reachable_run, rule dash_reachable.start) simp
  have "mounted (dash_run demo_start [Mount True])"
    by (simp add: demo_start_def dash_simps)
  with mounted_has_token [OF r] show ?thesis by blast
qed

text \<open>
  C24: in every reachable state the recency list, and the list in storage, have at most
  three entries.
\<close>

theorem recents_bounded:
  assumes "dash_reachable s"
  shows "length (recentCities s) \<le> 3 \<and> pred_option (\<lambda>xs. length xs \<le> 3) (recent_store s)"
  using reachable_inv [OF assms] by (simp add: dash_inv_def inv_base_def)

theorem recents_bounded_witness:
  "dash_reachable demo_forecasting \<and> length (recentCities demo_forecasting) \<le> 3"
proof -
  have r: "dash_reachable demo_forecasting"
    unfolding demo_forecasting_def demo_searching_def demo_start_def
    by (rule dash_reachable.step, rule demo_reachable)
  with recents_bounded [OF r] show ?thesis by simp
qed

text \<open>
  C25: in every reachable state where the dashboard is mounted, the \<open>recentCities\<close>
  key of \<open>localStorage\<close> holds exactly the list shown (the effect of lines 28--33 runs
  after the mount and after every change).
\<close>

theorem recents_storage_synced:
  assumes "dash_reachable s" "mounted s"
  shows "recent_store s = persist_recent (recentCities s)"
proof -
  have "synced s" using assms(1)
  proof (induction rule: dash_reachable.induct)
    case (start rc tok)
    show ?case by (simp add: synced_def init_dash_def mounted_def)
  next
    case (step s e)
    from step.IH show ?case by (rule synced_step)
  qed
  with assms(2) show ?thesis by (simp add: synced_def)
qed

theorem recents_storage_synced_witness:
  "dash_reachable (dash_run demo_start [Mount False, ClickToggle]) \<and>
   mounted (dash_run demo_start [Mount False, ClickToggle]) \<and>
   recent_store (dash_run demo_start [Mount False, ClickToggle])
     = persist_recent (recentCities (dash_run demo_start [Mount False, ClickToggle]))"
proof -
  have r: "dash_reachable (dash_run demo_start [Mount False, ClickToggle])"
    unfolding demo_start_def by (rule demo_reachable)
  have m: "mounted (dash_run demo_start [Mount False, ClickToggle])"
    by (simp add: demo_start_def dash_simps)
  from r m recents_storage_synced [OF r m] show ?thesis by simp
qed

text \<open>
  C32: with an empty input, Get, Refresh and Enter only show "Please enter a city name":
  no request is sent, and the spinner, the snapshot and the older error are left as they
  were (lines 85--89).
\<close>

theorem empty_city_guard:
  assumes "mounted s" "cityInput s = []" "e \<in> {ClickGet, ClickRefresh, KeyDown ''Enter''}"
  shows "dash_step s e = s\<lparr>errorMsg := msg_empty\<rparr>"
  using assms by (auto simp: getWeather_def js_or_def)

theorem empty_city_guard_witness:
  "mounted (dash_run demo_start [Mount False]) \<and> cityInput (dash_run demo_start [Mount False]) = [] \<and>
   dash_step (dash_run demo_start [Mount False]) ClickRefresh
     = (dash_run demo_start [Mount False])\<lparr>errorMsg := msg_empty\<rparr>"
  using empty_city_guard [of "dash_run demo_start [Mount False]" ClickRefresh]
  by (simp add: demo_start_def dash_simps)

text \<open>
  A recency chip searches its own city, whatever is typed in the input
  (\<open>selectedCity || city\<close>, line 85, with \<open>getWeather(c)\<close> of line 240).
\<close>

theorem recent_chip_searches:
  assumes "mounted s" "i < length (recentCities s)" "truthy (recentCities s ! i)"
  shows "dash_step s (ClickRecent i) =
           issue (SearchReq (recentCities s ! i)) (s\<lparr>errorMsg := [], weather := None, loading := True\<rparr>)"
  using assms by (simp add: getWeather_def js_or_def)

theorem recent_chip_searches_witness:
  "mounted (dash_run (init_dash (Some ''jwt'') (Some [JStr ''Oslo''])) [Mount False]) \<and>
   0 < length (recentCities (dash_run (init_dash (Some ''jwt'') (Some [JStr ''Oslo''])) [Mount False])) \<and>
   truthy (recentCities (dash_run (init_dash (Some ''jwt'') (Some [JStr ''Oslo''])) [Mount False]) ! 0) \<and>
   pending (dash_step (dash_run (init_dash (Some ''jwt'') (Some [JStr ''Oslo''])) [Mount False]) (ClickRecent 0))
     = [(0, 1, SearchReq (JStr ''Oslo''))]"
  using recent_chip_searches [of "dash_run (init_dash (Some ''jwt'') (Some [JStr ''Oslo''])) [Mount False]" 0]
  by (simp add: dash_simps)

text \<open>
  Once the dashboard has left the page (logout or the token guard), no event but a
  new mount changes its state beyond retiring a request in flight.
\<close>

theorem unmounted_inert:
  assumes "\<not> mounted s" "\<forall>g. e \<noteq> Mount g"
  shows "\<exists>ps. dash_step s e = s\<lparr>pending := ps\<rparr> \<and> set ps \<subseteq> set (pending s)"
proof (cases e)
  case (Respond k r)
  show ?thesis
  proof (cases "map_of (pending s) k")
    case None
    with Respond show ?thesis by (auto simp: respond_def intro!: exI [of _ "pending s"])
  next
    case (Some mr)
    with Respond assms(1) show ?thesis
      by (cases mr) (auto simp: respond_def Let_def intro!: exI [of _ "filter (\<lambda>(j, _). j \<noteq> k) (pending s)"])
  qed
qed (use assms in \<open>auto intro!: exI [of _ "pending s"]\<close>)

theorem unmounted_inert_witness:
  "\<not> mounted demo_start \<and> (\<forall>g. ClickGet \<noteq> Mount g) \<and>
   (\<exists>ps. dash_step demo_start ClickGet = demo_start\<lparr>pending := ps\<rparr> \<and> set ps \<subseteq> set (pending demo_start))"
  using unmounted_inert [of demo_start ClickGet] by (simp add: demo_start_def dash_simps)

end
