(* ===== verification/Interleavings.thy ===== *)
theory Interleavings
  imports Dashboard
begin

text \<open>
  Concrete runs of the dashboard of \<open>src/frontend/Dashboard.js\<close> in which the order
  of the network's answers matters. Each run is a list of events from a logged-in browser
  (\<open>demo_start\<close>); request numbers are the order in which the requests were sent. They
  show what the code does where the specification asks for more: no stale-response guard,
  a spinner and an error that belong to different queries, and the reverse-geocoding
  fallback that ends in "City not found".
\<close>

text \<open>What the JSX shows (lines 245 and 251): the error paragraph and the snapshot.\<close>

definition error_shown :: "dash \<Rightarrow> bool" where
  "error_shown s \<longleftrightarrow> mounted s \<and> errorMsg s \<noteq> []"

definition weather_shown :: "dash \<Rightarrow> bool" where
  "weather_shown s \<longleftrightarrow> mounted s \<and> weather s \<noteq> None"

definition stale_trace :: "event list" where
  "stale_trace =
     [Mount False, SetCity ''Paris'', ClickGet, Respond 0 (Some (geo_body ''Paris'')),
      SetCity ''Rome'', ClickGet, Respond 2 (Some (geo_body ''Rome'')),
      Respond 3 (Some (example_body ''2024-01-01T01:00'')),
      Respond 1 (Some (example_body ''2024-01-01T01:00''))]"

definition error_trace :: "event list" where
  "error_trace =
     [Mount False, SetCity ''Paris'', ClickGet, Respond 0 (Some (geo_body ''Paris'')),
      SetCity ''Rome'', ClickGet, Respond 1 None, Respond 2 (Some (geo_body ''Rome'')),
      Respond 3 (Some (example_body ''2024-01-01T01:00''))]"

definition gap_trace :: "event list" where
  "gap_trace = [Mount False, SetCity ''Paris'', ClickGet, SetCity ''Rome'', ClickGet,
                Respond 0 (Some (JObj [(''results'', JArr [])]))]"

definition locate_trace :: "event list" where
  "locate_trace = [Mount True, PositionFix (JNum 48) (JNum 2),
                   Respond 0 (Some (example_body ''2024-01-01T01:00'')),
                   Respond 1 (Some (JObj [(''results'', JArr [])])),
                   Respond 2 (Some (JObj [(''generationtime_ms'', JNum 1)]))]"

section \<open>Properties of the interleavings\<close>

text \<open>
  C5: no stale-response guard (the specification's last-request-wins example): the user
  asks for Paris, then for Rome before Paris's forecast has arrived; when Rome's forecast
  arrives first and Paris's last, the dashboard ends showing Paris's snapshot while the input
  says Rome, and both cities are in the recency list.
\<close>

theorem stale_response_overwrites:
  "\<exists>w. weather (dash_run demo_start stale_trace) = Some w \<and> city w = JStr ''Paris'' \<and>
       cityInput (dash_run demo_start stale_trace) = ''Rome'' \<and>
       recentCities (dash_run demo_start stale_trace) = [JStr ''Paris'', JStr ''Rome'']"
proof -
  obtain snapP snapR where
    "normalize_weather \<lparr>latitude = JNum 1, longitude = JNum 2, name = JStr ''Paris'', country = JStr ''X''\<rparr>
       (example_body ''2024-01-01T01:00'') = Inr snapP" "city snapP = JStr ''Paris''"
    "normalize_weather \<lparr>latitude = JNum 1, longitude = JNum 2, name = JStr ''Rome'', country = JStr ''X''\<rparr>
       (example_body ''2024-01-01T01:00'') = Inr snapR"
    by (metis example_loc_forecast)
  then show ?thesis
    by (simp add: stale_trace_def demo_start_def dash_simps update_recent_def)
qed

text \<open>
  C30: an error and a snapshot of different queries are shown together: a failed forecast
  of an earlier query sets the network message after a newer query has cleared it, and the
  newer query's success does not clear it (lines 149--165 never call \<open>setError\<close>).
\<close>

theorem error_with_weather:
  "error_shown (dash_run demo_start error_trace) \<and> weather_shown (dash_run demo_start error_trace) \<and>
   errorMsg (dash_run demo_start error_trace) = msg_network \<and>
   map_option city (weather (dash_run demo_start error_trace)) = Some (JStr ''Rome'')"
proof -
  obtain snapR where
    "normalize_weather \<lparr>latitude = JNum 1, longitude = JNum 2, name = JStr ''Rome'', country = JStr ''X''\<rparr>
       (example_body ''2024-01-01T01:00'') = Inr snapR" "city snapR = JStr ''Rome''"
    by (rule example_loc_forecast)
  then show ?thesis
    by (simp add: error_trace_def demo_start_def dash_simps error_shown_def weather_shown_def msg_network_def)
qed

text \<open>
  C31: the spinner stops while a query is still in flight: "not found" for an earlier
  query clears \<open>loading\<close> although the newer query for Rome has not been answered.
\<close>

theorem loading_cleared_while_pending:
  "\<not> loading (dash_run demo_start gap_trace) \<and> errorMsg (dash_run demo_start gap_trace) = msg_not_found \<and>
   map snd (pending (dash_run demo_start gap_trace)) = [(1, SearchReq (JStr ''Rome''))]"
  by (simp add: gap_trace_def demo_start_def dash_simps geocode_search_def results_length_def obj_get_def)

text \<open>
  C12: the mount's reverse-geocoding fallback is searched as a city name: with no place
  name in the reverse lookup, \<open>getWeather("Your Location")\<close> sends a forward search for
  that literal, and a response without candidates ends in "City not found", which the
  specification rules out for coordinate input.
\<close>

theorem locate_reports_not_found:
  "errorMsg (dash_run demo_start locate_trace) = msg_not_found \<and>
   \<not> loading (dash_run demo_start locate_trace) \<and> weather (dash_run demo_start locate_trace) = None \<and>
   pending (dash_run demo_start (take 4 locate_trace)) = [(2, 1, SearchReq your_location)]"
  by (simp add: locate_trace_def demo_start_def dash_simps geocode_search_def results_length_def
                obj_get_def reverse_name_def your_location_def)

end
