(* ===== verification/Server.thy ===== *)
theory Server
  imports Prelude
begin

text \<open>
  The Express server of \<open>src/backend/server.js\<close>: the \<open>User\<close> collection (lines 22--26,
  \<open>email\<close> required and unique, \<open>password\<close> required) and the three routes
  \<open>/register\<close> (lines 34--47), \<open>/login\<close> (lines 49--63) and \<open>/protected\<close> (lines
  65--78). A handler runs up to its next \<open>await\<close> atomically; between two of its
  segments any other handler may run, as Node's event loop allows. So the server is a
  state machine whose events are the arrival of a request and the resumption of one paused
  handler; the database read or write of an awaited call happens when its handler resumes.

  Strings are sequences of UTF-8 bytes. \<open>bcrypt\<close> hashes only the first 72 bytes of a
  password (\<open>bcrypt_key\<close>); its hash is tagged with its salt, which a counter makes fresh
  per call, and \<open>bcrypt.compare\<close> recomputes it. The server has a clock in seconds
  (\<open>Date.now()\<close>, advanced by \<open>Tick\<close> events). A JWT is its payload \<open>{ id, iat, exp }\<close>
  under an injective encoding, \<open>exp\<close> being \<open>iat\<close> plus the hour of \<open>expiresIn: "1h"\<close>;
  the signature with \<open>SECRET\<close> is that only the server produces such strings. Request bodies
  are the two strings the forms of \<open>Login.js\<close> and \<open>Register.js\<close> send; non-string
  bodies from other clients are outside the model.
\<close>

datatype hash = BHash nat string

text \<open>The part of a password bcrypt reads: its first 72 bytes.\<close>

definition bcrypt_key :: "string \<Rightarrow> string" where
  "bcrypt_key pw = take 72 pw"

definition bcrypt_hash :: "nat \<Rightarrow> string \<Rightarrow> hash" where
  "bcrypt_hash salt pw = BHash salt (bcrypt_key pw)"

definition bcrypt_compare :: "string \<Rightarrow> hash \<Rightarrow> bool" where
  "bcrypt_compare pw h = (case h of BHash salt p \<Rightarrow> p = bcrypt_key pw)"

text \<open>\<open>jwt.sign({ id }, SECRET, { expiresIn: "1h" })\<close> at time \<open>iat\<close>.\<close>

definition jwt_sign :: "nat \<Rightarrow> nat \<Rightarrow> string" where
  "jwt_sign uid iat = ''JWT.'' @ nat_str uid @ ''.'' @ nat_str iat @ ''.'' @ nat_str (iat + 3600)"

record user_doc =
  oid :: nat
  u_email :: string
  u_password :: hash

datatype body = BMsg string | BToken string

type_synonym response = "nat \<times> body"

datatype sreq = RegisterReq string string | LoginReq string string | ProtectedReq "string option"

text \<open>Where a paused handler waits, with the locals it still needs.\<close>

datatype phase =
    RegFind string string
  | RegHash string string
  | RegSave string hash
  | LoginFind string string
  | LoginCompare string user_doc

record srv =
  users :: "user_doc list"
  next_oid :: nat
  next_salt :: nat
  clock :: nat
  handlers :: "(nat \<times> phase) list"
  responses :: "(nat \<times> response) list"

datatype sevent = Arrive nat sreq | Resume nat | Tick

definition find_user :: "string \<Rightarrow> user_doc list \<Rightarrow> user_doc option" where
  "find_user e us = find (\<lambda>u. u_email u = e) us"

text \<open>\<open>res.status(..).json(..)\<close>: the handler ends with its response.\<close>

definition reply :: "nat \<Rightarrow> response \<Rightarrow> srv \<Rightarrow> srv" where
  "reply r resp s =
     s\<lparr>handlers := filter (\<lambda>(j, _). j \<noteq> r) (handlers s), responses := responses s @ [(r, resp)]\<rparr>"

definition await_as :: "nat \<Rightarrow> phase \<Rightarrow> srv \<Rightarrow> srv" where
  "await_as r ph s = s\<lparr>handlers := map (\<lambda>(j, p). if j = r then (j, ph) else (j, p)) (handlers s)\<rparr>"

text \<open>
  \<open>user.save()\<close> (line 42) against the schema: an empty email fails the \<open>required\<close>
  validator, an email already stored violates the unique index (E11000); both reject, and
  the handler's \<open>catch\<close> answers 500.
\<close>

definition save_user :: "string \<Rightarrow> hash \<Rightarrow> srv \<Rightarrow> srv option" where
  "save_user e h s =
     (if e = [] \<or> find_user e (users s) \<noteq> None then None
      else Some (s\<lparr>users := users s @ [\<lparr>oid = next_oid s, u_email = e, u_password = h\<rparr>],
                   next_oid := Suc (next_oid s)\<rparr>))"

definition server_error :: response where
  "server_error = (500, BMsg ''Server error'')"

text \<open>The segment of a paused handler that runs when its awaited call settles.\<close>

fun resume :: "nat \<Rightarrow> phase \<Rightarrow> srv \<Rightarrow> srv" where
  "resume r (RegFind e pw) s =
     (if find_user e (users s) \<noteq> None then reply r (400, BMsg ''User already exists'') s
      else await_as r (RegHash e pw) s)"
| "resume r (RegHash e pw) s =
     await_as r (RegSave e (bcrypt_hash (next_salt s) pw)) (s\<lparr>next_salt := Suc (next_salt s)\<rparr>)"
| "resume r (RegSave e h) s =
     (case save_user e h s of
        None \<Rightarrow> reply r server_error s
      | Some s' \<Rightarrow> reply r (200, BMsg ''User registered successfully'') s')"
| "resume r (LoginFind e pw) s =
     (case find_user e (users s) of
        None \<Rightarrow> reply r (400, BMsg ''User not found'') s
      | Some u \<Rightarrow> await_as r (LoginCompare pw u) s)"
| "resume r (LoginCompare pw u) s =
     (if \<not> bcrypt_compare pw (u_password u) then reply r (400, BMsg ''Invalid credentials'') s
      else reply r (200, BToken (jwt_sign (oid u) (clock s))) s)"

text \<open>
  A request arrives: \<open>/register\<close> and \<open>/login\<close> run to their first \<open>await\<close>
  (\<open>User.findOne\<close>); \<open>/protected\<close> answers at once (line 67) and returns before reading
  the authorization header.
\<close>

definition arrive :: "nat \<Rightarrow> sreq \<Rightarrow> srv \<Rightarrow> srv" where
  "arrive r q s =
     (case q of
        RegisterReq e pw \<Rightarrow> s\<lparr>handlers := handlers s @ [(r, RegFind e pw)]\<rparr>
      | LoginReq e pw \<Rightarrow> s\<lparr>handlers := handlers s @ [(r, LoginFind e pw)]\<rparr>
      | ProtectedReq auth \<Rightarrow> s\<lparr>responses := responses s @ [(r, (200, BMsg ''Server error''))]\<rparr>)"

definition used_id :: "nat \<Rightarrow> srv \<Rightarrow> bool" where
  "used_id r s \<longleftrightarrow> r \<in> fst ` set (handlers s) \<or> r \<in> fst ` set (responses s)"

fun srv_step :: "srv \<Rightarrow> sevent \<Rightarrow> srv" where
  "srv_step s (Arrive r q) = (if used_id r s then s else arrive r q s)"
| "srv_step s (Resume r) =
     (case map_of (handlers s) r of None \<Rightarrow> s | Some ph \<Rightarrow> resume r ph s)"
| "srv_step s Tick = s\<lparr>clock := Suc (clock s)\<rparr>"

definition srv_run :: "srv \<Rightarrow> sevent list \<Rightarrow> srv" where
  "srv_run s es = foldl srv_step s es"

definition empty_srv :: srv where
  "empty_srv = \<lparr>users = [], next_oid = 0, next_salt = 0, clock = 0, handlers = [], responses = []\<rparr>"

inductive srv_reachable :: "srv \<Rightarrow> bool" where
  start: "srv_reachable empty_srv"
| step: "srv_reachable s \<Longrightarrow> srv_reachable (srv_step s e)"

text \<open>What the collection guarantees: distinct non-empty emails and distinct ids below the counter.\<close>

definition db_inv :: "srv \<Rightarrow> bool" where
  "db_inv s \<longleftrightarrow>
     distinct (map u_email (users s)) \<and> (\<forall>u \<in> set (users s). u_email u \<noteq> [] \<and> oid u < next_oid s) \<and>
     distinct (map oid (users s))"


section \<open>The account contract\<close>

text \<open>
  What the two routes promise of the collection, read through the hashes: an account map
  from email to user id and the part of the password bcrypt reads. \<open>pw_of\<close> reads what a
  hash was made from (the ghost view \<open>bcrypt.compare\<close> relies on). Registering adds a fresh account unless
  the email is taken (400) or empty (500, the schema's \<open>required\<close>); logging in answers
  a token for the account's id, or says which of email and password was wrong.
\<close>

definition pw_of :: "hash \<Rightarrow> string" where
  "pw_of h = (case h of BHash salt p \<Rightarrow> p)"

type_synonym account_map = "string \<Rightarrow> (nat \<times> string) option"

definition accounts :: "user_doc list \<Rightarrow> account_map" where
  "accounts us e = map_option (\<lambda>u. (oid u, pw_of (u_password u))) (find_user e us)"

definition register_spec :: "account_map \<Rightarrow> nat \<Rightarrow> string \<Rightarrow> string \<Rightarrow> account_map \<times> response" where
  "register_spec acc uid e p =
     (if acc e \<noteq> None then (acc, (400, BMsg ''User already exists''))
      else if e = [] then (acc, server_error)
      else (acc(e \<mapsto> (uid, bcrypt_key p)), (200, BMsg ''User registered successfully'')))"

definition login_spec :: "account_map \<Rightarrow> nat \<Rightarrow> string \<Rightarrow> string \<Rightarrow> response" where
  "login_spec acc now e p =
     (case acc e of
        None \<Rightarrow> (400, BMsg ''User not found'')
      | Some (uid, k) \<Rightarrow>
          if k = bcrypt_key p then (200, BToken (jwt_sign uid now)) else (400, BMsg ''Invalid credentials''))"

text \<open>
  A request handled alone: it arrives and its handler is resumed until it has answered
  (three awaits for \<open>/register\<close>, two for \<open>/login\<close>; a resumption of a handler that
  has answered does nothing). \<open>race_trace\<close> interleaves two registrations of one email.
\<close>

definition reg_run :: "nat \<Rightarrow> string \<Rightarrow> string \<Rightarrow> sevent list" where
  "reg_run r e p = [Arrive r (RegisterReq e p), Resume r, Resume r, Resume r]"

definition login_run :: "nat \<Rightarrow> string \<Rightarrow> string \<Rightarrow> sevent list" where
  "login_run r e p = [Arrive r (LoginReq e p), Resume r, Resume r]"

definition race_trace :: "sevent list" where
  "race_trace = [Arrive 0 (RegisterReq ''a@x.io'' ''pw1''), Arrive 1 (RegisterReq ''a@x.io'' ''pw2''),
                 Resume 0, Resume 1, Resume 0, Resume 1, Resume 0, Resume 1]"

text \<open>Two passwords of 73 bytes that differ only in the last one.\<close>

definition long_pw :: "char \<Rightarrow> string" where
  "long_pw c = replicate 72 CHR ''a'' @ [c]"

section \<open>Response typing\<close>

text \<open>
  The shapes of the JSON answers of the three routes: a token only with 200, only for
  an account of the collection and issued no later than the clock says; otherwise one of the fixed status/message pairs of
  lines 38--77. \<open>phase_typed\<close> says a login handler paused before \<open>bcrypt.compare\<close>
  holds a document of the collection.
\<close>

definition route_messages :: "(nat \<times> string) list" where
  "route_messages =
     [(200, ''User registered successfully''), (400, ''User already exists''), (500, ''Server error''),
      (400, ''User not found''), (400, ''Invalid credentials''), (200, ''Server error'')]"

inductive resp_typed :: "user_doc list \<Rightarrow> nat \<Rightarrow> response \<Rightarrow> bool" where
  token: "u \<in> set us \<Longrightarrow> iat \<le> now \<Longrightarrow> resp_typed us now (200, BToken (jwt_sign (oid u) iat))"
| msg: "(st, m) \<in> set route_messages \<Longrightarrow> resp_typed us now (st, BMsg m)"

definition phase_typed :: "user_doc list \<Rightarrow> phase \<Rightarrow> bool" where
  "phase_typed us ph = (case ph of LoginCompare pw u \<Rightarrow> u \<in> set us | _ \<Rightarrow> True)"

definition typed :: "srv \<Rightarrow> bool" where
  "typed s \<longleftrightarrow>
     list_all (\<lambda>(r, resp). resp_typed (users s) (clock s) resp) (responses s) \<and>
     list_all (\<lambda>(j, ph). phase_typed (users s) ph) (handlers s)"

section \<open>Lemmas\<close>

lemma srv_run_simps [simp]:
  "srv_run s [] = s"
  "srv_run s (e # es) = srv_run (srv_step s e) es"
  by (simp_all add: srv_run_def)

lemma srv_sel [simp]:
  "users (reply r resp s) = users s" "next_oid (reply r resp s) = next_oid s"
  "responses (reply r resp s) = responses s @ [(r, resp)]"
  "users (await_as r ph s) = users s" "next_oid (await_as r ph s) = next_oid s"
  "responses (await_as r ph s) = responses s"
  "clock (reply r resp s) = clock s" "clock (await_as r ph s) = clock s"
  by (simp_all add: reply_def await_as_def)

lemma find_user_None: "find_user e us = None \<longleftrightarrow> e \<notin> set (map u_email us)"
  by (auto simp: find_user_def find_None_iff)

lemma find_user_Some: "find_user e us = Some u \<Longrightarrow> u \<in> set us \<and> u_email u = e"
  by (auto simp: find_user_def find_Some_iff)

lemma find_user_distinct:
  "distinct (map u_email us) \<Longrightarrow> u \<in> set us \<Longrightarrow> find_user (u_email u) us = Some u"
  by (induction us) (auto simp: find_user_def)

lemma db_inv_frame [simp]:
  "db_inv (reply r resp s) = db_inv s" "db_inv (await_as r ph s) = db_inv s"
  "db_inv (s\<lparr>next_salt := n\<rparr>) = db_inv s" "db_inv (s\<lparr>clock := n\<rparr>) = db_inv s"
  by (simp_all add: db_inv_def)

lemma db_inv_save:
  assumes inv: "db_inv s" and sv: "save_user e h s = Some s'"
  shows "db_inv s'"
proof -
  from sv have e: "e \<noteq> []" "e \<notin> set (map u_email (users s))"
    and s': "s' = s\<lparr>users := users s @ [\<lparr>oid = next_oid s, u_email = e, u_password = h\<rparr>],
                     next_oid := Suc (next_oid s)\<rparr>"
    by (auto simp: save_user_def find_user_None split: if_splits)
  from inv have fresh: "next_oid s \<notin> set (map oid (users s))" by (auto simp: db_inv_def)
  from inv have old: "\<forall>u \<in> set (users s). u_email u \<noteq> [] \<and> oid u < Suc (next_oid s)"
    by (auto simp: db_inv_def)
  from inv have "distinct (map u_email (users s))" "distinct (map oid (users s))"
    by (simp_all add: db_inv_def)
  moreover have "users s' = users s @ [\<lparr>oid = next_oid s, u_email = e, u_password = h\<rparr>]"
    "next_oid s' = Suc (next_oid s)" by (simp_all add: s')
  ultimately have u: "users s' = users s @ [\<lparr>oid = next_oid s, u_email = e, u_password = h\<rparr>]"
    and n: "next_oid s' = Suc (next_oid s)" and d: "distinct (map u_email (users s))" "distinct (map oid (users s))"
    by blast+
  have "distinct (map u_email (users s'))" using d(1) e(2) by (simp add: u)
  moreover have "distinct (map oid (users s'))" using d(2) fresh by (simp add: u)
  moreover have "\<forall>u \<in> set (users s'). u_email u \<noteq> [] \<and> oid u < next_oid s'"
    using old e(1) by (simp add: u n)
  ultimately show ?thesis unfolding db_inv_def by blast
qed

lemma db_inv_resume: "db_inv s \<Longrightarrow> db_inv (resume r ph s)"
  by (cases ph) (auto simp: db_inv_save split: option.splits)

lemma db_inv_arrive: "db_inv (arrive r q s) = db_inv s"
  by (cases q) (simp_all add: arrive_def db_inv_def)

lemma db_inv_step: "db_inv s \<Longrightarrow> db_inv (srv_step s e)"
  by (cases e) (simp_all add: db_inv_arrive db_inv_resume split: option.split)

lemma reachable_db_inv: "srv_reachable s \<Longrightarrow> db_inv s"
proof (induction rule: srv_reachable.induct)
  case start
  show ?case by (simp add: db_inv_def empty_srv_def)
next
  case (step s e)
  from step.IH show ?case by (rule db_inv_step)
qed

lemma map_of_update_key [simp]:
  "map_of (map (\<lambda>(j, p). if j = r then (j, ph) else (j, p)) hs) r = (if r \<in> fst ` set hs then Some ph else None)"
  by (induction hs) auto

lemma keys_update_key [simp]:
  "fst ` (\<lambda>(j, p). if j = r then (j, ph) else (j, p)) ` A = fst ` A"
  by (force simp: image_iff split: prod.splits)

lemma map_of_filter_key [simp]: "map_of (filter (\<lambda>(j, _). j \<noteq> r) hs) r = None"
  by (induction hs) auto

lemma map_of_snoc_fresh: "r \<notin> fst ` set hs \<Longrightarrow> map_of (hs @ [(r, ph)]) r = Some ph"
  by (induction hs) auto

lemma absent_key_map [simp]:
  "r \<notin> fst ` set hs \<Longrightarrow> map (\<lambda>(j, p). if j = r then (j, ph) else (j, p)) hs = hs"
  by (induction hs) auto

lemma absent_key_filter [simp]: "r \<notin> fst ` set hs \<Longrightarrow> filter (\<lambda>(j, _). j \<noteq> r) hs = hs"
  by (induction hs) auto

lemma handlers_frame [simp]:
  "handlers (reply r resp s) = filter (\<lambda>(j, _). j \<noteq> r) (handlers s)"
  "handlers (await_as r ph s) = map (\<lambda>(j, p). if j = r then (j, ph) else (j, p)) (handlers s)"
  "next_salt (reply r resp s) = next_salt s" "next_salt (await_as r ph s) = next_salt s"
  by (simp_all add: reply_def await_as_def)

lemma handlers_sel [simp]:
  "map_of (handlers (reply r resp s)) r = None"
  "map_of (handlers (await_as r ph s)) r = (if r \<in> fst ` set (handlers s) then Some ph else None)"
  "fst ` set (handlers (await_as r ph s)) = fst ` set (handlers s)"
  by (simp_all add: reply_def await_as_def)

lemma find_user_append:
  "find_user e (us @ vs) = (case find_user e us of None \<Rightarrow> find_user e vs | Some u \<Rightarrow> Some u)"
  by (induction us) (auto simp: find_user_def)

lemma accounts_append:
  "find_user e us = None \<Longrightarrow>
   accounts (us @ [\<lparr>oid = i, u_email = e, u_password = h\<rparr>]) = (accounts us)(e \<mapsto> (i, pw_of h))"
  by (auto simp: accounts_def find_user_append fun_eq_iff split: option.splits) (auto simp: find_user_def)

lemma accounts_Nil [simp]: "accounts [] = Map.empty"
  by (simp add: accounts_def find_user_def fun_eq_iff)

lemma accounts_find [simp]:
  "find_user e us = None \<Longrightarrow> accounts us e = None"
  "find_user e us = Some u \<Longrightarrow> accounts us e = Some (oid u, pw_of (u_password u))"
  by (simp_all add: accounts_def)

lemma bcrypt_compare_pw_of: "bcrypt_compare p h \<longleftrightarrow> pw_of h = bcrypt_key p"
  by (cases h) (simp add: bcrypt_compare_def pw_of_def)

lemma fresh_arrival:
  "\<not> used_id r s \<Longrightarrow>
   map_of (handlers s @ [(r, ph)]) r = Some ph \<and> r \<in> fst ` set (handlers s @ [(r, ph)]) \<and>
   map_of (handlers s) r = None"
  by (auto simp del: map_of_append simp: used_id_def map_of_snoc_fresh map_of_eq_None_iff)

lemma clock_resume [simp]: "clock (resume r ph s) = clock s"
  by (cases ph) (auto simp: save_user_def split: option.splits)

lemma clock_run: "Tick \<notin> set es \<Longrightarrow> clock (srv_run s es) = clock s"
proof (induction es arbitrary: s)
  case (Cons e es)
  then have "clock (srv_step s e) = clock s"
    by (cases e) (auto simp: arrive_def split: option.split sreq.split)
  with Cons show ?case by simp
qed simp

lemma register_run:
  assumes "\<not> used_id r s"
  shows "accounts (users (srv_run s (reg_run r e p))) = fst (register_spec (accounts (users s)) (next_oid s) e p) \<and>
         responses (srv_run s (reg_run r e p)) = responses s @ [(r, snd (register_spec (accounts (users s)) (next_oid s) e p))] \<and>
         handlers (srv_run s (reg_run r e p)) = handlers s"
  using assms fresh_arrival [OF assms, of "RegFind e p"]
  by (cases "find_user e (users s)")
     (auto simp del: map_of_append simp: map_of_snoc_fresh arrive_def register_spec_def save_user_def used_id_def
               reg_run_def bcrypt_hash_def pw_of_def accounts_append)

lemma login_run:
  assumes "\<not> used_id r s"
  shows "users (srv_run s (login_run r e p)) = users s \<and>
         responses (srv_run s (login_run r e p)) = responses s @ [(r, login_spec (accounts (users s)) (clock s) e p)] \<and>
         handlers (srv_run s (login_run r e p)) = handlers s"
  using assms fresh_arrival [OF assms, of "LoginFind e p"]
  by (cases "find_user e (users s)")
     (auto simp del: map_of_append simp: map_of_snoc_fresh arrive_def login_spec_def used_id_def login_run_def
               bcrypt_compare_pw_of)

inductive_cases resp_typed_tokenE: "resp_typed us n (st, BToken t)"

lemma resp_typed_mono:
  "resp_typed us n x \<Longrightarrow> set us \<subseteq> set vs \<Longrightarrow> n \<le> m \<Longrightarrow> resp_typed vs m x"
  by (induction rule: resp_typed.induct) (auto intro: resp_typed.intros)

lemma phase_typed_mono: "phase_typed us ph \<Longrightarrow> set us \<subseteq> set vs \<Longrightarrow> phase_typed vs ph"
  by (auto simp: phase_typed_def split: phase.splits)

lemma msg_typed [intro]: "(st, m) \<in> set route_messages \<Longrightarrow> resp_typed us n (st, BMsg m)"
  by (rule resp_typed.msg)

lemma typed_reply: "typed s \<Longrightarrow> resp_typed (users s) (clock s) resp \<Longrightarrow> typed (reply r resp s)"
  by (auto simp: typed_def list_all_iff)

lemma typed_await: "typed s \<Longrightarrow> phase_typed (users s) ph \<Longrightarrow> typed (await_as r ph s)"
  by (auto simp: typed_def list_all_iff split: if_split_asm)

lemma typed_save:
  assumes "typed s" "save_user e h s = Some s'"
  shows "typed s'"
proof -
  from assms(2) have sub: "set (users s) \<subseteq> set (users s')"
    and same: "responses s' = responses s" "handlers s' = handlers s" "clock s' = clock s"
    by (auto simp: save_user_def split: if_splits)
  with assms(1) show ?thesis
    by (auto simp: typed_def list_all_iff intro: resp_typed_mono [OF _ sub order_refl] phase_typed_mono [OF _ sub])
qed

lemma typed_resume:
  assumes "typed s" "map_of (handlers s) r = Some ph"
  shows "typed (resume r ph s)"
proof -
  have ph: "phase_typed (users s) ph"
    using assms by (auto simp: typed_def list_all_iff dest!: map_of_SomeD)
  have salt: "typed (s\<lparr>next_salt := n\<rparr>) = typed s" for n by (simp add: typed_def)
  show ?thesis
  proof (cases ph)
    case (LoginFind e pw)
    with assms(1) show ?thesis
      by (auto simp: phase_typed_def route_messages_def dest: find_user_Some
               intro!: typed_reply typed_await split: option.splits)
  next
    case (LoginCompare pw u)
    with assms(1) ph show ?thesis
      by (auto simp: phase_typed_def route_messages_def intro!: typed_reply resp_typed.token)
  next
    case (RegSave e h)
    with assms(1) show ?thesis
      by (auto simp: route_messages_def server_error_def dest: typed_save intro!: typed_reply
               split: option.splits)
  qed (use assms(1) salt in \<open>auto simp: phase_typed_def route_messages_def intro!: typed_reply typed_await\<close>)
qed

lemma typed_arrive: "typed s \<Longrightarrow> typed (arrive r q s)"
  by (cases q) (auto simp: arrive_def typed_def phase_typed_def route_messages_def)

lemma typed_tick: "typed s \<Longrightarrow> typed (s\<lparr>clock := Suc (clock s)\<rparr>)"
  by (auto simp: typed_def list_all_iff phase_typed_def intro: resp_typed_mono [OF _ order_refl])

lemma typed_step: "typed s \<Longrightarrow> typed (srv_step s e)"
  by (cases e) (auto simp: typed_arrive typed_resume typed_tick split: option.split)

lemma srv_reachable_run: "srv_reachable (srv_run empty_srv es)"
  by (induction es rule: rev_induct) (auto simp: srv_run_def intro: srv_reachable.intros)

lemma reachable_typed: "srv_reachable s \<Longrightarrow> typed s"
proof (induction rule: srv_reachable.induct)
  case start
  show ?case by (simp add: typed_def empty_srv_def)
next
  case (step s e)
  from step.IH show ?case by (rule typed_step)
qed

section \<open>Properties of the server\<close>

text \<open>
  C13: registering through \<open>/register\<close>, with no other handler interleaved, implements
  the account contract: a new non-empty email gets an account with the next id and the
  given password and the answer "User registered successfully"; a taken email is refused
  with 400, an empty one with 500 ("Server error", from the schema's validation).
\<close>

theorem register_refines:
  assumes "\<not> used_id r s"
  shows "(accounts (users (srv_run s (reg_run r e p))),
          drop (length (responses s)) (responses (srv_run s (reg_run r e p))))
         = map_prod id (\<lambda>resp. [(r, resp)]) (register_spec (accounts (users s)) (next_oid s) e p)"
  using register_run [OF assms] by (simp add: prod_eq_iff)

theorem register_refines_witness:
  "\<not> used_id 0 empty_srv \<and>
   (accounts (users (srv_run empty_srv (reg_run 0 ''a@x.io'' ''pw''))),
    drop 0 (responses (srv_run empty_srv (reg_run 0 ''a@x.io'' ''pw''))))
   = ([''a@x.io'' \<mapsto> (0, ''pw'')], [(0, (200, BMsg ''User registered successfully''))])"
  using register_refines [of 0 empty_srv "''a@x.io''" "''pw''"]
  by (simp add: used_id_def empty_srv_def register_spec_def accounts_def find_user_def bcrypt_key_def)

text \<open>
  C14: logging in through \<open>/login\<close> leaves the collection unchanged and answers as the
  contract says: a token for the account's id, issued at the current time, when the
  password agrees with the registered one on the 72 bytes bcrypt reads, 400 "Invalid
  credentials" otherwise and 400 "User not found" for an unknown email. So a password
  that only shares the registered one's first 72 bytes logs in.
\<close>

theorem login_refines:
  assumes "\<not> used_id r s"
  shows "users (srv_run s (login_run r e p)) = users s \<and>
         drop (length (responses s)) (responses (srv_run s (login_run r e p)))
           = [(r, login_spec (accounts (users s)) (clock s) e p)]"
  using login_run [OF assms] by simp

theorem login_refines_witness:
  "\<not> used_id 1 (srv_run empty_srv (reg_run 0 ''a@x.io'' (long_pw CHR ''1''))) \<and>
   drop 1 (responses (srv_run (srv_run empty_srv (reg_run 0 ''a@x.io'' (long_pw CHR ''1'')))
                       (login_run 1 ''a@x.io'' (long_pw CHR ''2''))))
     = [(1, (200, BToken (jwt_sign 0 0)))]"
proof -
  define s where "s = srv_run empty_srv (reg_run 0 ''a@x.io'' (long_pw CHR ''1''))"
  have f: "\<not> used_id 1 s"
    by (simp add: s_def reg_run_def used_id_def empty_srv_def arrive_def find_user_def save_user_def
                  reply_def await_as_def)
  have "responses s = [(0, (200, BMsg ''User registered successfully''))]" "clock s = 0"
    "accounts (users s) ''a@x.io'' = Some (0, bcrypt_key (long_pw CHR ''1''))"
    by (simp_all add: s_def reg_run_def used_id_def empty_srv_def arrive_def find_user_def save_user_def
                      reply_def await_as_def accounts_def bcrypt_hash_def pw_of_def)
  moreover have "bcrypt_key (long_pw CHR ''1'') = bcrypt_key (long_pw CHR ''2'')"
    by (simp add: bcrypt_key_def long_pw_def)
  ultimately show ?thesis
    using f login_refines [OF f, of "''a@x.io''" "long_pw CHR ''2''"]
    by (simp add: s_def [symmetric] login_spec_def)
qed

text \<open>
  C19: every request is answered exactly once: after it arrives, three resumptions of its
  handler are enough for \<open>/register\<close>, \<open>/login\<close> and \<open>/protected\<close>, whatever
  the collection holds.
\<close>

theorem handler_answers_once:
  assumes "\<not> used_id r s"
  shows "length (filter (\<lambda>(j, _). j = r) (responses (srv_run s (Arrive r q # replicate 3 (Resume r))))) = 1"
proof -
  have nr: "filter (\<lambda>(j, _). j = r) (responses s) = []"
    using assms by (force simp: used_id_def filter_empty_conv)
  from assms have nh: "map_of (handlers s) r = None" by (simp add: used_id_def map_of_eq_None_iff)
  show ?thesis
  proof (cases q)
    case (RegisterReq e p)
    with register_run [OF assms, of e p] nr show ?thesis
      by (simp add: reg_run_def numeral_3_eq_3)
  next
    case (LoginReq e p)
    define t where "t = srv_run s (login_run r e p)"
    have run: "srv_run s (Arrive r q # replicate 3 (Resume r)) = srv_step t (Resume r)"
      unfolding t_def LoginReq login_run_def numeral_3_eq_3 by (simp add: srv_run_def)
    from login_run [OF assms, of e p, folded t_def] nr nh show ?thesis
      unfolding run by simp
  next
    case (ProtectedReq a)
    with assms nr nh show ?thesis
      by (simp add: arrive_def numeral_3_eq_3)
  qed
qed

theorem handler_answers_once_witness:
  "\<not> used_id 0 empty_srv \<and>
   length (filter (\<lambda>(j, _). j = 0)
     (responses (srv_run empty_srv (Arrive 0 (LoginReq ''a@x.io'' ''pw'') # replicate 3 (Resume 0))))) = 1"
  using handler_answers_once [of 0 empty_srv "LoginReq ''a@x.io'' ''pw''"]
  by (simp add: used_id_def empty_srv_def)

text \<open>
  C33: \<open>/protected\<close> answers 200 \<open>{ msg: "Server error" }\<close> to every request, whatever
  its authorization header, and changes nothing else: the token check after the early
  \<open>return\<close> (lines 69--77) is dead code.
\<close>

theorem protected_constant:
  assumes "\<not> used_id r s"
  shows "srv_step s (Arrive r (ProtectedReq auth)) = s\<lparr>responses := responses s @ [(r, (200, BMsg ''Server error''))]\<rparr>"
  using assms by (simp add: arrive_def)

theorem protected_constant_witness:
  "\<not> used_id 0 empty_srv \<and>
   srv_step empty_srv (Arrive 0 (ProtectedReq (Some ''Bearer JWT.0'')))
     = srv_step empty_srv (Arrive 0 (ProtectedReq None)) \<and>
   srv_step empty_srv (Arrive 0 (ProtectedReq None))
     = empty_srv\<lparr>responses := [(0, (200, BMsg ''Server error''))]\<rparr>"
  using protected_constant [of 0 empty_srv "Some ''Bearer JWT.0''"] protected_constant [of 0 empty_srv None]
  by (simp add: used_id_def empty_srv_def)

text \<open>
  C15: in every reachable state of the server the stored emails are pairwise distinct and
  non-empty, under every interleaving of handlers: the unique index and the
  \<open>required\<close> validator of the schema (lines 22--25) reject what the handlers'
  \<open>findOne\<close> checks miss.
\<close>

theorem unique_emails:
  assumes "srv_reachable s"
  shows "distinct (map u_email (users s)) \<and> [] \<notin> set (map u_email (users s))"
  using reachable_db_inv [OF assms] by (auto simp: db_inv_def)

theorem unique_emails_witness:
  "srv_reachable (srv_run empty_srv race_trace) \<and> distinct (map u_email (users (srv_run empty_srv race_trace)))"
  using unique_emails [OF srv_reachable_run] srv_reachable_run by blast

text \<open>
  C17: two registrations of one email that overlap (both \<open>findOne\<close> calls before either
  \<open>save\<close>) end with one account, one 200 and one 500 "Server error": the duplicate is
  caught by the unique index, not by the "User already exists" check.
\<close>

theorem register_race:
  "responses (srv_run empty_srv race_trace) =
     [(0, (200, BMsg ''User registered successfully'')), (1, server_error)] \<and>
   map u_email (users (srv_run empty_srv race_trace)) = [''a@x.io'']"
  by (simp add: race_trace_def empty_srv_def used_id_def arrive_def save_user_def find_user_def
                bcrypt_hash_def reply_def await_as_def)


text \<open>
  C16: in every reachable state, under every interleaving, each response the server has
  sent has one of the routes' declared shapes, and each token it has sent is the token of
  an account of the collection, with status 200.
\<close>

theorem responses_typed:
  assumes "srv_reachable s"
  shows "(\<forall>(r, resp) \<in> set (responses s). resp_typed (users s) (clock s) resp) \<and>
         (\<forall>r st t. (r, (st, BToken t)) \<in> set (responses s) \<longrightarrow>
                    st = 200 \<and> (\<exists>u \<in> set (users s). \<exists>iat \<le> clock s. t = jwt_sign (oid u) iat))"
proof -
  from reachable_typed [OF assms]
  have all: "\<forall>(r, resp) \<in> set (responses s). resp_typed (users s) (clock s) resp"
    by (simp add: typed_def list_all_iff)
  moreover have "st = 200 \<and> (\<exists>u \<in> set (users s). \<exists>iat \<le> clock s. t = jwt_sign (oid u) iat)"
    if "(r, (st, BToken t)) \<in> set (responses s)" for r st t
  proof -
    from all that have "resp_typed (users s) (clock s) (st, BToken t)" by blast
    then show ?thesis by (rule resp_typed_tokenE) auto
  qed
  ultimately show ?thesis by blast
qed

definition login_trace :: "sevent list" where
  "login_trace = reg_run 0 ''a@x.io'' ''pw'' @ login_run 1 ''a@x.io'' ''pw''"

theorem responses_typed_witness:
  "srv_reachable (srv_run empty_srv login_trace) \<and>
   (1, (200, BToken (jwt_sign 0 0))) \<in> set (responses (srv_run empty_srv login_trace)) \<and>
   (\<exists>u \<in> set (users (srv_run empty_srv login_trace)). \<exists>iat \<le> clock (srv_run empty_srv login_trace).
      jwt_sign 0 0 = jwt_sign (oid u) iat)"
proof -
  have r: "srv_reachable (srv_run empty_srv login_trace)" by (rule srv_reachable_run)
  have t: "(1, (200, BToken (jwt_sign 0 0))) \<in> set (responses (srv_run empty_srv login_trace))"
    by (simp add: login_trace_def reg_run_def login_run_def used_id_def empty_srv_def arrive_def
                  find_user_def save_user_def reply_def await_as_def bcrypt_compare_def bcrypt_hash_def)
  from responses_typed [OF r] t
  have "\<exists>u \<in> set (users (srv_run empty_srv login_trace)). \<exists>iat \<le> clock (srv_run empty_srv login_trace).
          jwt_sign 0 0 = jwt_sign (oid u) iat"
    by blast
  with r t show ?thesis by blast
qed

end
