(* ===== verification/Auth.thy ===== *)
theory Auth
  imports Server Dashboard
begin

text \<open>
  The two forms of \<open>src/frontend/Login.js\<close> and \<open>src/frontend/Register.js\<close> and their
  conversation with the server of \<open>Server\<close>: the form state (\<open>useState\<close> hooks), the
  submit handlers (\<open>Login.js\<close> lines 12--34, \<open>Register.js\<close> lines 11--31), and how
  axios turns a server response into a resolved or rejected promise. A submission posts to
  the server, whose handler runs to completion on its own (\<open>reg_run\<close>, \<open>login_run\<close>);
  after a successful login the browser's \<open>token\<close> key is what the dashboard's guard reads
  when it mounts.
\<close>

text \<open>What axios delivers: a 2xx response resolves, any other rejects with the response, and
  no response at all rejects without one.\<close>

datatype http_result = HttpOk body | HttpFail nat body | NoResponse

definition axios_result :: "response option \<Rightarrow> http_result" where
  "axios_result r =
     (case r of None \<Rightarrow> NoResponse
      | Some (st, b) \<Rightarrow> if 200 \<le> st \<and> st < 300 then HttpOk b else HttpFail st b)"

text \<open>\<open>res.data.msg\<close> and \<open>res.data.token\<close> of the JSON bodies the server sends.\<close>

definition data_msg :: "body \<Rightarrow> jsval" where
  "data_msg b = (case b of BMsg m \<Rightarrow> JStr m | BToken t \<Rightarrow> JUndef)"

definition data_token :: "body \<Rightarrow> jsval" where
  "data_token b = (case b of BToken t \<Rightarrow> JStr t | BMsg m \<Rightarrow> JUndef)"

text \<open>\<open>localStorage.setItem\<close> stores \<open>String(value)\<close>; the token is a string or undefined.\<close>

definition storage_string :: "jsval \<Rightarrow> string" where
  "storage_string v = (case v of JStr t \<Rightarrow> t | _ \<Rightarrow> ''undefined'')"

datatype form_route = OnForm | ToDashboard

record login_form =
  l_email :: string
  l_password :: string
  l_error :: jsval
  l_route :: form_route
  l_token :: "string option"

record register_form =
  r_email :: string
  r_password :: string
  r_error :: jsval
  r_success :: jsval

definition fields_required :: jsval where
  "fields_required = JStr ''All fields are required!''"

text \<open>\<open>Login.js\<close> lines 27--33: after the post settles.\<close>

definition login_settle :: "http_result \<Rightarrow> login_form \<Rightarrow> login_form" where
  "login_settle res f =
     (case res of
        HttpOk b \<Rightarrow> f\<lparr>l_token := Some (storage_string (data_token b)), l_route := ToDashboard,
                      l_error := JStr []\<rparr>
      | HttpFail st b \<Rightarrow> f\<lparr>l_error := js_or (data_msg b) (JStr ''Invalid email or password'')\<rparr>
      | NoResponse \<Rightarrow> f\<lparr>l_error := JStr ''Invalid email or password''\<rparr>)"

text \<open>\<open>Register.js\<close> lines 25--30.\<close>

definition register_settle :: "http_result \<Rightarrow> register_form \<Rightarrow> register_form" where
  "register_settle res f =
     (case res of
        HttpOk b \<Rightarrow> f\<lparr>r_success := data_msg b, r_error := JStr []\<rparr>
      | HttpFail st b \<Rightarrow> f\<lparr>r_error := js_or (data_msg b) (JStr ''Error registering user''),
                           r_success := JStr []\<rparr>
      | NoResponse \<Rightarrow> f\<lparr>r_error := JStr ''Error registering user'', r_success := JStr []\<rparr>)"

text \<open>The server's answer to request \<open>r\<close>, if it has sent one.\<close>

definition answer :: "nat \<Rightarrow> srv \<Rightarrow> response option" where
  "answer r s = map_of (responses s) r"

text \<open>
  The submit handlers: the empty-field guard, then the post as request \<open>r\<close>, handled by the
  server on its own, then the continuation on axios's result.
\<close>

definition login_submit :: "nat \<Rightarrow> login_form \<Rightarrow> srv \<Rightarrow> login_form \<times> srv" where
  "login_submit r f s =
     (if l_email f = [] \<or> l_password f = [] then (f\<lparr>l_error := fields_required\<rparr>, s)
      else (let s' = srv_run s (login_run r (l_email f) (l_password f))
            in (login_settle (axios_result (answer r s')) f, s')))"

definition register_submit :: "nat \<Rightarrow> register_form \<Rightarrow> srv \<Rightarrow> register_form \<times> srv" where
  "register_submit r f s =
     (if r_email f = [] \<or> r_password f = [] then (f\<lparr>r_error := fields_required\<rparr>, s)
      else (let s' = srv_run s (reg_run r (r_email f) (r_password f))
            in (register_settle (axios_result (answer r s')) f, s')))"

definition new_login :: "string \<Rightarrow> string \<Rightarrow> string option \<Rightarrow> login_form" where
  "new_login e p tok = \<lparr>l_email = e, l_password = p, l_error = JStr [], l_route = OnForm, l_token = tok\<rparr>"

definition new_register :: "string \<Rightarrow> string \<Rightarrow> register_form" where
  "new_register e p = \<lparr>r_email = e, r_password = p, r_error = JStr [], r_success = JStr []\<rparr>"

section \<open>Lemmas\<close>

lemma answer_appended:
  "\<not> used_id r s \<Longrightarrow> responses s' = responses s @ [(r, x)] \<Longrightarrow> answer r s' = Some x"
  by (simp del: map_of_append add: answer_def used_id_def map_of_snoc_fresh)

lemma login_submit_run:
  assumes "\<not> used_id r s" "e \<noteq> []" "p \<noteq> []"
  shows "fst (login_submit r (new_login e p tok) s)
           = login_settle (axios_result (Some (login_spec (accounts (users s)) (clock s) e p))) (new_login e p tok) \<and>
         users (snd (login_submit r (new_login e p tok) s)) = users s"
  using login_run [OF assms(1), of e p] assms(2,3)
  by (simp add: login_submit_def new_login_def answer_appended [OF assms(1)])

lemma register_submit_run:
  assumes "\<not> used_id r s" "e \<noteq> []" "p \<noteq> []"
  shows "fst (register_submit r (new_register e p) s)
           = register_settle (axios_result (Some (snd (register_spec (accounts (users s)) (next_oid s) e p))))
               (new_register e p) \<and>
         accounts (users (snd (register_submit r (new_register e p) s)))
           = fst (register_spec (accounts (users s)) (next_oid s) e p)"
  using register_run [OF assms(1), of e p] assms(2,3)
  by (simp add: register_submit_def new_register_def answer_appended [OF assms(1)])

section \<open>Properties of the forms\<close>

text \<open>
  C20: the login form shows what the server's contract answers: with a password whose
  first 72 bytes are those of the registered one, the token the server issues now for the
  account is stored and the browser goes to the dashboard; with any other password it
  shows "Invalid credentials", and for an unknown email "User not found"; the stored token
  is then left as it was.
\<close>

theorem login_form_outcomes:
  assumes "\<not> used_id r s" "e \<noteq> []" "p \<noteq> []"
  shows "fst (login_submit r (new_login e p tok) s) =
           (case accounts (users s) e of
              None \<Rightarrow> (new_login e p tok)\<lparr>l_error := JStr ''User not found''\<rparr>
            | Some (uid, k) \<Rightarrow>
                if k = bcrypt_key p
                then (new_login e p tok)\<lparr>l_token := Some (jwt_sign uid (clock s)), l_route := ToDashboard\<rparr>
                else (new_login e p tok)\<lparr>l_error := JStr ''Invalid credentials''\<rparr>)"
  using login_submit_run [OF assms]
  by (auto simp: login_spec_def axios_result_def login_settle_def data_msg_def data_token_def js_or_def
                 storage_string_def new_login_def split: option.splits)

theorem login_form_outcomes_witness:
  "\<not> used_id 1 (srv_run empty_srv (reg_run 0 ''a@x.io'' ''pw'')) \<and> ''a@x.io'' \<noteq> [] \<and> ''pw2'' \<noteq> [] \<and>
   l_error (fst (login_submit 1 (new_login ''a@x.io'' ''pw2'' None) (srv_run empty_srv (reg_run 0 ''a@x.io'' ''pw''))))
     = JStr ''Invalid credentials''"
proof -
  have f: "\<not> used_id 1 (srv_run empty_srv (reg_run 0 ''a@x.io'' ''pw''))"
    "accounts (users (srv_run empty_srv (reg_run 0 ''a@x.io'' ''pw''))) ''a@x.io'' = Some (0, ''pw'')"
    by (simp_all add: reg_run_def used_id_def empty_srv_def arrive_def find_user_def save_user_def
                      reply_def await_as_def accounts_def bcrypt_hash_def pw_of_def bcrypt_key_def)
  from login_form_outcomes [OF f(1), of "''a@x.io''" "''pw2''" None] f show ?thesis
    by (simp add: bcrypt_key_def)
qed

text \<open>
  C35: the registration form shows the server's verdict: "User registered successfully" for
  a new email, and the server's "User already exists" for a taken one; the account is
  created exactly in the first case, holding the 72 bytes of the password bcrypt reads.
\<close>

theorem register_form_outcomes:
  assumes "\<not> used_id r s" "e \<noteq> []" "p \<noteq> []"
  shows "(accounts (users s) e = None \<longrightarrow>
            r_success (fst (register_submit r (new_register e p) s)) = JStr ''User registered successfully'' \<and>
            accounts (users (snd (register_submit r (new_register e p) s))) = (accounts (users s))(e \<mapsto> (next_oid s, bcrypt_key p))) \<and>
         (accounts (users s) e \<noteq> None \<longrightarrow>
            r_error (fst (register_submit r (new_register e p) s)) = JStr ''User already exists'' \<and>
            accounts (users (snd (register_submit r (new_register e p) s))) = accounts (users s))"
  using register_submit_run [OF assms] assms(2)
  by (auto simp: register_spec_def axios_result_def register_settle_def data_msg_def js_or_def)

theorem register_form_outcomes_witness:
  "\<not> used_id 0 empty_srv \<and> accounts (users empty_srv) ''a@x.io'' = None \<and>
   r_success (fst (register_submit 0 (new_register ''a@x.io'' ''pw'') empty_srv)) = JStr ''User registered successfully''"
  using register_form_outcomes [of 0 empty_srv "''a@x.io''" "''pw''"]
  by (simp add: used_id_def empty_srv_def)

text \<open>
  Both forms refuse an empty email or password before anything is sent: the message is
  "All fields are required!" and the server is untouched (\<open>Login.js\<close> lines 16--19,
  \<open>Register.js\<close> lines 15--18).
\<close>

theorem forms_require_fields:
  assumes "e = [] \<or> p = []"
  shows "login_submit r (new_login e p tok) s = ((new_login e p tok)\<lparr>l_error := fields_required\<rparr>, s) \<and>
         register_submit r (new_register e p) s = ((new_register e p)\<lparr>r_error := fields_required\<rparr>, s)"
  using assms by (auto simp: login_submit_def register_submit_def new_login_def new_register_def)

theorem forms_require_fields_witness:
  "([] = [] \<or> ''pw'' = []) \<and>
   snd (register_submit 0 (new_register [] ''pw'') empty_srv) = empty_srv"
  using forms_require_fields [of "[]" "''pw''" 0 None empty_srv] by simp

text \<open>
  C18: signing up and logging in through the two forms, with no other request in between,
  leaves in the browser the token of the new account, and the dashboard then mounts
  without being sent back to the login page.
\<close>

theorem signup_login_dashboard:
  assumes "\<not> used_id r s" "\<not> used_id r' s" "r' \<noteq> r" "accounts (users s) e = None" "e \<noteq> []" "p \<noteq> []"
  shows "l_token (fst (login_submit r' (new_login e p tok) (snd (register_submit r (new_register e p) s))))
           = Some (jwt_sign (next_oid s) (clock s)) \<and>
         mounted (dash_step (init_dash (l_token (fst (login_submit r' (new_login e p tok)
                    (snd (register_submit r (new_register e p) s))))) rc) (Mount g))"
proof -
  define s1 where "s1 = snd (register_submit r (new_register e p) s)"
  have run: "s1 = srv_run s (reg_run r e p)"
    using assms(5,6) by (simp add: s1_def register_submit_def new_register_def Let_def)
  from register_run [OF assms(1), of e p] assms(4,5)
  have acc: "accounts (users s1) e = Some (next_oid s, bcrypt_key p)"
    and resp: "responses s1 = responses s @ [(r, (200, BMsg ''User registered successfully''))]"
    and hs: "handlers s1 = handlers s"
    by (simp_all add: run register_spec_def)
  have clk: "clock s1 = clock s" unfolding run by (rule clock_run) (simp add: reg_run_def)
  have fresh: "\<not> used_id r' s1"
    using assms(2,3) by (auto simp: used_id_def resp hs)
  have tok: "l_token (fst (login_submit r' (new_login e p tok) s1)) = Some (jwt_sign (next_oid s) (clock s))"
    using login_submit_run [OF fresh assms(5,6)] acc clk
    by (simp add: login_spec_def axios_result_def login_settle_def data_token_def storage_string_def)
  have "token_truthy (Some (jwt_sign (next_oid s) (clock s)))"
    by (simp add: token_truthy_def jwt_sign_def)
  with tok show ?thesis
    by (simp add: s1_def [symmetric] mount_def Let_def mounted_def init_dash_def)
qed

theorem signup_login_dashboard_witness:
  "\<not> used_id 0 empty_srv \<and> \<not> used_id 1 empty_srv \<and> accounts (users empty_srv) ''a@x.io'' = None \<and>
   l_token (fst (login_submit 1 (new_login ''a@x.io'' ''pw'' None) (snd (register_submit 0 (new_register ''a@x.io'' ''pw'') empty_srv))))
     = Some (jwt_sign 0 0)"
  using signup_login_dashboard [of 0 empty_srv 1 "''a@x.io''" "''pw''" None]
  by (simp add: used_id_def empty_srv_def)

end
