(* ===== verification/Forms.thy ===== *)
theory Forms
  imports Auth
begin

text \<open>
  The login and registration forms as the browser runs them (\<open>Login.js\<close> lines 86--111,
  \<open>Register.js\<close> lines 80--106): typing into the two inputs (\<open>onChange\<close>), submitting,
  and what each form shows (\<open>{error && ...}\<close>, \<open>{success && ...}\<close>). Both inputs carry
  \<open>required\<close> and the email input is \<open>type="email"\<close>, so the browser's constraint
  validation runs before \<open>onSubmit\<close>: a form with an empty field or an email that is not a
  valid e-mail address (the HTML standard's definition, \<open>valid_email\<close>) is not submitted
  and \<open>handleSubmit\<close> does not run. The value of an email input is stripped of
  surrounding white space by the browser; the model takes the typed value as already
  stripped.
\<close>

datatype form_event = TypeEmail string | TypePassword string | Submit nat

definition is_alnum :: "char \<Rightarrow> bool" where
  "is_alnum c =
     (let n = (of_char c :: nat) in (48 \<le> n \<and> n \<le> 57) \<or> (65 \<le> n \<and> n \<le> 90) \<or> (97 \<le> n \<and> n \<le> 122))"

text \<open>The characters of the local part: letters, digits and \<open>.!#$%&'*+/=?^_`{|}~-\<close>.\<close>

definition local_char :: "char \<Rightarrow> bool" where
  "local_char c =
     (is_alnum c \<or>
      (of_char c :: nat) \<in> set [46, 33, 35, 36, 37, 38, 39, 42, 43, 47, 61, 63, 94, 95, 96, 123, 124, 125, 126, 45])"

definition label_ok :: "string \<Rightarrow> bool" where
  "label_ok l =
     (l \<noteq> [] \<and> length l \<le> 63 \<and> list_all (\<lambda>c. is_alnum c \<or> c = CHR ''-'') l \<and>
      is_alnum (hd l) \<and> is_alnum (last l))"

definition valid_email :: "string \<Rightarrow> bool" where
  "valid_email e =
     (case split_on (CHR ''@'') e of
        [lp, dm] \<Rightarrow> lp \<noteq> [] \<and> list_all local_char lp \<and> list_all label_ok (split_on (CHR ''.'') dm)
      | _ \<Rightarrow> False)"

text \<open>\<open>required\<close> on both inputs and \<open>type="email"\<close> on the first.\<close>

definition submit_allowed :: "string \<Rightarrow> string \<Rightarrow> bool" where
  "submit_allowed e p \<longleftrightarrow> e \<noteq> [] \<and> p \<noteq> [] \<and> valid_email e"

text \<open>After a successful login the form has navigated away and receives no more events.\<close>

fun login_step :: "login_form \<times> srv \<Rightarrow> form_event \<Rightarrow> login_form \<times> srv" where
  "login_step (f, s) ev =
     (if l_route f = ToDashboard then (f, s)
      else (case ev of
              TypeEmail v \<Rightarrow> (f\<lparr>l_email := v\<rparr>, s)
            | TypePassword v \<Rightarrow> (f\<lparr>l_password := v\<rparr>, s)
            | Submit r \<Rightarrow> if submit_allowed (l_email f) (l_password f) then login_submit r f s else (f, s)))"

fun register_step :: "register_form \<times> srv \<Rightarrow> form_event \<Rightarrow> register_form \<times> srv" where
  "register_step (f, s) ev =
     (case ev of
        TypeEmail v \<Rightarrow> (f\<lparr>r_email := v\<rparr>, s)
      | TypePassword v \<Rightarrow> (f\<lparr>r_password := v\<rparr>, s)
      | Submit r \<Rightarrow> if submit_allowed (r_email f) (r_password f) then register_submit r f s else (f, s))"

definition login_form_run :: "login_form \<times> srv \<Rightarrow> form_event list \<Rightarrow> login_form \<times> srv" where
  "login_form_run fs es = foldl login_step fs es"

definition register_form_run :: "register_form \<times> srv \<Rightarrow> form_event list \<Rightarrow> register_form \<times> srv" where
  "register_form_run fs es = foldl register_step fs es"

text \<open>The paragraphs the forms show: \<open>{error && <p>{error}</p>}\<close> and the success one.\<close>

definition login_view :: "login_form \<Rightarrow> jsval option" where
  "login_view f = (if truthy (l_error f) then Some (l_error f) else None)"

definition register_view :: "register_form \<Rightarrow> jsval option \<times> jsval option" where
  "register_view f =
     (if truthy (r_error f) then Some (r_error f) else None,
      if truthy (r_success f) then Some (r_success f) else None)"

section \<open>Lemmas\<close>

lemma login_form_run_simps [simp]:
  "login_form_run fs [] = fs"
  "login_form_run fs (e # es) = login_form_run (login_step fs e) es"
  by (simp_all add: login_form_run_def)

lemma register_form_run_simps [simp]:
  "register_form_run fs [] = fs"
  "register_form_run fs (e # es) = register_form_run (register_step fs e) es"
  by (simp_all add: register_form_run_def)

lemma srv_reachable_runs: "srv_reachable s \<Longrightarrow> srv_reachable (srv_run s es)"
  by (induction es arbitrary: s) (auto intro: srv_reachable.step)

lemma answer_typed:
  "srv_reachable s \<Longrightarrow> answer r s = Some resp \<Longrightarrow> resp_typed (users s) (clock s) resp"
  using reachable_typed by (auto simp: answer_def typed_def list_all_iff dest!: map_of_SomeD)

lemma settle_not_required:
  assumes "resp_typed us n resp"
  shows "l_error (login_settle (axios_result (Some resp)) f) \<noteq> fields_required"
  using assms
  by (cases rule: resp_typed.cases)
     (auto simp: axios_result_def login_settle_def data_msg_def js_or_def fields_required_def
                 route_messages_def)

lemma login_step_keeps:
  assumes "srv_reachable s" "l_error f \<noteq> fields_required"
  shows "srv_reachable (snd (login_step (f, s) ev)) \<and> l_error (fst (login_step (f, s) ev)) \<noteq> fields_required"
proof (cases "l_route f = ToDashboard")
  case False
  show ?thesis
  proof (cases ev)
    case (Submit r)
    show ?thesis
    proof (cases "submit_allowed (l_email f) (l_password f)")
      case True
      define s' where "s' = srv_run s (login_run r (l_email f) (l_password f))"
      have reach: "srv_reachable s'" unfolding s'_def using assms(1) by (rule srv_reachable_runs)
      have step: "login_step (f, s) ev = (login_settle (axios_result (answer r s')) f, s')"
        using False Submit True by (auto simp: submit_allowed_def login_submit_def s'_def Let_def)
      have "l_error (login_settle (axios_result (answer r s')) f) \<noteq> fields_required"
      proof (cases "answer r s'")
        case None
        then show ?thesis by (simp add: axios_result_def login_settle_def fields_required_def)
      next
        case (Some resp)
        from answer_typed [OF reach Some] have "resp_typed (users s') (clock s') resp" .
        with Some show ?thesis by (simp add: settle_not_required)
      qed
      with step reach show ?thesis by simp
    qed (use False Submit assms in simp)
  qed (use False assms in simp_all)
qed (use assms in simp)

lemma register_view_exclusive_iff:
  "(fst (register_view f) = None \<or> snd (register_view f) = None) \<longleftrightarrow>
   \<not> (truthy (r_error f) \<and> truthy (r_success f))"
  by (simp add: register_view_def)

lemma register_settle_exclusive:
  "\<not> (truthy (r_error (register_settle res f)) \<and> truthy (r_success (register_settle res f)))"
  by (cases res) (simp_all add: register_settle_def)

lemma register_step_exclusive:
  assumes "\<not> (truthy (r_error f) \<and> truthy (r_success f))"
  shows "\<not> (truthy (r_error (fst (register_step (f, s) ev))) \<and> truthy (r_success (fst (register_step (f, s) ev))))"
  using assms register_settle_exclusive
  by (cases ev) (auto simp: register_submit_def submit_allowed_def Let_def)

section \<open>Properties of the forms in the browser\<close>

text \<open>
  C36: the handlers' message "All fields are required!" (\<open>Login.js\<close> lines 16--19) is never
  shown: the browser's validation of the \<open>required\<close> and \<open>type="email"\<close> inputs keeps
  every submission with an empty field from reaching \<open>handleSubmit\<close>, and no answer of
  the server carries that text. This holds for every sequence of typing and submitting
  against any reachable server state.
\<close>

theorem required_message_unreachable:
  assumes "srv_reachable s" "l_error f \<noteq> fields_required"
  shows "l_error (fst (login_form_run (f, s) es)) \<noteq> fields_required \<and>
         srv_reachable (snd (login_form_run (f, s) es))"
  using assms
proof (induction es arbitrary: f s)
  case Nil
  then show ?case by simp
next
  case (Cons ev es)
  obtain f' s' where st: "login_step (f, s) ev = (f', s')" by (cases "login_step (f, s) ev")
  with login_step_keeps [OF Cons.prems, of ev] have "srv_reachable s'" "l_error f' \<noteq> fields_required"
    by simp_all
  then show ?case using Cons.IH st by simp
qed

theorem required_message_unreachable_witness:
  "srv_reachable empty_srv \<and> l_error (new_login [] [] None) \<noteq> fields_required \<and>
   l_error (fst (login_form_run (new_login [] [] None, empty_srv) [TypePassword ''pw'', Submit 0]))
     \<noteq> fields_required \<and>
   l_error (fst (login_submit 0 (new_login [] ''pw'' None) empty_srv)) = fields_required"
  using required_message_unreachable [of empty_srv "new_login [] [] None" "[TypePassword ''pw'', Submit 0]"]
  by (simp add: srv_reachable.start new_login_def fields_required_def login_submit_def)


text \<open>
  C37: the registration form never shows its error and its success paragraph together
  (\<open>Register.js\<close> lines 82--83), whatever the user types and submits and whatever the
  server answers: each outcome of the post sets one message and clears the other
  (lines 25--30), and the only branch that sets the error without clearing the success,
  the empty-field guard of lines 15--18, is kept from running by the browser's validation.
  Called without that validation, the handler shows both.
\<close>

theorem register_messages_exclusive:
  assumes "fst (register_view f) = None \<or> snd (register_view f) = None"
  shows "fst (register_view (fst (register_form_run (f, s) es))) = None \<or>
         snd (register_view (fst (register_form_run (f, s) es))) = None"
  using assms
proof (induction es arbitrary: f s)
  case Nil
  then show ?case by simp
next
  case (Cons ev es)
  obtain f' s' where st: "register_step (f, s) ev = (f', s')" by (cases "register_step (f, s) ev")
  from register_step_exclusive [of f s ev] Cons.prems st
  have "fst (register_view f') = None \<or> snd (register_view f') = None"
    by (simp add: register_view_exclusive_iff)
  then show ?case using Cons.IH st by simp
qed

theorem register_messages_exclusive_witness:
  "fst (register_view (fst (register_form_run
      ((new_register [] ''pw'')\<lparr>r_success := JStr ''User registered successfully''\<rparr>, empty_srv)
      [TypeEmail [], Submit 1]))) = None \<and>
   register_view (fst (register_submit 1
      ((new_register [] ''pw'')\<lparr>r_success := JStr ''User registered successfully''\<rparr>) empty_srv))
     = (Some fields_required, Some (JStr ''User registered successfully''))"
  using register_messages_exclusive [of "(new_register [] ''pw'')\<lparr>r_success := JStr ''User registered successfully''\<rparr>"
      empty_srv "[TypeEmail [], Submit 1]"]
  by (simp add: register_view_def new_register_def register_submit_def fields_required_def
                submit_allowed_def)

end
