(* ===== verification/DashboardView.thy ===== *)
theory DashboardView
  imports Dashboard
begin

text \<open>
  What the dashboard of \<open>src/frontend/Dashboard.js\<close> renders (lines 212--266): the left
  column's error and loading paragraphs and recency chips, and the right column's weather
  summary or its placeholder. A rendered line is a list of JSX children: literal text, an
  embedded value \<open>{v}\<close>, or the locale-dependent \<open>toLocaleTimeString\<close> of line 261.
  React prints a string value as itself and \<open>null\<close>, \<open>undefined\<close> and booleans as
  nothing; how it prints a number (JavaScript's \<open>Number.prototype.toString\<close>) is not
  modelled, so \<open>line_text\<close> is \<open>None\<close> on numbers, arrays, objects and times.
  Emoji and the degree sign are their UTF-8 bytes.
\<close>

datatype frag = Txt string | Val jsval | LocalTime jsval

type_synonym line = "frag list"

definition react_text :: "jsval \<Rightarrow> string option" where
  "react_text v =
     (case v of JStr s \<Rightarrow> Some s | JNull \<Rightarrow> Some [] | JUndef \<Rightarrow> Some [] | JBool b \<Rightarrow> Some []
      | _ \<Rightarrow> None)"

fun frag_text :: "frag \<Rightarrow> string option" where
  "frag_text (Txt s) = Some s"
| "frag_text (Val v) = react_text v"
| "frag_text (LocalTime v) = None"

fun line_text :: "line \<Rightarrow> string option" where
  "line_text [] = Some []"
| "line_text (f # fs) =
     (case frag_text f of None \<Rightarrow> None
      | Some a \<Rightarrow> (case line_text fs of None \<Rightarrow> None | Some b \<Rightarrow> Some (a @ b)))"

definition thermometer :: string where "thermometer = [CHR 0xF0, CHR 0x9F, CHR 0x8C, CHR 0xA1]"
definition dash_symbol :: string where "dash_symbol = [CHR 0xF0, CHR 0x9F, CHR 0x92, CHR 0xA8]"
definition droplet :: string where "droplet = [CHR 0xF0, CHR 0x9F, CHR 0x92, CHR 0xA7]"
definition rain_cloud :: string where "rain_cloud = [CHR 0xF0, CHR 0x9F, CHR 0x8C, CHR 0xA7]"
definition chart_up :: string where "chart_up = [CHR 0xF0, CHR 0x9F, CHR 0x93, CHR 0x88]"
definition sunrise_sym :: string where "sunrise_sym = [CHR 0xF0, CHR 0x9F, CHR 0x8C, CHR 0x85]"
definition sunset_sym :: string where "sunset_sym = [CHR 0xF0, CHR 0x9F, CHR 0x8C, CHR 0x87]"
definition hourglass :: string where "hourglass = [CHR 0xE2, CHR 0x8F, CHR 0xB3]"

text \<open>Lines 253--261, in order.\<close>

definition weather_lines :: "temp_unit \<Rightarrow> snapshot \<Rightarrow> line list" where
  "weather_lines u w =
     [[Val (icon w), Txt '' '', Val (city w), Txt '', '', Val (snapshot.country w)],
      [Val (description w)],
      [Txt (thermometer @ '' ''), Txt (formatTemp u (temperature w)), Txt '' (Feels like '',
       Txt (formatTemp u (feelsLike w)), Txt '')''],
      [Txt (dash_symbol @ '' ''), Val (windspeed w), Txt '' km/h''],
      [Txt (droplet @ '' ''), Val (humidity w), Txt ''% humidity''],
      [Txt (rain_cloud @ '' ''), Val (precipitation w), Txt '' mm rain''],
      [Txt (chart_up @ '' ''), Val (pressure w), Txt '' hPa''],
      [Txt (sunrise_sym @ '' ''), Val (snapshot.sunrise w), Txt '' | '', Txt (sunset_sym @ '' ''),
       Val (snapshot.sunset w)],
      [Txt ''Last updated: '', LocalTime (snapshot.time w)]]"

record dash_view =
  v_error :: "string option"
  v_loading :: "string option"
  v_chips :: "jsval list"
  v_panel :: "line list"

definition placeholder :: line where
  "placeholder = [Txt ''Search for a city to view weather details.'']"

text \<open>Lines 236--265: \<open>{error && ...}\<close>, \<open>{loading && ...}\<close>, the chips, the summary.\<close>

definition render :: "dash \<Rightarrow> dash_view" where
  "render s =
     \<lparr>v_error = (if errorMsg s \<noteq> [] then Some (errorMsg s) else None),
      v_loading = (if loading s then Some (hourglass @ '' Loading...'') else None),
      v_chips = (if 0 < length (recentCities s) then recentCities s else []),
      v_panel = (case weather s of None \<Rightarrow> [placeholder] | Some w \<Rightarrow> weather_lines (unit s) w)\<rparr>"

section \<open>Lemmas\<close>

lemma line_text_append:
  "line_text (xs @ ys) =
     (case line_text xs of None \<Rightarrow> None
      | Some a \<Rightarrow> (case line_text ys of None \<Rightarrow> None | Some b \<Rightarrow> Some (a @ b)))"
  by (induction xs) (auto split: option.splits)

lemma weather_lines_length [simp]: "length (weather_lines u w) = 9"
  by (simp add: weather_lines_def)

section \<open>Properties of the view\<close>

text \<open>
  C4: where \<open>current.time\<close> is missing from \<open>hourly.time\<close>, the snapshot the dashboard
  installs renders its humidity line with no value, as \<open>"\<dots> % humidity"\<close>, and likewise
  the precipitation and pressure lines: the user sees blanks where the specification
  expects the values at index 0.
\<close>

theorem absent_time_blank_lines:
  assumes wf: "wf_forecast data"
    and ts: "get_opt (get_opt data ''hourly'') ''time'' = JArr ts"
    and absent: "\<forall>y \<in> set ts. \<not> strict_eq y (get_opt (get_opt data ''current_weather'') ''time'')"
  shows "\<exists>w. normalize_weather loc data = Inr w \<and>
             line_text (weather_lines u w ! 4) = Some (droplet @ '' % humidity'') \<and>
             line_text (weather_lines u w ! 5) = Some (rain_cloud @ '' '' @ '' mm rain'') \<and>
             line_text (weather_lines u w ! 6) = Some (chart_up @ '' '' @ '' hPa'')"
  using normalize_absent_index [OF wf ts absent, of loc] snap_at_negative [OF wf, of loc]
  by (simp add: weather_lines_def react_text_def)

theorem absent_time_blank_lines_witness:
  "\<exists>w. normalize_weather example_loc (example_body ''2024-01-01T05:00'') = Inr w \<and>
       line_text (weather_lines UnitC w ! 4) = Some (droplet @ '' % humidity'')"
  using absent_time_blank_lines [of "example_body ''2024-01-01T05:00''"
      "[JStr ''2024-01-01T00:00'', JStr ''2024-01-01T01:00'']" example_loc UnitC]
  by (simp add: example_body_def obj_get_def wf_forecast_def hourly_ok_def sun_ok_def) blast

end
