(* ===== verification/Protected.thy ===== *)
theory Protected
  imports Server Forecast
begin

text \<open>
  The token check of \<open>/protected\<close> in \<open>src/backend/server.js\<close> (lines 69--77). The route
  returns at line 68, after its constant answer, so these lines never run; they are the
  check the comment of line 66 announces, modelled here as written so that what they would
  accept can be compared with what \<open>/login\<close> issues. The \<open>Authorization\<close> header is
  absent (\<open>None\<close>) or a string. \<open>jwt.verify\<close> runs at a time \<open>now\<close> of the server's
  clock; it accepts exactly the strings \<open>jwt_sign\<close> produces (the signature with
  \<open>SECRET\<close> is the encoding of \<open>Server\<close>) whose \<open>exp\<close> is still ahead, and throws on
  every other, which the \<open>catch\<close> turns into a 401. The JSON answers are \<open>jsval\<close> objects;
  the user id of the payload is printed in decimal.
\<close>

text \<open>\<open>req.headers.authorization?.split(" ")[1]\<close> (line 69).\<close>

definition bearer_token :: "string option \<Rightarrow> jsval" where
  "bearer_token auth =
     (case auth of None \<Rightarrow> JUndef | Some h \<Rightarrow> get_index_opt (JArr (map JStr (split_on CHR '' '' h))) 1)"

text \<open>
  \<open>jwt.verify(token, SECRET)\<close> at time \<open>now\<close>: the signature check (the string is the one
  the server signs for the payload it carries), then the expiry check of \<open>jsonwebtoken\<close>,
  which rejects a token once \<open>now \<ge> exp\<close>. \<open>None\<close> is the exception either check throws.
\<close>

definition jwt_verify :: "nat \<Rightarrow> string \<Rightarrow> nat option" where
  "jwt_verify now t =
     (case split_on CHR ''.'' t of
        [h, a, b, c] \<Rightarrow>
          (let uid = parse_nat a; iat = parse_nat b
           in if t \<noteq> jwt_sign uid iat then None
              else if now < parse_nat c then Some uid else None)
      | _ \<Rightarrow> None)"

definition msg_obj :: "string \<Rightarrow> jsval" where
  "msg_obj m = JObj [(''msg'', JStr m)]"

definition access_granted :: "nat \<Rightarrow> jsval" where
  "access_granted uid = JObj [(''msg'', JStr ''Access granted''), (''userId'', JStr (nat_str uid))]"

definition protected_tail :: "nat \<Rightarrow> string option \<Rightarrow> nat \<times> jsval" where
  "protected_tail now auth =
     (let token = bearer_token auth in
      if \<not> truthy token then (401, msg_obj ''No token provided'')
      else (case token of
              JStr t \<Rightarrow>
                (case jwt_verify now t of
                   Some uid \<Rightarrow> (200, access_granted uid)
                 | None \<Rightarrow> (401, msg_obj ''Invalid token''))
            | _ \<Rightarrow> (401, msg_obj ''Invalid token'')))"

section \<open>Lemmas\<close>

lemma nat_str_no_space: "CHR '' '' \<notin> set (nat_str n)"
proof
  assume "CHR '' '' \<in> set (nat_str n)"
  then obtain d where "d < 10" "CHR '' '' = digit_char d" using nat_str_digits by blast
  then have "of_char (CHR '' '') = (48 + d :: nat)" by (metis of_char_digit)
  then show False by simp
qed

lemma jwt_sign_no_space: "CHR '' '' \<notin> set (jwt_sign uid iat)"
  by (simp add: jwt_sign_def nat_str_no_space)

lemma jwt_sign_ne [simp]: "jwt_sign uid iat \<noteq> []" "[] \<noteq> jwt_sign uid iat"
  by (simp_all add: jwt_sign_def)

lemma split_on_sep: "c \<notin> set xs \<Longrightarrow> split_on c (xs @ c # ys) = xs # split_on c ys"
  by (induction xs) auto

lemma split_jwt:
  "split_on CHR ''.'' (jwt_sign uid iat) = [''JWT'', nat_str uid, nat_str iat, nat_str (iat + 3600)]"
  by (simp add: jwt_sign_def split_on_sep split_on_no_sep)

lemma jwt_verify_sign [simp]:
  "jwt_verify now (jwt_sign uid iat) = (if now < iat + 3600 then Some uid else None)"
  by (simp add: jwt_verify_def split_jwt)

lemma jwt_verify_Some:
  assumes "jwt_verify now t = Some uid"
  shows "\<exists>iat. t = jwt_sign uid iat \<and> now < iat + 3600"
proof -
  from assms obtain h a b c where sp: "split_on CHR ''.'' t = [h, a, b, c]"
    by (auto simp: jwt_verify_def split: list.splits)
  with assms have t: "t = jwt_sign (parse_nat a) (parse_nat b)"
    by (auto simp: jwt_verify_def Let_def split: if_splits)
  with assms have "jwt_verify now (jwt_sign (parse_nat a) (parse_nat b)) = Some uid" by simp
  then have "uid = parse_nat a" "now < parse_nat b + 3600" by (simp_all split: if_splits)
  with t show ?thesis by blast
qed

lemma bearer_token_of:
  "CHR '' '' \<notin> set sch \<Longrightarrow> CHR '' '' \<notin> set t \<Longrightarrow> bearer_token (Some (sch @ CHR '' '' # t)) = JStr t"
  by (simp add: bearer_token_def split_on_one_sep)


lemma issued_token:
  assumes "srv_reachable s" "(r, (st, BToken t)) \<in> set (responses s)"
  shows "\<exists>u \<in> set (users s). \<exists>iat \<le> clock s. t = jwt_sign (oid u) iat"
proof -
  from reachable_typed [OF assms(1)] assms(2) have "resp_typed (users s) (clock s) (st, BToken t)"
    by (auto simp: typed_def list_all_iff)
  then show ?thesis by (rule resp_typed_tokenE) auto
qed

lemma protected_tail_token:
  "protected_tail now (Some (sch @ CHR '' '' # jwt_sign uid iat)) =
     (if now < iat + 3600 then (200, access_granted uid) else (401, msg_obj ''Invalid token''))"
  if "CHR '' '' \<notin> set sch"
  using that by (simp add: protected_tail_def bearer_token_of jwt_sign_no_space)

text \<open>The token check's refusals: no header, a header without a space, or a second word
  that is not a token the server signed, or one whose hour has passed.\<close>

theorem protected_tail_rejects:
  "protected_tail now None = (401, msg_obj ''No token provided'') \<and>
   (CHR '' '' \<notin> set h \<longrightarrow> protected_tail now (Some h) = (401, msg_obj ''No token provided'')) \<and>
   (fst (protected_tail now auth) = 200 \<longleftrightarrow>
      (\<exists>uid iat. bearer_token auth = JStr (jwt_sign uid iat) \<and> now < iat + 3600))"
proof (intro conjI)
  show "protected_tail now None = (401, msg_obj ''No token provided'')"
    by (simp add: protected_tail_def bearer_token_def)
  show "CHR '' '' \<notin> set h \<longrightarrow> protected_tail now (Some h) = (401, msg_obj ''No token provided'')"
    by (simp add: protected_tail_def bearer_token_def split_on_no_sep)
  show "fst (protected_tail now auth) = 200 \<longleftrightarrow>
          (\<exists>uid iat. bearer_token auth = JStr (jwt_sign uid iat) \<and> now < iat + 3600)"
    by (auto simp: protected_tail_def Let_def split: jsval.splits option.splits dest!: jwt_verify_Some)
qed

theorem protected_tail_rejects_witness:
  "CHR '' '' \<notin> set ''JWT.0'' \<and>
   protected_tail 0 (Some ''JWT.0'') = (401, msg_obj ''No token provided'') \<and>
   fst (protected_tail 0 (Some ''Bearer xyz'')) \<noteq> 200"
  using protected_tail_rejects [where h = "''JWT.0''" and now = 0 and auth = "Some ''Bearer xyz''"]
  by (simp add: bearer_token_def jwt_sign_def)

section \<open>Properties of the token check\<close>



end
