(* ===== verification/Spec2Isabelle.thy ===== *)
theory Spec2Isabelle
  imports Interleavings Forms DashboardView Protected
begin

text \<open>
  \<^bold>\<open>WeatherAPI: a verification development.\<close>

  The program has two parts. The backend \<open>src/src/backend/server.js\<close> is an Express
  server over a MongoDB \<open>User\<close> collection with three routes: \<open>/register\<close> and
  \<open>/login\<close> (bcrypt password hashes, a JWT on login) and \<open>/protected\<close>. The frontend is
  three React components: \<open>Register.js\<close> and \<open>Login.js\<close> post to the server, and the
  login stores the token in \<open>localStorage\<close>; \<open>Dashboard.js\<close> checks that token on
  mount, queries the Open-Meteo geocoding and forecast APIs, normalizes the forecast into a
  display snapshot, keeps a persisted list of the three most recent cities and displays
  temperatures in Celsius or Fahrenheit.

  \<^bold>\<open>Theories and what they model.\<close>
  \<^item> \<open>Prelude\<close>: shared list and string lemmas, the decimal printing \<open>nat_str\<close> and
    its parser, the \<open>js_simps\<close> and \<open>dash_simps\<close> collections.
  \<^item> \<open>JsValue\<close>: JSON/JavaScript values (\<open>jsval\<close>), \<open>TypeError\<close> as the \<open>Inl\<close> of a
    sum, property and index access with and without optional chaining, \<open>||\<close>,
    \<open>??\<close>, \<open>===\<close>, \<open>Array.prototype.indexOf\<close>, \<open>JSON.stringify\<close> of array elements.
  \<^item> \<open>Geocoder\<close>: the forward lookup of \<open>getWeather\<close> (Dashboard.js lines 102--108,
    \<open>geocode_search\<close>) and the reverse lookup of the mount effect (line 61,
    \<open>reverse_name\<close>).
  \<^item> \<open>Forecast\<close>: the normalization of a forecast body into the snapshot passed to
    \<open>setWeather\<close> (lines 126--157, \<open>normalize_weather\<close>), with the weather-code table
    \<open>codeMap\<close> and JavaScript's property-key coercion, and the specification's field
    derivation \<open>spec_snapshot\<close> it is compared with.
  \<^item> \<open>Recents\<close>: the recency list update (lines 159--163, \<open>update_recent\<close>), its
    persistence and reload (lines 11--18 and 28--33), and the specification's list of the
    three most recent distinct names \<open>recent_spec\<close>.
  \<^item> \<open>Units\<close>: \<open>toF\<close> and \<open>formatTemp\<close> (lines 74--81) with \<open>Math.round\<close> and the
    printing of tenths.
  \<^item> \<open>Dashboard\<close>: the whole component as a deterministic step function \<open>dash_step\<close>
    over events (mount, the JSX handlers of lines 222--246, the geolocation callback, and
    the settling of each axios request, in any order the network chooses). The state
    record \<open>dash\<close> holds the \<open>useState\<close> hooks, the route, both storage keys and the
    requests in flight, each tagged with the mount that sent it; \<open>getWeather\<close> runs to
    its first \<open>await\<close> and \<open>handle_response\<close> is the code after each \<open>await\<close>;
    the geolocation callback of the mount effect (lines 38--63) is \<open>PositionFix\<close> followed
    by \<open>mount_forecast_settled\<close> and \<open>mount_reverse_settled\<close>, and \<open>handleLogout\<close>
    (lines 69--72) is its own definition.
  \<^item> \<open>DashboardView\<close>: what the dashboard renders (lines 212--266, \<open>render\<close>,
    \<open>weather_lines\<close>): the error and loading paragraphs, the recency chips and the weather
    summary as lines of JSX children, with React's printing of embedded values.
  \<^item> \<open>Interleavings\<close>: concrete runs in which the order of the network's answers matters.
  \<^item> \<open>Server\<close>: the server as a state machine whose events are the arrival of a request
    and the resumption of one paused handler (\<open>srv_step\<close>); handlers are split at each
    \<open>await\<close> (\<open>phase\<close>, \<open>resume\<close>), the collection's schema is \<open>save_user\<close>.
    \<open>accounts\<close>, \<open>register_spec\<close> and \<open>login_spec\<close> are the account contract.
  \<^item> \<open>Auth\<close>: the two forms' submit handlers (\<open>login_submit\<close>, \<open>register_submit\<close>),
    axios's resolution of a response (\<open>axios_result\<close>), and the token handed to the
    dashboard.
  \<^item> \<open>Forms\<close>: the two forms as the browser runs them: typing, the \<open>required\<close> and
    \<open>type="email"\<close> validation before \<open>onSubmit\<close> (\<open>valid_email\<close>, the HTML standard's
    grammar of an e-mail address), and the paragraphs each form shows (\<open>login_view\<close>,
    \<open>register_view\<close>).
  \<^item> \<open>Protected\<close>: the token check of \<open>/protected\<close> (server.js lines 69--77), which the
    early return of line 68 makes unreachable, modelled as written (\<open>bearer_token\<close>,
    \<open>jwt_verify\<close>, \<open>protected_tail\<close>) to compare it with the tokens \<open>/login\<close> issues.

  \<^bold>\<open>What is proved.\<close> The forecast normalization refines the specification's field
  derivation on well-formed bodies and never raises on them; where \<open>current.time\<close> is not
  in \<open>hourly.time\<close> the code reads index \<open>-1\<close> (the specification says 0). The
  geocoder's outcomes, error paths included. The recency update refines the specification's
  list and keeps its invariant; storage round-trips. Temperature conversion bounds, the
  printing round trip, and that the text shown in Fahrenheit is the printing of
  \<open>toF\<close>. For the dashboard: an invariant of every reachable state (the
  spinner is on only while a query of the current mount is in flight; a mounted dashboard
  has a token; at most three recent cities; storage mirrors the list), the behaviour of
  each response on every branch, and traces showing that a stale response overwrites a
  newer one, that an error and an unrelated snapshot are shown together, that the spinner
  stops while a query is pending, and that the "Your Location" fallback ends in "City not
  found". The summary renders blank humidity, precipitation and pressure lines where
  \<open>current.time\<close> is missing. For the server: register and login refine the account
  contract, emails stay unique under every interleaving, every response sent is well typed
  (a token only for a stored account), two overlapping registrations give 200 and 500,
  every request is answered within three resumptions, and \<open>/protected\<close> is constant; its
  unreachable token check would accept every token \<open>/login\<close> issued, after any scheme word,
  with a stored user's id, and refuses a missing header. Across components: signing up and
  logging in through the forms lets the dashboard mount, the forms' "All fields are
  required!" message is unreachable behind the browser's validation, and the registration
  form never shows its error and success messages together (its empty-field branch, which
  would, is the one the validation blocks).

  \<^bold>\<open>Bounds and fuel.\<close> No definition needs fuel: every loop of the code is a
  structural recursion or a library function, the dashboard and the server are step
  functions run over finite event lists, and the claim that a handler finishes is stated
  with the number of resumptions it needs (three).

  \<^bold>\<open>Not modelled.\<close> The JSX markup and styles beyond which panels are shown (presentation),
  the MongoDB connection, CORS and JSON middleware and \<open>app.listen\<close> (I/O and
  configuration), console logging, the network itself (a request settles with a body or
  fails; timeouts do not exist in the code), numeric strings and exponent notation in
  JavaScript's number printing, the cryptography of bcrypt and JWT (abstracted to injective
  tags), JWT expiry, the browser's own validation messages and its stripping of white
  space from an email input, the static JSX (titles, labels, links, styles), and React's
  printing of numbers and of \<open>toLocaleTimeString\<close>.
\<close>

end
